(* ===== verification/Polygraph_Prelude.thy ===== *)
theory Polygraph_Prelude
  imports Main "HOL-Library.Word" "HOL-Library.Sublist"
begin

text \<open>
  Shared vocabulary of the development: how a Rust call can end, the standard-library
  operations on \<open>Option\<close>, \<open>Result\<close>, \<open>Vec\<close> and iterators that the sources
  under \<open>src/backend/src\<close> use, and the generic lemmas the component theories
  share.

  A Rust call either returns a value, returns \<open>Err e\<close>, or panics.  The model keeps
  the three apart: \<open>Inr v\<close> is the returned value, \<open>Inl (Err e)\<close> the returned
  error and \<open>Inl (Panic p)\<close> the abort.  The operator \<open>?\<close> of the sources is
  \<open>and_then\<close>: it passes both kinds of failure on unchanged.
\<close>

section \<open>Collections of facts\<close>

named_theorems result_simps \<open>evaluation rules of the result combinators\<close>
named_theorems model_defs \<open>unfolding equations of the modelled operations\<close>

section \<open>Machine integers\<close>

type_synonym u8 = "8 word"
type_synonym u32 = "32 word"
type_synonym i32 = "32 word"
type_synonym u128 = "128 word"

section \<open>Outcomes of a call\<close>

datatype panic = Index_out_of_bounds nat nat | Assertion_failed string | Panic_message string

datatype 'e fault = Panic panic | Err 'e

type_synonym ('e, 'a) result = "'e fault + 'a"

text \<open>
  The errors the sources return (\<open>anyhow::Error\<close> and the GraphQL error): a
  message of the program's own, a failed exchange with a remote service, or a reply
  that does not decode.
\<close>

datatype error = Message string | Transport string | Decode string

abbreviation Ok :: "'a \<Rightarrow> ('e, 'a) result" where
  "Ok v \<equiv> Inr v"

abbreviation Error :: "'e \<Rightarrow> ('e, 'a) result" where
  "Error e \<equiv> Inl (Err e)"

abbreviation Abort :: "panic \<Rightarrow> ('e, 'a) result" where
  "Abort p \<equiv> Inl (Panic p)"

definition and_then :: "('e, 'a) result \<Rightarrow> ('a \<Rightarrow> ('e, 'b) result) \<Rightarrow> ('e, 'b) result" where
  "and_then r f = (case r of Inl x \<Rightarrow> Inl x | Inr v \<Rightarrow> f v)"

definition is_ok :: "('e, 'a) result \<Rightarrow> bool" where
  "is_ok r = (case r of Inl _ \<Rightarrow> False | Inr _ \<Rightarrow> True)"

definition is_panic :: "('e, 'a) result \<Rightarrow> bool" where
  "is_panic r = (case r of Inl (Panic _) \<Rightarrow> True | _ \<Rightarrow> False)"

text \<open>\<open>Result::ok\<close>: the value as an option, the error dropped.\<close>

definition ok :: "('e, 'a) result \<Rightarrow> 'a option" where
  "ok r = (case r of Inl _ \<Rightarrow> None | Inr v \<Rightarrow> Some v)"

text \<open>\<open>Option::ok_or_else\<close>: \<open>None\<close> becomes the given error.\<close>

definition ok_or_else :: "'a option \<Rightarrow> 'e \<Rightarrow> ('e, 'a) result" where
  "ok_or_else x e = (case x of None \<Rightarrow> Error e | Some v \<Rightarrow> Ok v)"

definition unwrap_or :: "'a option \<Rightarrow> 'a \<Rightarrow> 'a" where
  "unwrap_or x d = (case x of None \<Rightarrow> d | Some v \<Rightarrow> v)"

text \<open>\<open>Option<Vec<T>>::unwrap_or_default\<close>: the default of a vector is the empty one.\<close>

definition unwrap_or_default :: "'a list option \<Rightarrow> 'a list" where
  "unwrap_or_default x = unwrap_or x []"

text \<open>Indexing a \<open>Vec\<close> or a slice: out of range it panics.\<close>

definition index :: "'a list \<Rightarrow> nat \<Rightarrow> ('e, 'a) result" where
  "index xs i = (if i < length xs then Ok (xs ! i) else Abort (Index_out_of_bounds i (length xs)))"

text \<open>\<open>slice::first\<close>.\<close>

definition first :: "'a list \<Rightarrow> 'a option" where
  "first xs = (case xs of [] \<Rightarrow> None | x # _ \<Rightarrow> Some x)"

text \<open>\<open>Iterator::filter_map\<close> followed by \<open>collect\<close>.\<close>

primrec filter_map :: "('a \<Rightarrow> 'b option) \<Rightarrow> 'a list \<Rightarrow> 'b list" where
  "filter_map f [] = []"
| "filter_map f (x # xs) = (case f x of None \<Rightarrow> filter_map f xs | Some y \<Rightarrow> y # filter_map f xs)"

text \<open>
  Collecting results in order, as \<open>collect\<close> into a \<open>Result\<close> and
  \<open>try_join_all\<close> over futures that are ready do: the values if every result is
  one, the first failure otherwise.
\<close>

primrec try_collect :: "('e, 'a) result list \<Rightarrow> ('e, 'a list) result" where
  "try_collect [] = Ok []"
| "try_collect (r # rs) = and_then r (\<lambda>v. and_then (try_collect rs) (\<lambda>vs. Ok (v # vs)))"

section \<open>Lemmas on outcomes\<close>

lemma and_then_Ok [simp, result_simps]: "and_then (Ok v) f = f v"
  by (simp add: and_then_def)

lemma and_then_Inl [simp, result_simps]: "and_then (Inl x) f = Inl x"
  by (simp add: and_then_def)

lemma and_then_eq_Ok_iff: "and_then r f = Ok w \<longleftrightarrow> (\<exists>v. r = Ok v \<and> f v = Ok w)"
  by (cases r) simp_all

lemma and_then_eq_Inl_iff:
  "and_then r f = Inl x \<longleftrightarrow> r = Inl x \<or> (\<exists>v. r = Ok v \<and> f v = Inl x)"
  by (cases r) simp_all

lemma and_then_assoc: "and_then (and_then r f) g = and_then r (\<lambda>v. and_then (f v) g)"
  by (cases r) simp_all

lemma is_ok_simps [simp, result_simps]:
  "is_ok (Ok v :: ('e, 'a) result)" "\<not> is_ok (Inl x :: ('e, 'a) result)"
  by (simp_all add: is_ok_def)

lemma is_ok_iff: "is_ok r \<longleftrightarrow> (\<exists>v. r = Ok v)"
  by (cases r) simp_all

lemma is_panic_simps [simp, result_simps]:
  "is_panic (Abort p :: ('e, 'a) result)"
  "\<not> is_panic (Error e :: ('e, 'a) result)"
  "\<not> is_panic (Ok v :: ('e, 'a) result)"
  by (simp_all add: is_panic_def)

lemma is_panic_and_then:
  "is_panic (and_then r f) \<longleftrightarrow> is_panic r \<or> (\<exists>v. r = Ok v \<and> is_panic (f v))"
  by (cases r) (simp_all add: is_panic_def)

lemma ok_simps [simp, result_simps]: "ok (Ok v) = Some v" "ok (Inl x) = None"
  by (simp_all add: ok_def)

lemma ok_or_else_simps [simp, result_simps]:
  "ok_or_else (Some v) e = Ok v" "ok_or_else None e = Error e"
  by (simp_all add: ok_or_else_def)

lemma unwrap_or_simps [simp, result_simps]:
  "unwrap_or (Some v) d = v" "unwrap_or None d = d"
  by (simp_all add: unwrap_or_def)

lemma unwrap_or_default_simps [simp, result_simps]:
  "unwrap_or_default (Some xs) = xs" "unwrap_or_default None = []"
  by (simp_all add: unwrap_or_default_def)

lemma try_collect_map_Ok [simp]: "try_collect (map Ok vs) = Ok vs"
  by (induction vs) simp_all

lemma try_collect_eq_Ok_iff: "try_collect rs = Ok vs \<longleftrightarrow> rs = map Ok vs"
proof
  show "rs = map Ok vs" if "try_collect rs = Ok vs"
    using that by (induction rs arbitrary: vs) (auto simp: and_then_eq_Ok_iff)
qed simp

lemma try_collect_first_failure [simp]: "try_collect (map Ok vs @ Inl x # rs) = Inl x"
  by (induction vs) simp_all

lemma try_collect_failure_iff:
  "try_collect rs = Inl x \<longleftrightarrow> (\<exists>vs rest. rs = map Ok vs @ Inl x # rest)"
proof
  show "\<exists>vs rest. rs = map Ok vs @ Inl x # rest" if "try_collect rs = Inl x"
    using that
  proof (induction rs)
    case Nil
    then show ?case by simp
  next
    case (Cons r rs)
    show ?case
    proof (cases r)
      case (Inl y)
      with Cons.prems have "r # rs = map Ok [] @ Inl x # rs" by simp
      then show ?thesis by blast
    next
      case (Inr v)
      with Cons.prems have "try_collect rs = Inl x"
        by (cases "try_collect rs") simp_all
      then obtain vs rest where "rs = map Ok vs @ Inl x # rest"
        using Cons.IH by blast
      with Inr have "r # rs = map Ok (v # vs) @ Inl x # rest" by simp
      then show ?thesis by blast
    qed
  qed
qed auto

lemma try_collect_map_option:
  assumes "\<And>x. x \<in> set xs \<Longrightarrow> f x = (case g x of Some v \<Rightarrow> Ok v | None \<Rightarrow> Inl e)"
  shows "try_collect (map f xs) = (case those (map g xs) of Some vs \<Rightarrow> Ok vs | None \<Rightarrow> Inl e)"
  using assms by (induction xs) (auto split: option.split)

lemma is_panic_try_collect: "is_panic (try_collect rs) \<Longrightarrow> \<exists>r \<in> set rs. is_panic r"
  by (induction rs) (auto simp: is_panic_and_then)

section \<open>Lemmas on vectors and iterators\<close>

lemma index_in_range [simp]: "i < length xs \<Longrightarrow> index xs i = Ok (xs ! i)"
  by (simp add: index_def)

lemma index_out_of_range [simp]:
  "length xs \<le> i \<Longrightarrow> index xs i = Abort (Index_out_of_bounds i (length xs))"
  by (simp add: index_def)

lemma index_is_ok_iff: "is_ok (index xs i :: ('e, 'a) result) \<longleftrightarrow> i < length xs"
  by (simp add: index_def)

lemma first_simps [simp]: "first [] = None" "first (x # xs) = Some x"
  by (simp_all add: first_def)

lemma first_eq_Some_iff: "first xs = Some x \<longleftrightarrow> (\<exists>ys. xs = x # ys)"
  by (cases xs) auto

lemma first_eq_None_iff [simp]: "first xs = None \<longleftrightarrow> xs = []"
  by (cases xs) auto

lemma filter_map_eq_map_filter: "filter_map f xs = List.map_filter f xs"
  by (induction xs) (simp_all add: List.map_filter_simps split: option.split)

lemma filter_map_append [simp]: "filter_map f (xs @ ys) = filter_map f xs @ filter_map f ys"
  by (induction xs) (simp_all split: option.split)

lemma length_filter_map_le: "length (filter_map f xs) \<le> length xs"
  by (induction xs) (simp_all split: option.split add: le_SucI)

lemma set_filter_map: "set (filter_map f xs) = {y. \<exists>x \<in> set xs. f x = Some y}"
  by (induction xs) (auto split: option.splits)

lemma filter_map_all_Some:
  "(\<And>x. x \<in> set xs \<Longrightarrow> f x = Some (g x)) \<Longrightarrow> filter_map f xs = map g xs"
  by (induction xs) simp_all

lemma filter_map_all_None: "(\<And>x. x \<in> set xs \<Longrightarrow> f x = None) \<Longrightarrow> filter_map f xs = []"
  by (induction xs) simp_all

lemma filter_map_map_option:
  "filter_map (\<lambda>x. map_option g (h x)) xs = map g (filter_map h xs)"
  by (induction xs) (simp_all split: option.split)

end
