(* ===== verification/Rust_Float.thy ===== *)
theory Rust_Float
  imports Complex_Main Polygraph_Prelude
begin

text \<open>
  The values of Rust's \<open>f64\<close> as the sources use them: a finite number, one of the
  two infinities, or NaN.  Arithmetic on finite numbers is exact (rounding and
  overflow to infinity are not modelled, and the two zeros are one value); the
  special values follow IEEE 754, so that a claim about every \<open>f64\<close> covers NaN
  and the infinities.  Comparison is \<open>partial_cmp\<close>; \<open>f64::min\<close>,
  \<open>f64::clamp\<close> and the integer casts are the standard library's.
\<close>

section \<open>Values\<close>

datatype f64 = Num real | PosInf | NegInf | NaN

datatype ordering = Less | Equal | Greater

definition is_nan :: "f64 \<Rightarrow> bool" where
  "is_nan x = (x = NaN)"

fun is_finite :: "f64 \<Rightarrow> bool" where
  "is_finite (Num _) = True"
| "is_finite _ = False"

fun to_real :: "f64 \<Rightarrow> real option" where
  "to_real (Num a) = Some a"
| "to_real _ = None"

section \<open>Comparison\<close>

fun partial_cmp :: "f64 \<Rightarrow> f64 \<Rightarrow> ordering option" where
  "partial_cmp NaN _ = None"
| "partial_cmp _ NaN = None"
| "partial_cmp (Num a) (Num b) = Some (if a < b then Less else if a = b then Equal else Greater)"
| "partial_cmp PosInf PosInf = Some Equal"
| "partial_cmp NegInf NegInf = Some Equal"
| "partial_cmp PosInf _ = Some Greater"
| "partial_cmp _ PosInf = Some Less"
| "partial_cmp NegInf _ = Some Less"
| "partial_cmp _ NegInf = Some Greater"

instantiation f64 :: ord
begin

definition less_eq_f64 :: "f64 \<Rightarrow> f64 \<Rightarrow> bool" where
  "less_eq_f64 a b = (partial_cmp a b = Some Less \<or> partial_cmp a b = Some Equal)"

definition less_f64 :: "f64 \<Rightarrow> f64 \<Rightarrow> bool" where
  "less_f64 a b = (partial_cmp a b = Some Less)"

instance ..

end

section \<open>Arithmetic\<close>

fun f64_neg :: "f64 \<Rightarrow> f64" where
  "f64_neg (Num a) = Num (- a)"
| "f64_neg PosInf = NegInf"
| "f64_neg NegInf = PosInf"
| "f64_neg NaN = NaN"

fun f64_add :: "f64 \<Rightarrow> f64 \<Rightarrow> f64" where
  "f64_add NaN _ = NaN"
| "f64_add _ NaN = NaN"
| "f64_add (Num a) (Num b) = Num (a + b)"
| "f64_add PosInf NegInf = NaN"
| "f64_add NegInf PosInf = NaN"
| "f64_add PosInf _ = PosInf"
| "f64_add _ PosInf = PosInf"
| "f64_add NegInf _ = NegInf"
| "f64_add _ NegInf = NegInf"

fun inf_times :: "bool \<Rightarrow> real \<Rightarrow> f64" where
  "inf_times pos b =
     (if b = 0 then NaN else if (0 < b) = pos then PosInf else NegInf)"

fun f64_mul :: "f64 \<Rightarrow> f64 \<Rightarrow> f64" where
  "f64_mul NaN _ = NaN"
| "f64_mul _ NaN = NaN"
| "f64_mul (Num a) (Num b) = Num (a * b)"
| "f64_mul PosInf (Num b) = inf_times True b"
| "f64_mul NegInf (Num b) = inf_times False b"
| "f64_mul (Num a) PosInf = inf_times True a"
| "f64_mul (Num a) NegInf = inf_times False a"
| "f64_mul PosInf PosInf = PosInf"
| "f64_mul NegInf NegInf = PosInf"
| "f64_mul PosInf NegInf = NegInf"
| "f64_mul NegInf PosInf = NegInf"

fun f64_div :: "f64 \<Rightarrow> f64 \<Rightarrow> f64" where
  "f64_div NaN _ = NaN"
| "f64_div _ NaN = NaN"
| "f64_div (Num a) (Num b) =
     (if b = 0 then (if a = 0 then NaN else if 0 < a then PosInf else NegInf)
      else Num (a / b))"
| "f64_div (Num a) _ = Num 0"
| "f64_div PosInf (Num b) = (if 0 \<le> b then PosInf else NegInf)"
| "f64_div NegInf (Num b) = (if 0 \<le> b then NegInf else PosInf)"
| "f64_div _ _ = NaN"

instantiation f64 :: "{zero, one, plus, minus, uminus, times, inverse}"
begin

definition zero_f64 :: f64 where
  "zero_f64 = Num 0"

definition one_f64 :: f64 where
  "one_f64 = Num 1"

definition plus_f64 :: "f64 \<Rightarrow> f64 \<Rightarrow> f64" where
  "plus_f64 a b = f64_add a b"

definition uminus_f64 :: "f64 \<Rightarrow> f64" where
  "uminus_f64 a = f64_neg a"

definition minus_f64 :: "f64 \<Rightarrow> f64 \<Rightarrow> f64" where
  "minus_f64 a b = f64_add a (f64_neg b)"

definition times_f64 :: "f64 \<Rightarrow> f64 \<Rightarrow> f64" where
  "times_f64 a b = f64_mul a b"

definition divide_f64 :: "f64 \<Rightarrow> f64 \<Rightarrow> f64" where
  "divide_f64 a b = f64_div a b"

definition inverse_f64 :: "f64 \<Rightarrow> f64" where
  "inverse_f64 a = f64_div (Num 1) a"

instance ..

end

section \<open>Standard-library operations\<close>

text \<open>\<open>f64::min\<close>: if one argument is NaN the other is returned.\<close>

fun f64_min :: "f64 \<Rightarrow> f64 \<Rightarrow> f64" where
  "f64_min NaN b = b"
| "f64_min a NaN = a"
| "f64_min a b = (if a < b then a else b)"

text \<open>
  \<open>f64::clamp\<close>: asserts \<open>min <= max\<close> (which fails for a NaN bound too), then
  moves the value into the interval; NaN stays NaN.
\<close>

definition f64_clamp :: "f64 \<Rightarrow> f64 \<Rightarrow> f64 \<Rightarrow> ('e, f64) result" where
  "f64_clamp x lo hi =
     (if lo \<le> hi then
        (let x1 = (if x < lo then lo else x) in Ok (if hi < x1 then hi else x1))
      else Abort (Assertion_failed ''min > max, or either was NaN''))"

text \<open>The casts \<open>u32 as f64\<close> and \<open>usize as f64\<close>.\<close>

definition f64_of_u32 :: "u32 \<Rightarrow> f64" where
  "f64_of_u32 w = Num (real (unat w))"

definition f64_of_usize :: "nat \<Rightarrow> f64" where
  "f64_of_usize n = Num (real n)"

text \<open>The unit interval, as a property of a value: NaN is outside.\<close>

definition in_unit :: "f64 \<Rightarrow> bool" where
  "in_unit x = (Num 0 \<le> x \<and> x \<le> Num 1)"


section \<open>Comparison lemmas\<close>

lemmas f64_ord_defs = less_eq_f64_def less_f64_def

lemmas f64_arith_defs =
  zero_f64_def one_f64_def plus_f64_def minus_f64_def uminus_f64_def times_f64_def
  divide_f64_def inverse_f64_def

lemma is_nan_simps [simp]:
  "is_nan NaN" "\<not> is_nan (Num a)" "\<not> is_nan PosInf" "\<not> is_nan NegInf"
  by (simp_all add: is_nan_def)

lemma is_finite_iff: "is_finite x \<longleftrightarrow> (\<exists>a. x = Num a)"
  by (cases x) simp_all

lemma to_real_eq_Some_iff [simp]: "to_real x = Some a \<longleftrightarrow> x = Num a"
  by (cases x) simp_all

lemma partial_cmp_None_iff: "partial_cmp a b = None \<longleftrightarrow> a = NaN \<or> b = NaN"
  by (cases a; cases b) simp_all

lemma partial_cmp_Equal_iff: "partial_cmp a b = Some Equal \<longleftrightarrow> a = b \<and> a \<noteq> NaN"
  by (cases a; cases b) simp_all

lemma partial_cmp_flip:
  "partial_cmp b a = map_option (\<lambda>c. case c of Less \<Rightarrow> Greater | Equal \<Rightarrow> Equal | Greater \<Rightarrow> Less)
     (partial_cmp a b)"
  by (cases a; cases b) auto

lemma Num_le_iff [simp]: "Num a \<le> Num b \<longleftrightarrow> a \<le> b"
  by (auto simp: f64_ord_defs)

lemma Num_less_iff [simp]: "Num a < Num b \<longleftrightarrow> a < b"
  by (simp add: f64_ord_defs)

lemma NaN_compare [simp]:
  "\<not> NaN \<le> x" "\<not> x \<le> NaN" "\<not> NaN < x" "\<not> x < NaN"
  by (cases x; simp add: f64_ord_defs)+

lemma PosInf_compare [simp]:
  "x \<le> PosInf \<longleftrightarrow> x \<noteq> NaN" "PosInf \<le> x \<longleftrightarrow> x = PosInf"
  "\<not> PosInf < x" "x < PosInf \<longleftrightarrow> x \<noteq> NaN \<and> x \<noteq> PosInf"
  by (cases x; simp add: f64_ord_defs)+

lemma NegInf_compare [simp]:
  "NegInf \<le> x \<longleftrightarrow> x \<noteq> NaN" "x \<le> NegInf \<longleftrightarrow> x = NegInf"
  "\<not> x < NegInf" "NegInf < x \<longleftrightarrow> x \<noteq> NaN \<and> x \<noteq> NegInf"
  by (cases x; simp add: f64_ord_defs)+

lemma f64_le_less: "a \<le> b \<longleftrightarrow> a < b \<or> (a = b \<and> a \<noteq> NaN)"
  by (auto simp: f64_ord_defs partial_cmp_Equal_iff)

lemma f64_le_refl_iff [simp]: "x \<le> x \<longleftrightarrow> x \<noteq> NaN"
  by (cases x) simp_all

lemma f64_less_irrefl [simp]: "\<not> x < (x :: f64)"
  by (cases x) simp_all

lemma f64_le_trans: "a \<le> b \<Longrightarrow> b \<le> c \<Longrightarrow> a \<le> (c :: f64)"
  by (cases a; cases b; cases c) simp_all

lemma f64_le_antisym: "a \<le> b \<Longrightarrow> b \<le> a \<Longrightarrow> a = (b :: f64)"
  by (cases a; cases b) simp_all

lemma f64_le_total: "a \<noteq> NaN \<Longrightarrow> b \<noteq> NaN \<Longrightarrow> a \<le> b \<or> b \<le> (a :: f64)"
  by (cases a; cases b) auto

lemma f64_not_less_iff: "a \<noteq> NaN \<Longrightarrow> b \<noteq> NaN \<Longrightarrow> \<not> a < b \<longleftrightarrow> b \<le> (a :: f64)"
  by (cases a; cases b) auto

section \<open>Arithmetic lemmas\<close>

lemma Num_arith [simp]:
  "Num a + Num b = Num (a + b)"
  "Num a - Num b = Num (a - b)"
  "Num a * Num b = Num (a * b)"
  "- Num a = Num (- a)"
  by (simp_all add: f64_arith_defs)

lemma Num_divide [simp]:
  "b \<noteq> 0 \<Longrightarrow> Num a / Num b = Num (a / b)"
  "Num 0 / Num 0 = NaN"
  by (simp_all add: f64_arith_defs)

lemma NaN_arith [simp]:
  "NaN + x = NaN" "x + NaN = NaN" "NaN - x = NaN" "x - NaN = NaN"
  "NaN * x = NaN" "x * NaN = NaN" "NaN / x = NaN" "x / NaN = NaN" "- NaN = NaN"
  by (cases x; simp add: f64_arith_defs)+

lemma Inf_plus_Num [simp]:
  "PosInf + Num a = PosInf" "Num a + PosInf = PosInf"
  "NegInf + Num a = NegInf" "Num a + NegInf = NegInf"
  "PosInf + PosInf = PosInf" "NegInf + NegInf = NegInf"
  "PosInf + NegInf = NaN" "NegInf + PosInf = NaN"
  by (simp_all add: f64_arith_defs)

lemma Num_minus_Inf [simp]:
  "Num a - PosInf = NegInf" "Num a - NegInf = PosInf"
  "PosInf - Num a = PosInf" "NegInf - Num a = NegInf"
  "PosInf - PosInf = NaN" "NegInf - NegInf = NaN"
  by (simp_all add: f64_arith_defs)

lemma Inf_times_Num [simp]:
  "0 < a \<Longrightarrow> PosInf * Num a = PosInf" "0 < a \<Longrightarrow> NegInf * Num a = NegInf"
  "a < 0 \<Longrightarrow> PosInf * Num a = NegInf" "a < 0 \<Longrightarrow> NegInf * Num a = PosInf"
  "PosInf * Num 0 = NaN" "NegInf * Num 0 = NaN"
  by (auto simp: f64_arith_defs)

lemma f64_add_commute: "a + b = b + (a :: f64)"
  by (cases a; cases b) (simp_all add: f64_arith_defs)

lemma f64_mul_commute: "a * b = b * (a :: f64)"
  by (cases a; cases b) (simp_all add: f64_arith_defs)

lemma f64_add_eq_NaN_iff:
  "a + b = NaN \<longleftrightarrow> a = NaN \<or> b = NaN \<or> (a = PosInf \<and> b = NegInf) \<or> (a = NegInf \<and> b = PosInf)"
  by (cases a; cases b) (simp_all add: f64_arith_defs)

lemma f64_sub_eq_NaN_iff:
  "a - b = NaN \<longleftrightarrow> a = NaN \<or> b = NaN \<or> (a = PosInf \<and> b = PosInf) \<or> (a = NegInf \<and> b = NegInf)"
  by (cases a; cases b) (simp_all add: f64_arith_defs)

lemma f64_mul_Num_eq_NaN_iff: "c \<noteq> 0 \<Longrightarrow> a * Num c = NaN \<longleftrightarrow> a = NaN"
  by (cases a) (simp_all add: f64_arith_defs)

text \<open>On finite values the operations are the ones of the reals.\<close>

lemma to_real_arith:
  assumes "to_real a = Some x" and "to_real b = Some y"
  shows "to_real (a + b) = Some (x + y)" and "to_real (a - b) = Some (x - y)"
    and "to_real (a * b) = Some (x * y)" and "y \<noteq> 0 \<Longrightarrow> to_real (a / b) = Some (x / y)"
  using assms by simp_all

section \<open>Lemmas on the standard-library operations\<close>

lemma f64_min_Num [simp]: "f64_min (Num a) (Num b) = Num (min a b)"
  by (simp add: min_def)

lemma f64_min_eq_NaN_iff: "f64_min a b = NaN \<longleftrightarrow> a = NaN \<and> b = NaN"
  by (cases a; cases b) simp_all

lemma f64_min_le_right: "f64_min x (Num c) \<le> Num c"
  by (cases x) simp_all

lemma f64_min_commute: "f64_min a b = f64_min b a"
  by (cases a; cases b) auto

lemma f64_clamp_Num:
  "lo \<le> hi \<Longrightarrow> f64_clamp (Num x) (Num lo) (Num hi) = Ok (Num (max lo (min hi x)))"
  by (auto simp: f64_clamp_def Let_def)

lemma f64_clamp_special [simp]:
  "lo \<le> hi \<Longrightarrow> f64_clamp NaN (Num lo) (Num hi) = Ok NaN"
  "lo \<le> hi \<Longrightarrow> f64_clamp PosInf (Num lo) (Num hi) = Ok (Num hi)"
  "lo \<le> hi \<Longrightarrow> f64_clamp NegInf (Num lo) (Num hi) = Ok (Num lo)"
  by (auto simp: f64_clamp_def Let_def)

lemma f64_clamp_panics_iff: "is_panic (f64_clamp x lo hi :: ('e, f64) result) \<longleftrightarrow> \<not> lo \<le> hi"
  by (simp add: f64_clamp_def Let_def)

lemma f64_clamp_in_range:
  assumes "f64_clamp x lo hi = Ok y" and "x \<noteq> NaN"
  shows "lo \<le> y \<and> y \<le> hi"
  using assms
  by (cases x; cases lo; cases hi) (auto simp: f64_clamp_def Let_def split: if_splits)

lemma f64_clamp_NaN_iff: "f64_clamp x lo hi = Ok y \<Longrightarrow> y = NaN \<longleftrightarrow> x = NaN"
  by (cases x; cases lo; cases hi) (auto simp: f64_clamp_def Let_def split: if_splits)

lemma f64_clamp_id: "lo \<le> x \<Longrightarrow> x \<le> hi \<Longrightarrow> f64_clamp x lo hi = Ok x"
  by (cases x; cases lo; cases hi) (auto simp: f64_clamp_def Let_def)

lemma f64_of_u32_le_iff [simp]: "f64_of_u32 a \<le> f64_of_u32 b \<longleftrightarrow> a \<le> b"
  by (simp add: f64_of_u32_def word_less_eq_iff_unsigned [where ?'a = real])

lemma f64_of_u32_bounds: "Num 0 \<le> f64_of_u32 w \<and> f64_of_u32 w < Num (2 ^ 32)"
proof -
  have "unat w < 2 ^ 32"
    using unsigned_less [of w, where ?'a = nat] by simp
  then have "real (unat w) < real (2 ^ 32)"
    by (simp only: of_nat_less_iff)
  then show ?thesis
    by (simp add: f64_of_u32_def del: of_nat_unat)
qed

lemma in_unit_simps [simp]:
  "in_unit (Num a) \<longleftrightarrow> 0 \<le> a \<and> a \<le> 1"
  "\<not> in_unit NaN" "\<not> in_unit PosInf" "\<not> in_unit NegInf"
  by (simp_all add: in_unit_def)

lemma in_unit_iff: "in_unit x \<longleftrightarrow> (\<exists>a. x = Num a \<and> 0 \<le> a \<and> a \<le> 1)"
  by (cases x) simp_all


section \<open>Monotonicity\<close>

text \<open>
  The order lemmas the scoring proofs share.  A sum of two values is NaN only for
  opposite infinities, so monotonicity of \<open>+\<close> needs both sums to be numbers.
\<close>

lemma f64_add_Num_eq_NaN_iff [simp]: "x + Num b = NaN \<longleftrightarrow> x = NaN" "Num b + x = NaN \<longleftrightarrow> x = NaN"
  by (cases x; simp)+

lemma f64_add_mono:
  "a \<le> a' \<Longrightarrow> b \<le> b' \<Longrightarrow> a + b \<noteq> NaN \<Longrightarrow> a' + b' \<noteq> NaN \<Longrightarrow> a + b \<le> a' + (b' :: f64)"
  by (cases a; cases a'; cases b; cases b') simp_all

lemma f64_mul_pos_mono: "0 < c \<Longrightarrow> a \<le> a' \<Longrightarrow> a * Num c \<le> a' * Num c"
  by (cases a; cases a') simp_all

lemma f64_div_pos_mono: "0 < c \<Longrightarrow> a \<le> a' \<Longrightarrow> a / Num c \<le> a' / Num c"
  by (cases a; cases a') (simp_all add: f64_arith_defs divide_right_mono)

lemma f64_sub_anti: "a \<le> a' \<Longrightarrow> Num c - a' \<le> Num c - a"
  by (cases a; cases a') simp_all

lemma f64_min_mono: "a \<le> a' \<Longrightarrow> f64_min a (Num c) \<le> f64_min a' (Num c)"
  by (cases a; cases a') auto

lemma f64_clamp_mono:
  assumes "x \<le> y" and "f64_clamp x lo hi = Ok x'" and "f64_clamp y lo hi = Ok y'"
  shows "x' \<le> y'"
proof -
  from assms(2) have "lo \<le> hi"
    by (auto simp: f64_clamp_def split: if_splits)
  with assms show ?thesis
    by (cases x; cases y; cases lo; cases hi) (auto simp: f64_clamp_def Let_def split: if_splits)
qed

end
