(* ===== verification/Wasm_Credibility.thy ===== *)
theory Wasm_Credibility
  imports Rust_Float
begin

text \<open>
  The browser-side credibility scorer, \<open>src/backend/src/wasm/credibility.rs\<close>:
  the input struct, the scorer with its weight vector, \<open>score\<close> and
  \<open>get_recommendation\<close>.  \<open>score\<close> receives a JavaScript value and
  deserialises it first; the deserialiser, with the conversion of its error, is a
  parameter of the model (\<open>from_value\<close>), so the lemmas hold for every
  implementation of it.  The decimal literals of the source are read as the
  numbers they write, not as the doubles nearest to them.
  \<open>score_spec\<close> is the scoring contract on real numbers; the lemmas show that the
  code computes it on finite inputs, what it does on NaN and the infinities, that it
  never panics, and that the labels of \<open>get_recommendation\<close> rise with the score.
  \<open>init\<close>, the start function of the module, installs the panic hook of the
  console when the crate is built with that feature.
\<close>

section \<open>Data\<close>

record CredibilityInput =
  source_credibility :: f64
  fact_check_count :: u32
  corroborating_sources :: u32
  claim_complexity :: f64

record CredibilityScorer =
  weights :: "f64 list"

section \<open>Operations\<close>

definition scorer_new :: CredibilityScorer where
  "scorer_new = \<lparr>weights = [Num 0.35, Num 0.25, Num 0.15, Num 0.25]\<rparr>"

text \<open>
  The body of \<open>score\<close> after deserialisation.  The four weights are read in the
  order of the sum, so the first index out of range is the one that panics.
\<close>

definition score_input :: "CredibilityScorer \<Rightarrow> CredibilityInput \<Rightarrow> ('e, f64) result" where
  "score_input self input =
     and_then (index (weights self) 0) (\<lambda>w0.
     and_then (index (weights self) 1) (\<lambda>w1.
     and_then (index (weights self) 2) (\<lambda>w2.
     and_then (index (weights self) 3) (\<lambda>w3.
       f64_clamp
         (source_credibility input * w0
          + f64_min (f64_of_u32 (fact_check_count input) / Num 10) (Num 1) * w1
          + f64_min (f64_of_u32 (corroborating_sources input) / Num 5) (Num 1) * w2
          + (Num 1 - claim_complexity input) * w3)
         (Num 0) (Num 1)))))"

text \<open>
  \<open>score\<close>.  Its parameter \<open>from_value\<close> is the first line of the function:
  \<open>serde_wasm_bindgen::from_value\<close> followed by the conversion of its error into
  a JavaScript value, which \<open>?\<close> applies, so its failure is the value that
  \<open>score\<close> returns as its error.
\<close>

definition score ::
  "('js \<Rightarrow> ('e, CredibilityInput) result) \<Rightarrow> CredibilityScorer \<Rightarrow> 'js \<Rightarrow> ('e, f64) result" where
  "score from_value self input = and_then (from_value input) (score_input self)"

definition get_recommendation :: "CredibilityScorer \<Rightarrow> f64 \<Rightarrow> string" where
  "get_recommendation self s =
     (if Num 0.8 \<le> s then ''highly_credible''
      else if Num 0.6 \<le> s then ''likely_credible''
      else if Num 0.4 \<le> s then ''uncertain''
      else if Num 0.2 \<le> s then ''likely_not_credible''
      else ''not_credible'')"

text \<open>
  \<open>init\<close>: with the feature \<open>console_error_panic_hook\<close> the hook is set, once
  for the module; without it the function does nothing.
\<close>

datatype panic_hook = Default_hook | Console_error_hook

record wasm_module =
  hook :: panic_hook
  hook_set :: bool

definition set_once :: "wasm_module \<Rightarrow> wasm_module" where
  "set_once m = (if hook_set m then m else \<lparr>hook = Console_error_hook, hook_set = True\<rparr>)"

definition init :: "bool \<Rightarrow> wasm_module \<Rightarrow> wasm_module" where
  "init console_error_panic_hook m = (if console_error_panic_hook then set_once m else m)"

section \<open>The scoring contract\<close>

text \<open>
  The score as the design states it: a weighted sum of the source credibility, the
  saturated fact-check and corroboration counts and the inverse complexity, clamped
  to the unit interval.
\<close>

definition saturate :: "nat \<Rightarrow> nat \<Rightarrow> real" where
  "saturate n cap = min (real n / real cap) 1"

definition weighted_sum :: "real \<Rightarrow> nat \<Rightarrow> nat \<Rightarrow> real \<Rightarrow> real" where
  "weighted_sum sc fc cs cc =
     sc * 0.35 + saturate fc 10 * 0.25 + saturate cs 5 * 0.15 + (1 - cc) * 0.25"

definition score_spec :: "real \<Rightarrow> nat \<Rightarrow> nat \<Rightarrow> real \<Rightarrow> real" where
  "score_spec sc fc cs cc = max 0 (min 1 (weighted_sum sc fc cs cc))"

text \<open>The inputs on which the sum is NaN: a NaN field, or infinities that cancel.\<close>

definition nan_input :: "CredibilityInput \<Rightarrow> bool" where
  "nan_input input =
     (source_credibility input = NaN \<or> claim_complexity input = NaN
      \<or> (source_credibility input = PosInf \<and> claim_complexity input = PosInf)
      \<or> (source_credibility input = NegInf \<and> claim_complexity input = NegInf))"

text \<open>More evidence and less complexity: the order in which the score must rise.\<close>

definition input_le :: "CredibilityInput \<Rightarrow> CredibilityInput \<Rightarrow> bool" where
  "input_le a b =
     (source_credibility a \<le> source_credibility b
      \<and> fact_check_count a \<le> fact_check_count b
      \<and> corroborating_sources a \<le> corroborating_sources b
      \<and> claim_complexity b \<le> claim_complexity a)"

text \<open>The rank of a label, lowest first; a string that is no label has rank 0.\<close>

definition recommendation_rank :: "string \<Rightarrow> nat" where
  "recommendation_rank l =
     (if l = ''highly_credible'' then 4
      else if l = ''likely_credible'' then 3
      else if l = ''uncertain'' then 2
      else if l = ''likely_not_credible'' then 1
      else 0)"

definition recommendations :: "string list" where
  "recommendations =
     [''not_credible'', ''likely_not_credible'', ''uncertain'', ''likely_credible'',
      ''highly_credible'']"

text \<open>The unclamped sum of the code, for the weights of \<open>scorer_new\<close>.\<close>

definition raw_sum :: "CredibilityInput \<Rightarrow> f64" where
  "raw_sum input =
     source_credibility input * Num 0.35
     + f64_min (f64_of_u32 (fact_check_count input) / Num 10) (Num 1) * Num 0.25
     + f64_min (f64_of_u32 (corroborating_sources input) / Num 5) (Num 1) * Num 0.15
     + (Num 1 - claim_complexity input) * Num 0.25"

section \<open>The weight vector\<close>

lemma weights_scorer_new [simp]:
  "weights scorer_new = [Num 0.35, Num 0.25, Num 0.15, Num 0.25]"
  by (simp add: scorer_new_def)

lemma weights_sum_to_one: "foldr (+) (weights scorer_new) (Num 0) = Num 1"
  by simp

lemma score_input_new: "score_input scorer_new input = f64_clamp (raw_sum input) (Num 0) (Num 1)"
  by (simp add: score_input_def raw_sum_def index_def)

lemma saturated_count:
  "0 < cap \<Longrightarrow> f64_min (f64_of_u32 n / Num (real cap)) (Num 1) = Num (saturate (unat n) cap)"
  by (simp add: f64_of_u32_def saturate_def del: of_nat_unat)

lemma saturate_bounds [simp]: "0 \<le> saturate n cap" "saturate n cap \<le> 1"
  by (simp_all add: saturate_def)

lemma saturate_mono:
  assumes "m \<le> n"
  shows "saturate m cap \<le> saturate n cap"
proof -
  from assms have "real m / real cap \<le> real n / real cap"
    by (simp add: divide_right_mono)
  then show ?thesis
    by (simp add: saturate_def min_le_iff_disj)
qed

lemma raw_sum_Num:
  assumes "source_credibility input = Num sc" and "claim_complexity input = Num cc"
  shows "raw_sum input =
    Num (weighted_sum sc (unat (fact_check_count input)) (unat (corroborating_sources input)) cc)"
  using assms saturated_count [of 10] saturated_count [of 5]
  by (simp add: raw_sum_def weighted_sum_def)

lemma raw_sum_eq_NaN_iff: "raw_sum input = NaN \<longleftrightarrow> nan_input input"
  using saturated_count [of 10 "fact_check_count input"]
    saturated_count [of 5 "corroborating_sources input"]
  by (cases "source_credibility input"; cases "claim_complexity input")
    (simp_all add: raw_sum_def nan_input_def)


lemma raw_sum_saturated:
  "raw_sum input =
     source_credibility input * Num 0.35
     + Num (saturate (unat (fact_check_count input)) 10 * 0.25)
     + Num (saturate (unat (corroborating_sources input)) 5 * 0.15)
     + (Num 1 - claim_complexity input) * Num 0.25"
  using saturated_count [of 10 "fact_check_count input"]
    saturated_count [of 5 "corroborating_sources input"]
  by (simp add: raw_sum_def)

lemma raw_sum_mono:
  assumes le: "input_le a b" and a: "\<not> nan_input a" and b: "\<not> nan_input b"
  shows "raw_sum a \<le> raw_sum b"
proof -
  let ?A = "\<lambda>i. source_credibility i * Num 0.35"
  let ?B = "\<lambda>i. Num (saturate (unat (fact_check_count i)) 10 * 0.25)"
  let ?C = "\<lambda>i. Num (saturate (unat (corroborating_sources i)) 5 * 0.15)"
  let ?D = "\<lambda>i. (Num 1 - claim_complexity i) * Num 0.25"
  from le have A: "?A a \<le> ?A b"
    by (simp add: input_le_def f64_mul_pos_mono)
  from le have B: "?B a \<le> ?B b"
    by (simp add: input_le_def saturate_mono word_le_nat_alt)
  from le have C: "?C a \<le> ?C b"
    by (simp add: input_le_def saturate_mono word_le_nat_alt)
  from le have D: "?D a \<le> ?D b"
    by (simp add: input_le_def f64_mul_pos_mono f64_sub_anti)
  have nn: "?A a + ?B a + ?C a + ?D a \<noteq> NaN" "?A b + ?B b + ?C b + ?D b \<noteq> NaN"
    using a b by (simp_all add: raw_sum_eq_NaN_iff [symmetric] raw_sum_saturated)
  then have nn': "?A a \<noteq> NaN" "?A b \<noteq> NaN"
    by auto
  have AB: "?A a + ?B a \<le> ?A b + ?B b"
    by (rule f64_add_mono [OF A B]) (use nn' in simp_all)
  have ABC: "?A a + ?B a + ?C a \<le> ?A b + ?B b + ?C b"
    by (rule f64_add_mono [OF AB C]) (use nn' in simp_all)
  have "?A a + ?B a + ?C a + ?D a \<le> ?A b + ?B b + ?C b + ?D b"
    by (rule f64_add_mono [OF ABC D nn])
  then show ?thesis
    by (simp add: raw_sum_saturated)
qed

lemma weighted_bounds:
  fixes sc b c cc :: real
  assumes "0 \<le> sc" "sc \<le> 1" "0 \<le> b" "b \<le> 1" "0 \<le> c" "c \<le> 1" "0 \<le> cc" "cc \<le> 1"
  shows "0 \<le> sc * 0.35 + b * 0.25 + c * 0.15 + (1 - cc) * 0.25"
    and "sc * 0.35 + b * 0.25 + c * 0.15 + (1 - cc) * 0.25 \<le> 1"
  using assms by (simp_all add: field_simps)

lemma weighted_sum_in_unit:
  assumes "0 \<le> sc" "sc \<le> 1" "0 \<le> cc" "cc \<le> 1"
  shows "0 \<le> weighted_sum sc fc cs cc \<and> weighted_sum sc fc cs cc \<le> 1"
  unfolding weighted_sum_def using assms by (intro conjI weighted_bounds) simp_all

lemma score_spec_bounds: "0 \<le> score_spec sc fc cs cc \<and> score_spec sc fc cs cc \<le> 1"
  by (simp add: score_spec_def)

section \<open>Properties of \<open>score\<close>\<close>

text \<open>
  C1.  On an input that deserialises and whose two real-valued fields are finite,
  \<open>score\<close> of the scorer built by \<open>new\<close> returns the value of the scoring
  contract \<open>score_spec\<close>: the weighted sum with weights 0.35, 0.25, 0.15 and 0.25,
  the counts saturated at 10 and 5, clamped to the unit interval.
\<close>

theorem score_refines_spec:
  assumes "from_value js = Ok input"
    and "source_credibility input = Num sc" and "claim_complexity input = Num cc"
  shows "score from_value scorer_new js =
    Ok (Num (score_spec sc (unat (fact_check_count input))
      (unat (corroborating_sources input)) cc))"
  using assms
  by (simp add: score_def score_input_new raw_sum_Num f64_clamp_Num score_spec_def)

theorem score_refines_spec_witness:
  "score Ok scorer_new
     \<lparr>source_credibility = Num 0.5, fact_check_count = 3, corroborating_sources = 7,
      claim_complexity = Num 0.2\<rparr> = (Ok (Num 0.6) :: (unit, f64) result)"
  using score_refines_spec [of Ok
      "\<lparr>source_credibility = Num 0.5, fact_check_count = 3, corroborating_sources = 7,
        claim_complexity = Num 0.2\<rparr>" _ "0.5" "0.2"]
  by (simp add: score_spec_def weighted_sum_def saturate_def)

text \<open>
  C2.  Whenever the input deserialises and is not one of the NaN-producing inputs
  (a NaN field, or source credibility and complexity the same infinity), \<open>score\<close>
  returns a number between 0 and 1, whatever the magnitude of the fields.
\<close>

theorem score_in_unit:
  assumes "from_value js = Ok input" and "\<not> nan_input input"
  shows "\<exists>s. score from_value scorer_new js = Ok s \<and> in_unit s"
proof -
  obtain s where s: "f64_clamp (raw_sum input) (Num 0) (Num 1) = (Ok s :: ('a, f64) result)"
    by (simp add: f64_clamp_def Let_def)
  from assms(2) have "raw_sum input \<noteq> NaN"
    by (simp add: raw_sum_eq_NaN_iff)
  with s have "Num 0 \<le> s \<and> s \<le> Num 1"
    by (rule f64_clamp_in_range)
  with s assms(1) show ?thesis
    by (simp add: score_def score_input_new in_unit_def)
qed

theorem score_in_unit_witness:
  "\<exists>s. score Ok scorer_new
     \<lparr>source_credibility = PosInf, fact_check_count = 0, corroborating_sources = 0,
      claim_complexity = Num 7\<rparr> = (Ok s :: (unit, f64) result) \<and> in_unit s"
  using score_in_unit [of Ok
      "\<lparr>source_credibility = PosInf, fact_check_count = 0, corroborating_sources = 0,
        claim_complexity = Num 7\<rparr>"]
  by (simp add: nan_input_def)

text \<open>
  C3.  On a NaN-producing input \<open>score\<close> returns NaN as a successful result: the
  clamp does not repair it, so the score is then outside the unit interval.
\<close>

theorem score_NaN:
  assumes "from_value js = Ok input" and "nan_input input"
  shows "score from_value scorer_new js = Ok NaN"
  using assms by (simp add: score_def score_input_new raw_sum_eq_NaN_iff [symmetric])

theorem score_NaN_witness:
  "score Ok scorer_new
     \<lparr>source_credibility = NaN, fact_check_count = 3, corroborating_sources = 7,
      claim_complexity = Num 0.2\<rparr> = (Ok NaN :: (unit, f64) result)"
  using score_NaN [of Ok
      "\<lparr>source_credibility = NaN, fact_check_count = 3, corroborating_sources = 7,
        claim_complexity = Num 0.2\<rparr>"]
  by (simp add: nan_input_def)

text \<open>
  C23.  \<open>score\<close> of the scorer built by \<open>new\<close> fails exactly when, and exactly as,
  deserialisation of the input fails: the four weight reads are in range and the
  bounds of the clamp are ordered, so the body adds no panic and no error.
\<close>

theorem score_fails_iff: "score from_value scorer_new js = Inl x \<longleftrightarrow> from_value js = Inl x"
  by (cases "from_value js") (simp_all add: score_def score_input_new f64_clamp_def Let_def)

text \<open>
  C5.  The score rises with the evidence: if one input has at least the source
  credibility and the two counts of another and at most its complexity, and neither
  is NaN-producing, its score is at least the other's.
\<close>

theorem score_monotone:
  assumes "input_le a b" and "\<not> nan_input a" and "\<not> nan_input b"
  shows "\<exists>x y. score_input scorer_new a = (Ok x :: ('e, f64) result)
    \<and> score_input scorer_new b = (Ok y :: ('e, f64) result) \<and> x \<le> y"
proof -
  obtain x y where x: "f64_clamp (raw_sum a) (Num 0) (Num 1) = (Ok x :: ('e, f64) result)"
    and y: "f64_clamp (raw_sum b) (Num 0) (Num 1) = (Ok y :: ('e, f64) result)"
    by (simp add: f64_clamp_def Let_def)
  from assms have "raw_sum a \<le> raw_sum b"
    by (rule raw_sum_mono)
  then have "x \<le> y"
    using x y by (rule f64_clamp_mono)
  with x y show ?thesis
    by (simp add: score_input_new)
qed

theorem score_monotone_witness:
  "\<exists>x y. score_input scorer_new
       \<lparr>source_credibility = Num 0.2, fact_check_count = 1, corroborating_sources = 0,
        claim_complexity = Num 0.9\<rparr> = (Ok x :: (unit, f64) result)
     \<and> score_input scorer_new
       \<lparr>source_credibility = Num 0.7, fact_check_count = 20, corroborating_sources = 2,
        claim_complexity = Num 0.1\<rparr> = (Ok y :: (unit, f64) result)
     \<and> x \<le> y"
  using score_monotone [of
      "\<lparr>source_credibility = Num 0.2, fact_check_count = 1, corroborating_sources = 0,
        claim_complexity = Num 0.9\<rparr>"
      "\<lparr>source_credibility = Num 0.7, fact_check_count = 20, corroborating_sources = 2,
        claim_complexity = Num 0.1\<rparr>"]
  by (simp add: input_le_def nan_input_def)

text \<open>
  The clamp is only a defence: when source credibility and complexity are
  already in the unit interval, the weighted sum itself is in the unit interval and
  \<open>score\<close> returns it unchanged.
\<close>

lemma score_clamp_defensive:
  assumes "in_unit (source_credibility input)" and "in_unit (claim_complexity input)"
  shows "score_input scorer_new input = Ok (raw_sum input) \<and> in_unit (raw_sum input)"
proof -
  from assms obtain sc cc where sc: "source_credibility input = Num sc" "0 \<le> sc" "sc \<le> 1"
    and cc: "claim_complexity input = Num cc" "0 \<le> cc" "cc \<le> 1"
    by (auto simp: in_unit_iff)
  let ?w = "weighted_sum sc (unat (fact_check_count input)) (unat (corroborating_sources input)) cc"
  have raw: "raw_sum input = Num ?w"
    using sc(1) cc(1) by (rule raw_sum_Num)
  have "0 \<le> ?w \<and> ?w \<le> 1"
    using sc(2,3) cc(2,3) by (rule weighted_sum_in_unit)
  then show ?thesis
    by (simp add: score_input_new raw f64_clamp_id)
qed

lemma score_clamp_defensive_witness:
  "score_input scorer_new
     \<lparr>source_credibility = Num 1, fact_check_count = 10, corroborating_sources = 5,
      claim_complexity = Num 0\<rparr> = (Ok (Num 1) :: (unit, f64) result)"
  using score_clamp_defensive [of
      "\<lparr>source_credibility = Num 1, fact_check_count = 10, corroborating_sources = 5,
        claim_complexity = Num 0\<rparr>"]
  by (simp add: raw_sum_def f64_of_u32_def)


section \<open>The start function\<close>

text \<open>
  Calling \<open>init\<close> again changes nothing, and after a call with the feature the
  hook has been set; a hook that was set before the first call is kept.
\<close>

lemma init_idem [simp]: "init f (init f m) = init f m"
  by (simp add: init_def set_once_def)

lemma init_hook_set: "hook_set (init True m)"
  by (simp add: init_def set_once_def)

lemma init_fresh: "\<not> hook_set m \<Longrightarrow> hook (init True m) = Console_error_hook"
  by (simp add: init_def set_once_def)

section \<open>Properties of \<open>get_recommendation\<close>\<close>

lemma get_recommendation_Num:
  "recommendation_rank (get_recommendation self (Num x)) =
     (if 0.8 \<le> x then 4 else if 0.6 \<le> x then 3 else if 0.4 \<le> x then 2
      else if 0.2 \<le> x then 1 else 0)"
  by (simp add: get_recommendation_def recommendation_rank_def)

lemma get_recommendation_special [simp]:
  "get_recommendation self NaN = ''not_credible''"
  "get_recommendation self PosInf = ''highly_credible''"
  "get_recommendation self NegInf = ''not_credible''"
  by (simp_all add: get_recommendation_def)

lemma floor_band:
  fixes x :: real
  assumes "real k / 5 \<le> x" and "x < (real k + 1) / 5"
  shows "nat \<lfloor>5 * x\<rfloor> = k"
proof -
  from assms have "\<lfloor>5 * x\<rfloor> = int k"
    by (simp add: floor_eq_iff field_simps)
  then show ?thesis by simp
qed

text \<open>
  C31.  The labels of \<open>get_recommendation\<close> are five bands of width 0.2: on a
  finite score \<open>x\<close> the rank of the label is the whole part of \<open>5 * x\<close>, capped
  at 4 (and 0 for a negative score).
\<close>

theorem get_recommendation_band:
  "recommendation_rank (get_recommendation self (Num x)) = min 4 (nat \<lfloor>5 * x\<rfloor>)"
proof -
  consider "0.8 \<le> x" | "0.6 \<le> x" "x < 0.8" | "0.4 \<le> x" "x < 0.6" | "0.2 \<le> x" "x < 0.4"
    | "0 \<le> x" "x < 0.2" | "x < 0"
    by linarith
  then show ?thesis
  proof cases
    case 1
    then have "4 \<le> \<lfloor>5 * x\<rfloor>" by (simp add: le_floor_iff)
    then have "min 4 (nat \<lfloor>5 * x\<rfloor>) = 4" by linarith
    with 1 show ?thesis by (simp only: get_recommendation_Num if_True)
  next
    case 2
    then have "nat \<lfloor>5 * x\<rfloor> = 3" by (intro floor_band) simp_all
    with 2 show ?thesis by (simp add: get_recommendation_Num)
  next
    case 3
    then have "nat \<lfloor>5 * x\<rfloor> = 2" by (intro floor_band) simp_all
    with 3 show ?thesis by (simp add: get_recommendation_Num)
  next
    case 4
    then have "nat \<lfloor>5 * x\<rfloor> = 1" by (intro floor_band) simp_all
    with 4 show ?thesis by (simp add: get_recommendation_Num)
  next
    case 5
    then have "nat \<lfloor>5 * x\<rfloor> = 0" by (intro floor_band) simp_all
    with 5 show ?thesis by (simp add: get_recommendation_Num)
  next
    case 6
    then have "\<lfloor>5 * x\<rfloor> < 0" by (simp add: floor_less_iff)
    with 6 show ?thesis by (simp add: get_recommendation_Num)
  qed
qed

text \<open>
  The label never falls when the score rises: for scores \<open>s \<le> t\<close> (so
  neither is NaN) the rank of the label of \<open>s\<close> is at most that of \<open>t\<close>.
\<close>

lemma get_recommendation_mono:
  assumes "s \<le> t"
  shows "recommendation_rank (get_recommendation self s)
    \<le> recommendation_rank (get_recommendation self t)"
  using assms
  by (cases s; cases t)
    (simp_all add: get_recommendation_Num, simp_all add: recommendation_rank_def)

lemma get_recommendation_mono_witness:
  "recommendation_rank (get_recommendation scorer_new (Num 0.35))
    \<le> recommendation_rank (get_recommendation scorer_new (Num 0.61))"
  using get_recommendation_mono [of "Num 0.35" "Num 0.61" scorer_new] by simp

text \<open>
  \<open>get_recommendation\<close> always answers with one of the five labels, and a NaN
  score, which \<open>score\<close> can return, is labelled \<open>not_credible\<close>.
\<close>

lemma get_recommendation_total:
  "get_recommendation self s \<in> set recommendations
    \<and> get_recommendation self NaN = ''not_credible''"
  by (simp add: get_recommendation_def recommendations_def)

end
