(* ===== verification/Rust_Text.thy ===== *)
theory Rust_Text
  imports Polygraph_Prelude
begin

text \<open>
  Strings and bytes as the sources use them.  A Rust \<open>String\<close> is its UTF-8 bytes,
  modelled as a \<open>string\<close> (a list of 8-bit characters).  \<open>to_lowercase\<close> maps
  the ASCII capitals to small letters and leaves every other byte unchanged, which
  is \<open>str::to_lowercase\<close> on ASCII text (the Unicode case tables are not
  modelled).  \<open>contains\<close> is the substring test of \<open>str::contains\<close>,
  \<open>hex_lower\<close> the \<open>{:x}\<close> formatting of a byte array, and \<open>urlencode\<close> the
  percent-encoding of \<open>urlencoding::encode\<close>.  \<open>query_pairs\<close> is how the
  server that receives a request URL reads its query, after RFC 3986; the sources
  hold no such code, it states what a request URL says.
\<close>

section \<open>Definitions\<close>

definition is_ascii_uppercase :: "char \<Rightarrow> bool" where
  "is_ascii_uppercase c = (65 \<le> (of_char c :: nat) \<and> (of_char c :: nat) \<le> 90)"

definition is_ascii_lowercase :: "char \<Rightarrow> bool" where
  "is_ascii_lowercase c = (97 \<le> (of_char c :: nat) \<and> (of_char c :: nat) \<le> 122)"

definition is_ascii_digit :: "char \<Rightarrow> bool" where
  "is_ascii_digit c = (48 \<le> (of_char c :: nat) \<and> (of_char c :: nat) \<le> 57)"

definition lower_char :: "char \<Rightarrow> char" where
  "lower_char c = (if is_ascii_uppercase c then char_of (of_char c + (32 :: nat)) else c)"

definition to_lowercase :: "string \<Rightarrow> string" where
  "to_lowercase s = map lower_char s"

text \<open>\<open>haystack.contains(needle)\<close>: the needle occurs as a contiguous run.\<close>

fun contains :: "'a list \<Rightarrow> 'a list \<Rightarrow> bool" where
  "contains [] needle = (needle = [])"
| "contains (x # xs) needle = (prefix needle (x # xs) \<or> contains xs needle)"

text \<open>\<open>str::as_bytes\<close>.\<close>

definition as_bytes :: "string \<Rightarrow> u8 list" where
  "as_bytes s = map (\<lambda>c. of_nat (of_char c)) s"

text \<open>Hexadecimal digits, small letters (\<open>{:x}\<close>) and capitals (percent-encoding).\<close>

definition hex_digit :: "nat \<Rightarrow> char" where
  "hex_digit n = (if n < 10 then char_of (48 + n) else char_of (87 + n))"

definition hex_digit_upper :: "nat \<Rightarrow> char" where
  "hex_digit_upper n = (if n < 10 then char_of (48 + n) else char_of (55 + n))"

definition hex_byte :: "u8 \<Rightarrow> string" where
  "hex_byte b = [hex_digit (unat b div 16), hex_digit (unat b mod 16)]"

definition hex_lower :: "u8 list \<Rightarrow> string" where
  "hex_lower bs = concat (map hex_byte bs)"

text \<open>The inverse of \<open>hex_lower\<close>, used to state that the formatting loses nothing.\<close>

definition hex_value :: "char \<Rightarrow> nat option" where
  "hex_value c =
     (if is_ascii_digit c then Some (of_char c - 48)
      else if 97 \<le> (of_char c :: nat) \<and> (of_char c :: nat) \<le> 102 then Some (of_char c - 87)
      else None)"

fun unhex :: "string \<Rightarrow> u8 list option" where
  "unhex [] = Some []"
| "unhex [c] = None"
| "unhex (c # d # cs) =
     (case (hex_value c, hex_value d, unhex cs) of
        (Some h, Some l, Some bs) \<Rightarrow> Some (of_nat (16 * h + l) # bs)
      | _ \<Rightarrow> None)"

text \<open>
  \<open>urlencoding::encode\<close>: letters, digits and \<open>- _ . ~\<close> stay, every other byte
  becomes \<open>%\<close> and two capital hexadecimal digits.
\<close>

definition is_unreserved :: "char \<Rightarrow> bool" where
  "is_unreserved c =
     (is_ascii_uppercase c \<or> is_ascii_lowercase c \<or> is_ascii_digit c
      \<or> c = CHR ''-'' \<or> c = CHR ''_'' \<or> c = CHR ''.'' \<or> c = CHR ''~'')"

definition encode_char :: "char \<Rightarrow> string" where
  "encode_char c =
     (if is_unreserved c then [c]
      else [CHR ''%'', hex_digit_upper (of_char c div 16), hex_digit_upper (of_char c mod 16)])"

definition urlencode :: "string \<Rightarrow> string" where
  "urlencode s = concat (map encode_char s)"


text \<open>The inverse of \<open>urlencode\<close>, used to state that the encoding loses nothing.\<close>

definition hex_value_upper :: "char \<Rightarrow> nat option" where
  "hex_value_upper c =
     (if is_ascii_digit c then Some (of_char c - 48)
      else if 65 \<le> (of_char c :: nat) \<and> (of_char c :: nat) \<le> 70 then Some (of_char c - 55)
      else None)"

fun urldecode :: "string \<Rightarrow> string option" where
  "urldecode [] = Some []"
| "urldecode (c # cs) =
     (if c = CHR ''%'' then
        (case cs of
           a # b # rest \<Rightarrow>
             (case (hex_value_upper a, hex_value_upper b, urldecode rest) of
                (Some h, Some l, Some r) \<Rightarrow> Some (char_of (16 * h + l) # r)
              | _ \<Rightarrow> None)
         | _ \<Rightarrow> None)
      else map_option ((#) c) (urldecode cs))"

text \<open>The characters an encoded string is made of.\<close>

definition is_url_safe :: "char \<Rightarrow> bool" where
  "is_url_safe c =
     (is_unreserved c \<or> c = CHR ''%''
      \<or> (65 \<le> (of_char c :: nat) \<and> (of_char c :: nat) \<le> 70))"

text \<open>
  The query of a URL as its receiver reads it: the part after the first \<open>?\<close>,
  cut at every \<open>&\<close> into pairs, each pair cut at its first \<open>=\<close> into a name and
  a value, both percent-decoded.
\<close>

primrec split_on :: "'a \<Rightarrow> 'a list \<Rightarrow> 'a list list" where
  "split_on c [] = [[]]"
| "split_on c (x # xs) =
     (if x = c then [] # split_on c xs
      else (case split_on c xs of y # ys \<Rightarrow> (x # y) # ys | [] \<Rightarrow> [[x]]))"

definition query_of :: "string \<Rightarrow> string" where
  "query_of url = drop 1 (dropWhile (\<lambda>c. c \<noteq> CHR ''?'') url)"

definition pair_of :: "string \<Rightarrow> (string \<times> string) option" where
  "pair_of s =
     (case (urldecode (takeWhile (\<lambda>c. c \<noteq> CHR ''='') s),
            urldecode (drop 1 (dropWhile (\<lambda>c. c \<noteq> CHR ''='') s))) of
        (Some n, Some v) \<Rightarrow> Some (n, v)
      | _ \<Rightarrow> None)"

definition query_pairs :: "string \<Rightarrow> (string \<times> string) list option" where
  "query_pairs url = those (map pair_of (split_on (CHR ''&'') (query_of url)))"

section \<open>Evaluation\<close>

lemmas unreserved_eval =
  is_unreserved_def is_ascii_uppercase_def is_ascii_lowercase_def is_ascii_digit_def

lemmas text_eval =
  to_lowercase_def lower_char_def is_ascii_uppercase_def is_ascii_lowercase_def
  is_ascii_digit_def char_of_def bit_Suc_0_iff hex_lower_def hex_byte_def hex_digit_def
  urlencode_def encode_char_def is_unreserved_def hex_digit_upper_def as_bytes_def

section \<open>Lower case\<close>

lemma of_char_less_256: "(of_char c :: nat) < 256"
  using of_char_mod_256 [of c, where ?'a = nat] by (metis mod_less_divisor zero_less_numeral)

lemma lower_char_not_upper [simp]: "\<not> is_ascii_uppercase (lower_char c)"
  by (auto simp: lower_char_def is_ascii_uppercase_def)

lemma lower_char_idem [simp]: "lower_char (lower_char c) = lower_char c"
  using lower_char_not_upper [of c] by (simp add: lower_char_def [of "lower_char c"])

lemma lower_char_fixed: "\<not> is_ascii_uppercase c \<Longrightarrow> lower_char c = c"
  by (simp add: lower_char_def)

lemma lower_char_upper:
  "is_ascii_uppercase c \<Longrightarrow> (of_char (lower_char c) :: nat) = of_char c + 32"
  by (simp add: lower_char_def is_ascii_uppercase_def)

lemma to_lowercase_simps [simp]:
  "to_lowercase [] = []"
  "to_lowercase (c # cs) = lower_char c # to_lowercase cs"
  "to_lowercase (xs @ ys) = to_lowercase xs @ to_lowercase ys"
  by (simp_all add: to_lowercase_def)

lemma length_to_lowercase [simp]: "length (to_lowercase s) = length s"
  by (simp add: to_lowercase_def)

lemma to_lowercase_idem [simp]: "to_lowercase (to_lowercase s) = to_lowercase s"
  by (induction s) simp_all

lemma to_lowercase_fixed: "list_all (\<lambda>c. \<not> is_ascii_uppercase c) s \<Longrightarrow> to_lowercase s = s"
  by (induction s) (simp_all add: lower_char_fixed)

lemma to_lowercase_no_upper: "list_all (\<lambda>c. \<not> is_ascii_uppercase c) (to_lowercase s)"
  by (induction s) simp_all

section \<open>Bytes\<close>

lemma unat_byte_of_char [simp]: "unat (of_nat (of_char c) :: u8) = of_char c"
  using of_char_less_256 [of c] by (simp add: unat_of_nat)

lemma length_as_bytes [simp]: "length (as_bytes s) = length s"
  by (simp add: as_bytes_def)

lemma as_bytes_inj [simp]: "as_bytes a = as_bytes b \<longleftrightarrow> a = b"
proof
  assume "as_bytes a = as_bytes b"
  then have "map unat (as_bytes a) = map unat (as_bytes b)" by simp
  then have "map (of_char :: char \<Rightarrow> nat) a = map of_char b"
    by (simp add: as_bytes_def comp_def)
  then show "a = b"
    by (simp add: inj_map_eq_map [OF inj_of_char [where ?'a = nat]])
qed simp

section \<open>Substrings\<close>

lemma contains_iff_sublist: "contains haystack needle \<longleftrightarrow> sublist needle haystack"
  by (induction haystack) (simp_all add: sublist_Cons_right)

lemma contains_Nil [simp]: "contains haystack []"
  by (simp add: contains_iff_sublist)

lemma contains_self [simp]: "contains s s"
  by (simp add: contains_iff_sublist)

lemma contains_appendI [simp]: "contains (p @ needle @ q) needle"
  by (simp add: contains_iff_sublist)

lemma contains_iff_append: "contains haystack needle \<longleftrightarrow> (\<exists>p q. haystack = p @ needle @ q)"
  by (simp add: contains_iff_sublist sublist_def)

lemma contains_trans: "contains h m \<Longrightarrow> contains m n \<Longrightarrow> contains h n"
  unfolding contains_iff_sublist by (rule sublist_order.order_trans)

lemma contains_length_le: "contains haystack needle \<Longrightarrow> length needle \<le> length haystack"
  by (simp add: contains_iff_sublist sublist_length_le)

lemma contains_append_left: "contains a n \<Longrightarrow> contains (a @ b) n"
  by (metis contains_iff_append append.assoc)

lemma contains_append_right: "contains b n \<Longrightarrow> contains (a @ b) n"
  by (metis contains_iff_append append.assoc)

lemma contains_map: "contains h n \<Longrightarrow> contains (map f h) (map f n)"
  unfolding contains_iff_append by (metis map_append)

section \<open>Hexadecimal formatting\<close>

lemma hex_value_hex_digit: "n < 16 \<Longrightarrow> hex_value (hex_digit n) = Some n"
  by (auto simp: hex_value_def hex_digit_def is_ascii_digit_def)

lemma hex_value_upper_hex_digit_upper:
  "n < 16 \<Longrightarrow> hex_value_upper (hex_digit_upper n) = Some n"
  by (auto simp: hex_value_upper_def hex_digit_upper_def is_ascii_digit_def)

lemma unat_u8_less: "unat (b :: u8) < 256"
  using unsigned_less [of b, where ?'a = nat] by simp

lemma unhex_hex_byte: "unhex (hex_byte b @ cs) = map_option ((#) b) (unhex cs)"
proof -
  have "unat b div 16 < 16" "unat b mod 16 < 16"
    using unat_u8_less [of b] by simp_all
  then show ?thesis
    by (cases "unhex cs") (simp_all add: hex_byte_def hex_value_hex_digit)
qed

lemma length_hex_lower [simp]: "length (hex_lower bs) = 2 * length bs"
  by (induction bs) (simp_all add: hex_lower_def hex_byte_def)

lemma unhex_hex_lower [simp]: "unhex (hex_lower bs) = Some bs"
proof (induction bs)
  case Nil
  show ?case by (simp add: hex_lower_def)
next
  case (Cons b bs)
  then show ?case
    using unhex_hex_byte [of b "hex_lower bs"] by (simp add: hex_lower_def)
qed

lemma hex_lower_inj [simp]: "hex_lower a = hex_lower b \<longleftrightarrow> a = b"
  by (metis unhex_hex_lower option.inject)

section \<open>Percent-encoding\<close>

lemma hex_digit_upper_safe: "n < 16 \<Longrightarrow> is_url_safe (hex_digit_upper n)"
  by (auto simp: is_url_safe_def is_unreserved_def is_ascii_digit_def hex_digit_upper_def)

lemma encode_char_safe: "list_all is_url_safe (encode_char c)"
proof -
  have "(of_char c :: nat) div 16 < 16" "(of_char c :: nat) mod 16 < 16"
    using of_char_less_256 [of c] by arith+
  then show ?thesis
    by (simp add: encode_char_def hex_digit_upper_safe) (simp add: is_url_safe_def)
qed

lemma urlencode_safe: "list_all is_url_safe (urlencode s)"
  by (induction s) (simp_all add: urlencode_def encode_char_safe)

lemma urlencode_simps [simp]:
  "urlencode [] = []"
  "urlencode (c # cs) = encode_char c @ urlencode cs"
  "urlencode (xs @ ys) = urlencode xs @ urlencode ys"
  by (simp_all add: urlencode_def)

lemma urlencode_unreserved: "list_all is_unreserved s \<Longrightarrow> urlencode s = s"
  by (induction s) (simp_all add: encode_char_def)

lemma percent_not_unreserved [simp]: "\<not> is_unreserved CHR ''%''"
  by (simp add: is_unreserved_def is_ascii_uppercase_def is_ascii_lowercase_def is_ascii_digit_def)

lemma urldecode_encode_char: "urldecode (encode_char c @ cs) = map_option ((#) c) (urldecode cs)"
proof (cases "is_unreserved c")
  case True
  then have "c \<noteq> CHR ''%''" by auto
  with True show ?thesis by (simp add: encode_char_def)
next
  case False
  have lt: "(of_char c :: nat) div 16 < 16" "(of_char c :: nat) mod 16 < 16"
    using of_char_less_256 [of c] by arith+
  have "char_of (16 * ((of_char c :: nat) div 16) + of_char c mod 16) = c"
    by simp
  with False lt show ?thesis
    by (cases "urldecode cs") (simp_all add: encode_char_def hex_value_upper_hex_digit_upper)
qed

lemma urldecode_urlencode [simp]: "urldecode (urlencode s) = Some s"
  by (induction s) (simp_all add: urldecode_encode_char)

lemma urlencode_inj [simp]: "urlencode a = urlencode b \<longleftrightarrow> a = b"
  by (metis urldecode_urlencode option.inject)

section \<open>Reading a query\<close>

lemma url_safe_not_reserved:
  "is_url_safe c \<Longrightarrow> c \<noteq> CHR ''&'' \<and> c \<noteq> CHR ''='' \<and> c \<noteq> CHR ''#'' \<and> c \<noteq> CHR ''?''
     \<and> c \<noteq> CHR '' '' \<and> c \<noteq> CHR ''/'' \<and> c \<noteq> CHR ''+''"
  by (auto simp: is_url_safe_def unreserved_eval)

lemma unreserved_not_reserved:
  "is_unreserved c \<Longrightarrow> c \<noteq> CHR ''&'' \<and> c \<noteq> CHR ''='' \<and> c \<noteq> CHR ''?'' \<and> c \<noteq> CHR ''%''"
  by (auto simp: unreserved_eval)

lemma unreserved_no_sep:
  "list_all is_unreserved s \<Longrightarrow> CHR ''='' \<notin> set s \<and> CHR ''&'' \<notin> set s \<and> CHR ''?'' \<notin> set s"
  by (auto simp: list_all_iff dest: unreserved_not_reserved)

lemma urlencode_no_sep: "CHR ''&'' \<notin> set (urlencode v)"
  using urlencode_safe [of v] by (auto simp: list_all_iff dest: url_safe_not_reserved)

lemma urldecode_unreserved: "list_all is_unreserved s \<Longrightarrow> urldecode s = Some s"
  using urldecode_urlencode [of s] by (simp add: urlencode_unreserved)

lemma split_on_not_Nil [simp]: "split_on c xs \<noteq> []"
  by (induction xs) (auto split: list.splits)

lemma split_on_none: "c \<notin> set xs \<Longrightarrow> split_on c xs = [xs]"
  by (induction xs) auto

lemma split_on_append: "c \<notin> set xs \<Longrightarrow> split_on c (xs @ c # ys) = xs # split_on c ys"
  by (induction xs) auto

lemma split_on_two: "c \<notin> set a \<Longrightarrow> c \<notin> set b \<Longrightarrow> split_on c (a @ c # b) = [a, b]"
  by (simp add: split_on_append split_on_none)

text \<open>Joining the pieces with the separator gives the text back.\<close>

lemma concat_split_on: "concat (map (\<lambda>p. c # p) (split_on c xs)) = c # xs"
  by (induction xs) (auto split: list.splits)

lemma takeWhile_upto: "c \<notin> set xs \<Longrightarrow> takeWhile (\<lambda>x. x \<noteq> c) (xs @ c # ys) = xs"
  by (induction xs) auto

lemma dropWhile_upto: "c \<notin> set xs \<Longrightarrow> dropWhile (\<lambda>x. x \<noteq> c) (xs @ c # ys) = c # ys"
  by (induction xs) auto

lemma query_of_append: "CHR ''?'' \<notin> set base \<Longrightarrow> query_of (base @ CHR ''?'' # q) = q"
  by (simp add: query_of_def dropWhile_upto)

lemma pair_of_encoded:
  assumes "CHR ''='' \<notin> set n" and "urldecode n = Some n'" and "urldecode v = Some v'"
  shows "pair_of (n @ CHR ''='' # v) = Some (n', v')"
  using assms by (simp add: pair_of_def takeWhile_upto dropWhile_upto)

lemma pair_of_encoded_value:
  "list_all is_unreserved n \<Longrightarrow> pair_of (n @ CHR ''='' # urlencode v) = Some (n, v)"
  by (rule pair_of_encoded) (simp_all add: unreserved_no_sep urldecode_unreserved)

lemma pair_of_plain_value:
  "list_all is_unreserved n \<Longrightarrow> list_all is_unreserved k \<Longrightarrow> pair_of (n @ CHR ''='' # k) = Some (n, k)"
  by (rule pair_of_encoded) (simp_all add: unreserved_no_sep urldecode_unreserved)

text \<open>
  A URL with two parameters, the first value encoded and the second made of
  unreserved characters, is read as the two pairs.
\<close>

lemma request_query:
  assumes "list_all is_unreserved n1" "list_all is_unreserved n2" "list_all is_unreserved k"
    and "CHR ''?'' \<notin> set base"
  shows "query_pairs (base @ CHR ''?'' # (n1 @ CHR ''='' # urlencode v) @ CHR ''&'' # n2 @ CHR ''='' # k) =
    Some [(n1, v), (n2, k)]"
proof -
  have "split_on (CHR ''&'') ((n1 @ CHR ''='' # urlencode v) @ CHR ''&'' # n2 @ CHR ''='' # k) =
      [n1 @ CHR ''='' # urlencode v, n2 @ CHR ''='' # k]"
    using assms(1-3) by (intro split_on_two) (simp_all add: unreserved_no_sep urlencode_no_sep)
  with assms show ?thesis
    unfolding query_pairs_def query_of_append [OF assms(4)]
    by (simp add: pair_of_encoded_value pair_of_plain_value)
qed

end
