(* ===== verification/Serde_Json.thy ===== *)
theory Serde_Json
  imports Rust_Float Rust_Text
begin

text \<open>
  JSON documents, the HTTP responses that carry them, and the conventions by which
  the derived \<open>Serialize\<close> and \<open>Deserialize\<close> instances of the sources write and
  read Rust values as JSON.

  A document lists the members of an object in the order of the text, a name that
  occurs twice included.  A decoder reads a document as a value of its type or
  fails; the message of the failure is not kept, since \<open>Response::json\<close> reports
  every failure as "error decoding response body".  The text of a document, its
  lexing and its number syntax, belongs to \<open>serde_json\<close> and is not modelled.

  The conventions are those of \<open>serde\<close> for types that carry no attribute but
  \<open>rename\<close>: a struct is read from an object by the names of its fields, where a
  member with an unknown name is skipped, a field that occurs twice is an error and
  a missing field is an error unless its type is an \<open>Option\<close>; or from an array
  that holds exactly its fields, in the order of their declaration.
\<close>

section \<open>Documents and responses\<close>

datatype json =
  JNull | JBool bool | JNumber f64 | JString string | JArray "json list"
  | JObject "(string \<times> json) list"

text \<open>A response: the status code, and the body if it is a JSON document.\<close>

record response =
  status_code :: nat
  body :: "json option"

type_synonym 'a decoder = "json \<Rightarrow> 'a option"

text \<open>\<open>Response::json\<close>: the body decoded, an error if it is no JSON document.\<close>

definition response_json :: "response \<Rightarrow> (error, json) result" where
  "response_json res =
     (case body res of None \<Rightarrow> Error (Decode ''error decoding response body'') | Some j \<Rightarrow> Ok j)"

text \<open>
  \<open>Response::json::<T>\<close> for a type with a decoder: the status of the response is
  not looked at.
\<close>

definition json_as :: "'a decoder \<Rightarrow> response \<Rightarrow> (error, 'a) result" where
  "json_as decode res =
     and_then (response_json res) (\<lambda>j.
       ok_or_else (decode j) (Decode ''error decoding response body''))"

section \<open>Reading values\<close>

definition string_of_json :: "string decoder" where
  "string_of_json j = (case j of JString s \<Rightarrow> Some s | _ \<Rightarrow> None)"

definition f64_of_json :: "f64 decoder" where
  "f64_of_json j = (case j of JNumber x \<Rightarrow> Some x | _ \<Rightarrow> None)"

text \<open>\<open>Option<T>\<close>: \<open>null\<close> is \<open>None\<close>, every other document is read as a \<open>T\<close>.\<close>

definition option_of_json :: "'a decoder \<Rightarrow> 'a option decoder" where
  "option_of_json decode j = (case j of JNull \<Rightarrow> Some None | _ \<Rightarrow> map_option Some (decode j))"

text \<open>\<open>Vec<T>\<close>: an array whose elements all are read as a \<open>T\<close>.\<close>

definition vec_of_json :: "'a decoder \<Rightarrow> 'a list decoder" where
  "vec_of_json decode j = (case j of JArray js \<Rightarrow> those (map decode js) | _ \<Rightarrow> None)"

text \<open>
  The members from which a struct with the given field names is read: those of an
  object, or the elements of an array of the right length under the names of the
  fields.
\<close>

definition struct_members :: "string list \<Rightarrow> json \<Rightarrow> (string \<times> json) list option" where
  "struct_members names j =
     (case j of
        JObject kvs \<Rightarrow> Some kvs
      | JArray vs \<Rightarrow> if length vs = length names then Some (zip names vs) else None
      | _ \<Rightarrow> None)"

definition members_named :: "string \<Rightarrow> (string \<times> json) list \<Rightarrow> json list" where
  "members_named k kvs = map snd (filter (\<lambda>kv. fst kv = k) kvs)"

text \<open>A field of a type that is no \<open>Option\<close>: it has to occur, once.\<close>

definition required :: "'a decoder \<Rightarrow> string \<Rightarrow> (string \<times> json) list \<Rightarrow> 'a option" where
  "required decode k kvs = (case members_named k kvs of [v] \<Rightarrow> decode v | _ \<Rightarrow> None)"

text \<open>A field of type \<open>Option<T>\<close>: it may be missing, and is \<open>None\<close> then.\<close>

definition optional :: "'a decoder \<Rightarrow> string \<Rightarrow> (string \<times> json) list \<Rightarrow> 'a option option" where
  "optional decode k kvs =
     (case members_named k kvs of
        [] \<Rightarrow> Some None
      | [v] \<Rightarrow> option_of_json decode v
      | _ \<Rightarrow> None)"

section \<open>Writing values\<close>

text \<open>A number that is not finite is written as \<open>null\<close>.\<close>

definition json_of_f64 :: "f64 \<Rightarrow> json" where
  "json_of_f64 x = (if is_finite x then JNumber x else JNull)"

definition json_of_option :: "('a \<Rightarrow> json) \<Rightarrow> 'a option \<Rightarrow> json" where
  "json_of_option encode x = (case x of None \<Rightarrow> JNull | Some v \<Rightarrow> encode v)"

definition json_of_vec :: "('a \<Rightarrow> json) \<Rightarrow> 'a list \<Rightarrow> json" where
  "json_of_vec encode xs = JArray (map encode xs)"

section \<open>Lemmas\<close>

lemmas serde_defs =
  string_of_json_def f64_of_json_def option_of_json_def vec_of_json_def struct_members_def
  required_def optional_def json_of_f64_def json_of_option_def json_of_vec_def

lemma response_json_simps [simp]:
  "response_json \<lparr>status_code = c, body = Some j\<rparr> = Ok j"
  "response_json \<lparr>status_code = c, body = None\<rparr> = Error (Decode ''error decoding response body'')"
  by (simp_all add: response_json_def)

lemma json_as_simps [simp]:
  "json_as decode \<lparr>status_code = c, body = Some j\<rparr> =
     ok_or_else (decode j) (Decode ''error decoding response body'')"
  "json_as decode \<lparr>status_code = c, body = None\<rparr> = Error (Decode ''error decoding response body'')"
  by (simp_all add: json_as_def)

lemma json_as_Some: "json_as Some = response_json"
  by (rule ext) (simp add: json_as_def response_json_def split: option.split)

text \<open>A decoding either succeeds or fails with the one error of \<open>Response::json\<close>.\<close>

lemma json_as_cases:
  "json_as decode res =
     (case Option.bind (body res) decode of
        Some v \<Rightarrow> Ok v
      | None \<Rightarrow> Error (Decode ''error decoding response body''))"
  by (simp add: json_as_def response_json_def split: option.split)

lemma json_as_status [simp]: "json_as decode (res\<lparr>status_code := c\<rparr>) = json_as decode res"
  by (simp add: json_as_cases)

lemma members_named_simps [simp]:
  "members_named k [] = []"
  "members_named k ((k', v) # kvs) = (if k' = k then v # members_named k kvs else members_named k kvs)"
  by (simp_all add: members_named_def)

lemma members_named_eq_Nil_iff: "members_named k kvs = [] \<longleftrightarrow> k \<notin> fst ` set kvs"
  by (induction kvs) (auto split: if_splits)

lemma members_named_distinct:
  "distinct (map fst kvs) \<Longrightarrow> (k, v) \<in> set kvs \<Longrightarrow> members_named k kvs = [v]"
proof (induction kvs)
  case Nil
  then show ?case by simp
next
  case (Cons kv kvs)
  then show ?case
    by (cases kv) (auto simp: members_named_eq_Nil_iff intro: rev_image_eqI)
qed

lemma members_named_zip:
  "distinct names \<Longrightarrow> length vs = length names \<Longrightarrow> i < length names
    \<Longrightarrow> members_named (names ! i) (zip names vs) = [vs ! i]"
  by (rule members_named_distinct) (auto simp: set_zip)

lemma required_missing [simp]: "k \<notin> fst ` set kvs \<Longrightarrow> required decode k kvs = None"
  by (simp add: required_def members_named_eq_Nil_iff [THEN iffD2])

lemma optional_missing [simp]: "k \<notin> fst ` set kvs \<Longrightarrow> optional decode k kvs = Some None"
  by (simp add: optional_def members_named_eq_Nil_iff [THEN iffD2])

lemma required_eq_Some_iff:
  "required decode k kvs = Some x \<longleftrightarrow> (\<exists>v. members_named k kvs = [v] \<and> decode v = Some x)"
  by (auto simp: required_def split: list.splits)

lemma struct_members_simps [simp]:
  "struct_members names (JObject kvs) = Some kvs"
  "struct_members names (JArray vs) = (if length vs = length names then Some (zip names vs) else None)"
  "struct_members names JNull = None"
  "struct_members names (JBool b) = None"
  "struct_members names (JNumber x) = None"
  "struct_members names (JString s) = None"
  by (simp_all add: struct_members_def)

text \<open>What is written is read back.\<close>

lemma string_of_json_JString [simp]: "string_of_json (JString s) = Some s"
  by (simp add: string_of_json_def)

lemma f64_of_json_of_f64: "f64_of_json (json_of_f64 x) = (if is_finite x then Some x else None)"
  by (simp add: f64_of_json_def json_of_f64_def)

lemma option_of_json_simps [simp]:
  "option_of_json decode JNull = Some None"
  "j \<noteq> JNull \<Longrightarrow> option_of_json decode j = map_option Some (decode j)"
  by (cases j; simp add: option_of_json_def)+

lemma option_of_json_of_option:
  assumes "\<And>v. decode (encode v) = Some v" and "\<And>v. encode v \<noteq> JNull"
  shows "option_of_json decode (json_of_option encode x) = Some x"
  using assms by (cases x) (simp_all add: json_of_option_def)

lemma option_of_json_string [simp]:
  "option_of_json string_of_json (json_of_option JString x) = Some x"
  by (rule option_of_json_of_option) simp_all

lemma those_map_Some: "(\<And>x. x \<in> set xs \<Longrightarrow> f x = Some (g x)) \<Longrightarrow> those (map f xs) = Some (map g xs)"
  by (induction xs) simp_all

lemma those_eq_None_iff: "those xs = None \<longleftrightarrow> None \<in> set xs"
  by (induction xs) (auto split: option.splits)

lemma vec_of_json_of_vec:
  assumes "\<And>v. v \<in> set xs \<Longrightarrow> decode (encode v) = Some v"
  shows "vec_of_json decode (json_of_vec encode xs) = Some xs"
  using those_map_Some [of xs "decode \<circ> encode" id] assms
  by (simp add: vec_of_json_def json_of_vec_def comp_def)

text \<open>One element that cannot be read makes the whole array unreadable.\<close>

lemma vec_of_json_strict:
  "j \<in> set js \<Longrightarrow> decode j = None \<Longrightarrow> vec_of_json decode (JArray js) = None"
  by (auto simp: vec_of_json_def those_eq_None_iff image_iff intro: bexI [of _ j] sym)

end
