(* ===== verification/Fact_Check.thy ===== *)
theory Fact_Check
  imports Serde_Json "HOL-Library.Monad_Syntax"
begin

text \<open>
  The fact-check provider client, \<open>src/backend/src/services/fact_check_apis.rs\<close>:
  the result and response structs, \<open>FactCheckClient\<close> with its two optional API
  keys, the two provider calls, the aggregation and \<open>normalize_rating\<close>.

  The HTTP client handle is the client's view of the network: a \<open>network\<close> value
  gives, for the URL of a GET request, what \<open>get(url).send().await\<close> yields, the
  response or the error of the exchange.  The body of a response is read by the
  derived \<open>Deserialize\<close> instance of the response struct, after theory
  \<open>Serde_Json\<close>.  The process environment read by \<open>new\<close> is a map from variable
  names to values.  A field name that two structs share carries the initials of its
  struct.
\<close>

section \<open>Data\<close>

record FactCheckResult =
  fc_source :: string
  fc_verdict :: string
  fc_rating :: f64
  fc_url :: "string option"
  fc_explanation :: "string option"

record GooglePublisher =
  site :: string

record GoogleClaimReview =
  publisher :: GooglePublisher
  gr_url :: string
  title :: "string option"
  textual_rating :: string

record GoogleClaim =
  claim_review :: "GoogleClaimReview list"

record GoogleFactCheckResponse =
  claims :: "GoogleClaim list option"

record NewsSource =
  ns_name :: string

record NewsArticle =
  na_source :: NewsSource

record NewsApiResponse =
  articles :: "NewsArticle list"

type_synonym network = "string \<Rightarrow> (error, response) result"

record FactCheckClient =
  client :: network
  google_api_key :: "string option"
  newsapi_key :: "string option"

section \<open>The derived instances\<close>

text \<open>
  \<open>Deserialize\<close> for the response structs, with the names the \<open>rename\<close>
  attributes give to the fields.
\<close>

definition google_publisher_deserialize :: "GooglePublisher decoder" where
  "google_publisher_deserialize j = do {
     kvs \<leftarrow> struct_members [''site''] j;
     s \<leftarrow> required string_of_json ''site'' kvs;
     Some \<lparr>site = s\<rparr>
   }"

definition google_claim_review_deserialize :: "GoogleClaimReview decoder" where
  "google_claim_review_deserialize j = do {
     kvs \<leftarrow> struct_members [''publisher'', ''url'', ''title'', ''textualRating''] j;
     p \<leftarrow> required google_publisher_deserialize ''publisher'' kvs;
     u \<leftarrow> required string_of_json ''url'' kvs;
     t \<leftarrow> optional string_of_json ''title'' kvs;
     r \<leftarrow> required string_of_json ''textualRating'' kvs;
     Some \<lparr>publisher = p, gr_url = u, title = t, textual_rating = r\<rparr>
   }"

definition google_claim_deserialize :: "GoogleClaim decoder" where
  "google_claim_deserialize j = do {
     kvs \<leftarrow> struct_members [''claimReview''] j;
     rs \<leftarrow> required (vec_of_json google_claim_review_deserialize) ''claimReview'' kvs;
     Some \<lparr>claim_review = rs\<rparr>
   }"

definition google_fact_check_response_deserialize :: "GoogleFactCheckResponse decoder" where
  "google_fact_check_response_deserialize j = do {
     kvs \<leftarrow> struct_members [''claims''] j;
     cs \<leftarrow> optional (vec_of_json google_claim_deserialize) ''claims'' kvs;
     Some \<lparr>claims = cs\<rparr>
   }"

definition news_source_deserialize :: "NewsSource decoder" where
  "news_source_deserialize j = do {
     kvs \<leftarrow> struct_members [''name''] j;
     n \<leftarrow> required string_of_json ''name'' kvs;
     Some \<lparr>ns_name = n\<rparr>
   }"

definition news_article_deserialize :: "NewsArticle decoder" where
  "news_article_deserialize j = do {
     kvs \<leftarrow> struct_members [''source''] j;
     s \<leftarrow> required news_source_deserialize ''source'' kvs;
     Some \<lparr>na_source = s\<rparr>
   }"

definition news_api_response_deserialize :: "NewsApiResponse decoder" where
  "news_api_response_deserialize j = do {
     kvs \<leftarrow> struct_members [''articles''] j;
     as \<leftarrow> required (vec_of_json news_article_deserialize) ''articles'' kvs;
     Some \<lparr>articles = as\<rparr>
   }"

text \<open>\<open>Serialize\<close> and \<open>Deserialize\<close> for \<open>FactCheckResult\<close>.\<close>

definition fact_check_result_serialize :: "FactCheckResult \<Rightarrow> json" where
  "fact_check_result_serialize r =
     JObject [(''source'', JString (fc_source r)),
              (''verdict'', JString (fc_verdict r)),
              (''rating'', json_of_f64 (fc_rating r)),
              (''url'', json_of_option JString (fc_url r)),
              (''explanation'', json_of_option JString (fc_explanation r))]"

definition fact_check_result_deserialize :: "FactCheckResult decoder" where
  "fact_check_result_deserialize j = do {
     kvs \<leftarrow> struct_members [''source'', ''verdict'', ''rating'', ''url'', ''explanation''] j;
     s \<leftarrow> required string_of_json ''source'' kvs;
     v \<leftarrow> required string_of_json ''verdict'' kvs;
     x \<leftarrow> required f64_of_json ''rating'' kvs;
     u \<leftarrow> optional string_of_json ''url'' kvs;
     e \<leftarrow> optional string_of_json ''explanation'' kvs;
     Some \<lparr>fc_source = s, fc_verdict = v, fc_rating = x, fc_url = u, fc_explanation = e\<rparr>
   }"

section \<open>Operations\<close>

definition fact_check_client_new :: "network \<Rightarrow> (string \<rightharpoonup> string) \<Rightarrow> FactCheckClient" where
  "fact_check_client_new net env =
     \<lparr>client = net,
      google_api_key = env ''GOOGLE_FACTCHECK_API_KEY'',
      newsapi_key = env ''NEWSAPI_KEY''\<rparr>"

definition normalize_rating :: "string \<Rightarrow> f64" where
  "normalize_rating rating =
     (let rating_lower = to_lowercase rating in
      if contains rating_lower ''true'' \<and> \<not> contains rating_lower ''mostly'' then Num 1.0
      else if contains rating_lower ''mostly true'' then Num 0.8
      else if contains rating_lower ''mixed'' \<or> contains rating_lower ''half'' then Num 0.5
      else if contains rating_lower ''mostly false'' then Num 0.2
      else if contains rating_lower ''false'' then Num 0.0
      else Num 0.5)"

text \<open>\<open>client.get(&url).send().await?.json().await?\<close> at a response type.\<close>

definition get_json :: "'a decoder \<Rightarrow> network \<Rightarrow> string \<Rightarrow> (error, 'a) result" where
  "get_json decode net url = and_then (net url) (json_as decode)"

abbreviation google_endpoint :: "network \<Rightarrow> string \<Rightarrow> (error, GoogleFactCheckResponse) result" where
  "google_endpoint \<equiv> get_json google_fact_check_response_deserialize"

abbreviation newsapi_endpoint :: "network \<Rightarrow> string \<Rightarrow> (error, NewsApiResponse) result" where
  "newsapi_endpoint \<equiv> get_json news_api_response_deserialize"

definition google_url :: "string \<Rightarrow> string \<Rightarrow> string" where
  "google_url claim api_key =
     ''https://factchecktools.googleapis.com/v1alpha1/claims:search?query=''
       @ urlencode claim @ ''&key='' @ api_key"

definition review_result :: "GoogleClaimReview \<Rightarrow> FactCheckResult" where
  "review_result review =
     \<lparr>fc_source = site (publisher review),
      fc_verdict = textual_rating review,
      fc_rating = normalize_rating (textual_rating review),
      fc_url = Some (gr_url review),
      fc_explanation = title review\<rparr>"

definition google_fact_check :: "FactCheckClient \<Rightarrow> string \<Rightarrow> (error, FactCheckResult list) result" where
  "google_fact_check self claim =
     and_then (ok_or_else (google_api_key self)
         (Message ''Google Fact Check API key not configured'')) (\<lambda>api_key.
     and_then (get_json google_fact_check_response_deserialize (client self)
         (google_url claim api_key)) (\<lambda>response.
       Ok (filter_map (\<lambda>claim. map_option review_result (first (claim_review claim)))
         (unwrap_or_default (claims response)))))"

definition news_url :: "string \<Rightarrow> string \<Rightarrow> string" where
  "news_url query api_key =
     ''https://newsapi.org/v2/everything?q='' @ urlencode query @ ''&apiKey='' @ api_key"

definition check_news_sources :: "FactCheckClient \<Rightarrow> string \<Rightarrow> (error, string list) result" where
  "check_news_sources self query =
     and_then (ok_or_else (newsapi_key self) (Message ''NewsAPI key not configured'')) (\<lambda>api_key.
     and_then (get_json news_api_response_deserialize (client self)
         (news_url query api_key)) (\<lambda>response.
       Ok (map (\<lambda>article. ns_name (na_source article)) (articles response))))"

text \<open>
  \<open>if let Ok(..)\<close> takes the results of a successful call and skips an \<open>Err\<close>;
  a panic of the call is not caught.
\<close>

definition aggregate_fact_checks :: "FactCheckClient \<Rightarrow> string \<Rightarrow> (error, FactCheckResult list) result" where
  "aggregate_fact_checks self claim =
     (case google_fact_check self claim of
        Inr google_results \<Rightarrow> Ok ([] @ google_results)
      | Inl (Err _) \<Rightarrow> Ok []
      | Inl (Panic p) \<Rightarrow> Abort p)"

section \<open>Vocabulary of the lemmas\<close>

text \<open>\<open>mentions r w\<close>: the word \<open>w\<close> occurs in the rating \<open>r\<close>, ignoring case.\<close>

definition mentions :: "string \<Rightarrow> string \<Rightarrow> bool" where
  "mentions r w = contains (to_lowercase r) w"

text \<open>The claims of a response that carry at least one review.\<close>

definition reviewed :: "GoogleFactCheckResponse \<Rightarrow> GoogleClaim list" where
  "reviewed response = filter (\<lambda>c. claim_review c \<noteq> []) (unwrap_or_default (claims response))"

text \<open>
  The documents that are read as a given value: each field under its name, in the
  order of the declaration.
\<close>

definition google_publisher_json :: "GooglePublisher \<Rightarrow> json" where
  "google_publisher_json p = JObject [(''site'', JString (site p))]"

definition google_claim_review_json :: "GoogleClaimReview \<Rightarrow> json" where
  "google_claim_review_json v =
     JObject [(''publisher'', google_publisher_json (publisher v)),
              (''url'', JString (gr_url v)),
              (''title'', json_of_option JString (title v)),
              (''textualRating'', JString (textual_rating v))]"

definition google_claim_json :: "GoogleClaim \<Rightarrow> json" where
  "google_claim_json c = JObject [(''claimReview'', json_of_vec google_claim_review_json (claim_review c))]"

definition google_fact_check_response_json :: "GoogleFactCheckResponse \<Rightarrow> json" where
  "google_fact_check_response_json r =
     JObject [(''claims'', json_of_option (json_of_vec google_claim_json) (claims r))]"

definition news_api_response_json :: "NewsApiResponse \<Rightarrow> json" where
  "news_api_response_json r =
     JObject [(''articles'',
       json_of_vec (\<lambda>a. JObject [(''source'', JObject [(''name'', JString (ns_name (na_source a)))])])
         (articles r))]"

text \<open>
  A worked example: a provider that answers every request with one reviewed claim
  and one claim without a review, a provider that refuses the key, and a client
  configured with the Google key only.
\<close>

definition demo_review :: GoogleClaimReview where
  "demo_review =
     \<lparr>publisher = \<lparr>site = ''snopes.com''\<rparr>, gr_url = ''https://snopes.com/1'',
      title = Some ''Moon cheese'', textual_rating = ''Mostly False''\<rparr>"

definition demo_response :: GoogleFactCheckResponse where
  "demo_response = \<lparr>claims = Some [\<lparr>claim_review = [demo_review]\<rparr>, \<lparr>claim_review = []\<rparr>]\<rparr>"

definition demo_network :: network where
  "demo_network url = Ok \<lparr>status_code = 200, body = Some (google_fact_check_response_json demo_response)\<rparr>"

definition refused_document :: json where
  "refused_document =
     JObject [(''error'',
       JObject [(''code'', JNumber (Num 403)),
                (''message'', JString ''The request is missing a valid API key.''),
                (''status'', JString ''PERMISSION_DENIED'')])]"

definition refusing_network :: network where
  "refusing_network url = Ok \<lparr>status_code = 403, body = Some refused_document\<rparr>"

definition refused_client :: FactCheckClient where
  "refused_client = fact_check_client_new refusing_network [''GOOGLE_FACTCHECK_API_KEY'' \<mapsto> ''K'']"

text \<open>A provider whose second claim comes without the list of its reviews.\<close>

definition partial_document :: json where
  "partial_document =
     JObject [(''claims'',
       JArray [google_claim_json \<lparr>claim_review = [demo_review]\<rparr>,
               JObject [(''text'', JString ''the moon is made of cheese'')]])]"

definition partial_client :: FactCheckClient where
  "partial_client =
     fact_check_client_new (\<lambda>url. Ok \<lparr>status_code = 200, body = Some partial_document\<rparr>)
       [''GOOGLE_FACTCHECK_API_KEY'' \<mapsto> ''K'']"

definition demo_client :: FactCheckClient where
  "demo_client = fact_check_client_new demo_network [''GOOGLE_FACTCHECK_API_KEY'' \<mapsto> ''K'']"

definition demo_result :: FactCheckResult where
  "demo_result =
     \<lparr>fc_source = ''snopes.com'', fc_verdict = ''Mostly False'', fc_rating = Num 0.2,
      fc_url = Some ''https://snopes.com/1'', fc_explanation = Some ''Moon cheese''\<rparr>"

lemma normalize_rating_mentions:
  "normalize_rating r =
     (if mentions r ''true'' \<and> \<not> mentions r ''mostly'' then Num 1
      else if mentions r ''mostly true'' then Num 0.8
      else if mentions r ''mixed'' \<or> mentions r ''half'' then Num 0.5
      else if mentions r ''mostly false'' then Num 0.2
      else if mentions r ''false'' then Num 0
      else Num 0.5)"
  by (simp add: normalize_rating_def mentions_def Let_def)

lemma mentions_mostly_true: "mentions r ''mostly true'' \<Longrightarrow> mentions r ''true'' \<and> mentions r ''mostly''"
  unfolding mentions_def by (auto elim: contains_trans)

lemma mentions_mostly_false: "mentions r ''mostly false'' \<Longrightarrow> mentions r ''false'' \<and> mentions r ''mostly''"
  unfolding mentions_def by (auto elim: contains_trans)

lemma mentions_to_lowercase [simp]: "mentions (to_lowercase r) w = mentions r w"
  by (simp add: mentions_def)

lemma mentions_cong: "to_lowercase a = to_lowercase b \<Longrightarrow> mentions a w = mentions b w"
  by (simp add: mentions_def)

lemma normalize_rating_in_unit [simp]: "in_unit (normalize_rating r)"
  by (simp add: normalize_rating_mentions)

lemma filter_map_first:
  "filter_map (\<lambda>c. map_option g (first (f c))) xs = map (\<lambda>c. g (hd (f c))) (filter (\<lambda>c. f c \<noteq> []) xs)"
  by (induction xs) (auto simp: first_def split: list.splits)

lemmas fact_check_defs =
  google_fact_check_def check_news_sources_def aggregate_fact_checks_def review_result_def

lemmas demo_defs =
  demo_client_def demo_response_def demo_review_def demo_result_def fact_check_client_new_def

section \<open>Properties of the derived instances\<close>

lemmas deserialize_defs =
  google_publisher_deserialize_def google_claim_review_deserialize_def google_claim_deserialize_def
  google_fact_check_response_deserialize_def news_source_deserialize_def
  news_article_deserialize_def news_api_response_deserialize_def fact_check_result_deserialize_def

lemmas document_defs =
  google_publisher_json_def google_claim_review_json_def google_claim_json_def
  google_fact_check_response_json_def news_api_response_json_def fact_check_result_serialize_def

text \<open>Every value of a response type is read from its document.\<close>

lemma google_publisher_roundtrip [simp]:
  "google_publisher_deserialize (google_publisher_json p) = Some p"
  by (simp add: google_publisher_deserialize_def google_publisher_json_def required_def)

lemma google_claim_review_roundtrip [simp]:
  "google_claim_review_deserialize (google_claim_review_json v) = Some v"
  by (simp add: google_claim_review_deserialize_def google_claim_review_json_def required_def
      optional_def)

lemma google_claim_roundtrip [simp]: "google_claim_deserialize (google_claim_json c) = Some c"
  by (simp add: google_claim_deserialize_def google_claim_json_def required_def vec_of_json_of_vec)

lemma google_fact_check_response_roundtrip [simp]:
  "google_fact_check_response_deserialize (google_fact_check_response_json r) = Some r"
proof -
  have "option_of_json (vec_of_json google_claim_deserialize)
      (json_of_option (json_of_vec google_claim_json) (claims r)) = Some (claims r)"
    by (rule option_of_json_of_option) (simp_all add: vec_of_json_of_vec, simp add: json_of_vec_def)
  then show ?thesis
    by (simp add: google_fact_check_response_deserialize_def google_fact_check_response_json_def
        optional_def)
qed

lemma news_api_response_roundtrip [simp]:
  "news_api_response_deserialize (news_api_response_json r) = Some r"
  by (simp add: news_api_response_deserialize_def news_api_response_json_def required_def
      vec_of_json_of_vec news_article_deserialize_def news_source_deserialize_def)

text \<open>
  The list of claims may be missing, the list of reviews of a claim may not, and a
  member that no field names is skipped.
\<close>

lemma response_without_claims:
  "''claims'' \<notin> fst ` set kvs \<Longrightarrow>
     google_fact_check_response_deserialize (JObject kvs) = Some \<lparr>claims = None\<rparr>"
  by (simp add: google_fact_check_response_deserialize_def)

lemma claim_without_reviews:
  "''claimReview'' \<notin> fst ` set kvs \<Longrightarrow> google_claim_deserialize (JObject kvs) = None"
  by (simp add: google_claim_deserialize_def)

lemma response_with_claims:
  "members_named ''claims'' kvs = [JArray cs] \<Longrightarrow>
     google_fact_check_response_deserialize (JObject kvs) =
       map_option (\<lambda>cs. \<lparr>claims = Some cs\<rparr>) (those (map google_claim_deserialize cs))"
  by (cases "those (map google_claim_deserialize cs)")
    (simp_all add: google_fact_check_response_deserialize_def optional_def vec_of_json_def)

text \<open>A struct is also read from the array of its fields.\<close>

lemma google_claim_review_of_array:
  "google_claim_review_deserialize
     (JArray [google_publisher_json p, JString u, json_of_option JString t, JString r]) =
   Some \<lparr>publisher = p, gr_url = u, title = t, textual_rating = r\<rparr>"
  by (simp add: google_claim_review_deserialize_def required_def optional_def)

lemma google_endpoint_demo [simp]: "google_endpoint demo_network url = Ok demo_response"
  by (simp add: get_json_def demo_network_def)

lemma get_json_cases:
  "get_json decode net url =
     (case net url of
        Inl x \<Rightarrow> Inl x
      | Inr res \<Rightarrow>
          (case Option.bind (body res) decode of
             Some v \<Rightarrow> Ok v
           | None \<Rightarrow> Error (Decode ''error decoding response body'')))"
  by (simp add: get_json_def json_as_cases split: sum.split)

lemma is_finite_normalize_rating [simp]: "is_finite (normalize_rating r)"
  by (simp add: normalize_rating_def Let_def)

text \<open>
  C30.  A \<open>FactCheckResult\<close> that is written as JSON is read back as it was
  exactly when its rating is finite, since a rating that is infinite or NaN is
  written as \<open>null\<close>, which is not read as a number; every result that
  \<open>google_fact_check\<close> builds from a review is read back.
\<close>

theorem fact_check_result_roundtrip:
  "fact_check_result_deserialize (fact_check_result_serialize r) =
     (if is_finite (fc_rating r) then Some r else None)
   \<and> fact_check_result_deserialize (fact_check_result_serialize (review_result v)) =
     Some (review_result v)"
proof -
  have "fact_check_result_deserialize (fact_check_result_serialize r) =
      (if is_finite (fc_rating r) then Some r else None)" for r
    by (simp add: fact_check_result_deserialize_def fact_check_result_serialize_def required_def
        optional_def f64_of_json_of_f64)
  then show ?thesis
    by (simp add: review_result_def)
qed

section \<open>Properties of \<open>normalize_rating\<close>\<close>

text \<open>
  C4.  The decision table of \<open>normalize_rating\<close>, with the overlaps of its
  branches resolved: 1 exactly for a rating that mentions "true" and not "mostly";
  0.8 exactly for one that mentions "mostly true"; 0.2 exactly for one that mentions
  "mostly false" and neither "mostly true", "mixed" nor "half"; 0 exactly for one
  that mentions "false" and none of "mostly false", "mostly true", "mixed", "half",
  and does not take the first branch.
\<close>

theorem normalize_rating_table:
  "(normalize_rating r = Num 1 \<longleftrightarrow> mentions r ''true'' \<and> \<not> mentions r ''mostly'')
   \<and> (normalize_rating r = Num 0.8 \<longleftrightarrow> mentions r ''mostly true'')
   \<and> (normalize_rating r = Num 0.2 \<longleftrightarrow>
        mentions r ''mostly false'' \<and> \<not> mentions r ''mostly true''
        \<and> \<not> mentions r ''mixed'' \<and> \<not> mentions r ''half'')
   \<and> (normalize_rating r = Num 0 \<longleftrightarrow>
        mentions r ''false'' \<and> \<not> mentions r ''mostly false'' \<and> \<not> mentions r ''mostly true''
        \<and> \<not> mentions r ''mixed'' \<and> \<not> mentions r ''half''
        \<and> \<not> (mentions r ''true'' \<and> \<not> mentions r ''mostly''))"
  using mentions_mostly_true [of r] mentions_mostly_false [of r]
  by (auto simp: normalize_rating_mentions)

text \<open>
  The rating depends on the text only up to the case of its ASCII letters.
\<close>

lemma normalize_rating_case_insensitive:
  assumes "to_lowercase a = to_lowercase b"
  shows "normalize_rating a = normalize_rating b"
  using assms by (simp add: normalize_rating_def)

lemma normalize_rating_case_insensitive_witness:
  "normalize_rating ''MOSTLY False'' = normalize_rating ''mostly false''"
  using normalize_rating_case_insensitive [of "''MOSTLY False''" "''mostly false''"]
  by (simp add: text_eval)

text \<open>
  On the usual labels the scale is the documented one: "True" 1.0,
  "Mostly True" 0.8, "Mixed" and "Half" 0.5, "Mostly False" 0.2, "False" 0.0, and an
  unrecognised label 0.5.
\<close>

lemma normalize_rating_labels:
  "normalize_rating ''True'' = Num 1 \<and> normalize_rating ''Mostly True'' = Num 0.8
   \<and> normalize_rating ''Mixed'' = Num 0.5 \<and> normalize_rating ''Half'' = Num 0.5
   \<and> normalize_rating ''Mostly False'' = Num 0.2 \<and> normalize_rating ''False'' = Num 0
   \<and> normalize_rating ''Unproven'' = Num 0.5"
  by (simp add: normalize_rating_def text_eval)

text \<open>
  The first branch wins over every later one: a rating that mentions "true" and not
  "mostly" is rated 1.0 even when it also says "half", "not" or "false".
\<close>

lemma normalize_rating_half_true:
  "normalize_rating ''Half true'' = Num 1 \<and> normalize_rating ''False, not true'' = Num 1"
  by (simp add: normalize_rating_def text_eval)

section \<open>Properties of the provider calls\<close>

lemma google_fact_check_no_key:
  "google_api_key self = None \<Longrightarrow>
     google_fact_check self claim = Error (Message ''Google Fact Check API key not configured'')"
  by (simp add: google_fact_check_def)

lemma google_fact_check_key:
  "google_api_key self = Some k \<Longrightarrow>
     google_fact_check self claim =
       and_then (google_endpoint (client self) (google_url claim k)) (\<lambda>response.
         Ok (map (\<lambda>c. review_result (hd (claim_review c))) (reviewed response)))"
  by (simp add: google_fact_check_def filter_map_first reviewed_def)

lemma review_result_rating [simp]:
  "fc_rating (review_result v) = normalize_rating (fc_verdict (review_result v))"
  "fc_url (review_result v) = Some (gr_url v)"
  by (simp_all add: review_result_def)

text \<open>
  C6.  With a configured key and a provider whose answer is read as a response,
  whatever its status, \<open>google_fact_check\<close> returns one result per claim of the
  response that has a review, in the order of the response, built from the first
  review of the claim; a missing claim list is an empty one, and claims without
  reviews are dropped.
\<close>

theorem google_fact_check_ok:
  assumes "google_api_key self = Some k"
    and "client self (google_url claim k) = Ok \<lparr>status_code = c, body = Some j\<rparr>"
    and "google_fact_check_response_deserialize j = Some response"
  shows "google_fact_check self claim =
    Ok (map (\<lambda>c. review_result (hd (claim_review c))) (reviewed response))"
  using assms by (simp add: google_fact_check_key get_json_def)

theorem google_fact_check_ok_witness:
  "google_fact_check demo_client ''the moon is made of cheese'' = Ok [demo_result]"
  using google_fact_check_ok [of demo_client "''K''" "''the moon is made of cheese''" 200
      "google_fact_check_response_json demo_response" demo_response]
  by (simp add: demo_defs demo_network_def reviewed_def review_result_def normalize_rating_def
      text_eval)

text \<open>
  C7.  \<open>google_fact_check\<close> fails in exactly three ways: without a key it
  returns the error "Google Fact Check API key not configured" and the network is
  not consulted; with a key it fails as the exchange fails, and with the decoding
  error when the body of the answer is not read as a response.
\<close>

theorem google_fact_check_fails_iff:
  "google_fact_check self claim = Inl x \<longleftrightarrow>
     (google_api_key self = None
        \<and> x = Err (Message ''Google Fact Check API key not configured''))
     \<or> (\<exists>k. google_api_key self = Some k
        \<and> (client self (google_url claim k) = Inl x
           \<or> (\<exists>res. client self (google_url claim k) = Ok res
              \<and> Option.bind (body res) google_fact_check_response_deserialize = None
              \<and> x = Err (Decode ''error decoding response body''))))"
proof (cases "google_api_key self")
  case None
  then show ?thesis by (auto simp: google_fact_check_no_key)
next
  case (Some k)
  then show ?thesis
    by (auto simp: google_fact_check_key get_json_cases split: sum.splits option.splits)
qed

text \<open>
  C8.  \<open>google_fact_check\<close> does not look at the status of the response: an
  answer whose body is a JSON object without a member \<open>claims\<close>, as the error
  report of a provider that refuses the request is, reads as a response without
  claims, and the call and the aggregation return the empty list of results.
\<close>

theorem google_fact_check_ignores_status:
  assumes "google_api_key self = Some k"
    and "client self (google_url claim k) = Ok \<lparr>status_code = c, body = Some (JObject kvs)\<rparr>"
    and "''claims'' \<notin> fst ` set kvs"
  shows "google_fact_check self claim = Ok [] \<and> aggregate_fact_checks self claim = Ok []"
proof -
  from assms(2,3) have "google_endpoint (client self) (google_url claim k) = Ok \<lparr>claims = None\<rparr>"
    by (simp add: get_json_def response_without_claims)
  with assms(1) have "google_fact_check self claim = Ok []"
    by (simp add: google_fact_check_key reviewed_def)
  then show ?thesis
    by (simp add: aggregate_fact_checks_def)
qed

theorem google_fact_check_ignores_status_witness:
  "google_fact_check refused_client ''x'' = Ok [] \<and> aggregate_fact_checks refused_client ''x'' = Ok []"
  using google_fact_check_ignores_status [of refused_client "''K''" "''x''" 403
      "[(''error'',
         JObject [(''code'', JNumber (Num 403)),
                  (''message'', JString ''The request is missing a valid API key.''),
                  (''status'', JString ''PERMISSION_DENIED'')])]"]
  by (simp add: refused_client_def fact_check_client_new_def refusing_network_def
      refused_document_def)

text \<open>
  C20.  The decoder reads all of a response or nothing: when one claim of the
  list comes as an object without the member \<open>claimReview\<close>, the body is not
  decoded, \<open>google_fact_check\<close> fails with the decoding error and the
  aggregation returns the empty list, whatever the other claims hold.
\<close>

theorem google_fact_check_strict:
  assumes "google_api_key self = Some k"
    and "client self (google_url claim k) = Ok \<lparr>status_code = c, body = Some (JObject kvs)\<rparr>"
    and "members_named ''claims'' kvs = [JArray cs]"
    and "JObject ms \<in> set cs" and "''claimReview'' \<notin> fst ` set ms"
  shows "google_fact_check self claim = Error (Decode ''error decoding response body'')
    \<and> aggregate_fact_checks self claim = Ok []"
proof -
  from assms(4,5) have "those (map google_claim_deserialize cs) = None"
    by (auto simp: those_eq_None_iff image_iff claim_without_reviews intro!: bexI [of _ "JObject ms"])
  with assms(2,3) have "google_endpoint (client self) (google_url claim k) =
      Error (Decode ''error decoding response body'')"
    by (simp add: get_json_def response_with_claims)
  with assms(1) have "google_fact_check self claim = Error (Decode ''error decoding response body'')"
    by (simp add: google_fact_check_key)
  then show ?thesis
    by (simp add: aggregate_fact_checks_def)
qed

theorem google_fact_check_strict_witness:
  "google_fact_check partial_client ''x'' = Error (Decode ''error decoding response body'')
   \<and> aggregate_fact_checks partial_client ''x'' = Ok []"
  using google_fact_check_strict [of partial_client "''K''" "''x''" 200
      "[(''claims'',
         JArray [google_claim_json \<lparr>claim_review = [demo_review]\<rparr>,
                 JObject [(''text'', JString ''the moon is made of cheese'')]])]"
      "[google_claim_json \<lparr>claim_review = [demo_review]\<rparr>,
        JObject [(''text'', JString ''the moon is made of cheese'')]]"
      "[(''text'', JString ''the moon is made of cheese'')]"]
  by (simp add: partial_client_def fact_check_client_new_def partial_document_def)

text \<open>
  C29.  Every result of \<open>google_fact_check\<close> carries the normalised rating of its
  own verdict text, a number in the unit interval, and a source URL.
\<close>

theorem google_fact_check_results_rated:
  assumes "google_fact_check self claim = Ok results" and "r \<in> set results"
  shows "fc_rating r = normalize_rating (fc_verdict r) \<and> in_unit (fc_rating r)
    \<and> fc_url r \<noteq> None"
proof (cases "google_api_key self")
  case None
  with assms(1) show ?thesis by (simp add: google_fact_check_no_key)
next
  case (Some k)
  with assms obtain v where "r = review_result v"
    by (auto simp: google_fact_check_key and_then_eq_Ok_iff)
  then show ?thesis
    by simp
qed

theorem google_fact_check_results_rated_witness:
  "google_fact_check demo_client ''x'' = Ok [demo_result]
    \<and> fc_rating demo_result = normalize_rating (fc_verdict demo_result)
    \<and> in_unit (fc_rating demo_result) \<and> fc_url demo_result \<noteq> None"
proof -
  have "google_fact_check demo_client ''x'' = Ok [demo_result]"
    by (simp add: google_fact_check_key [of _ "''K''"] demo_defs reviewed_def review_result_def
        normalize_rating_def text_eval)
  then show ?thesis
    using google_fact_check_results_rated [of demo_client "''x''" "[demo_result]" demo_result]
    by simp
qed

lemma reviewed_results_eq_Nil_iff [simp]:
  "map (\<lambda>c. review_result (hd (claim_review c))) (reviewed response) = [] \<longleftrightarrow>
     reviewed response = []"
  by simp

text \<open>
  C9.  The aggregation tolerates a failing provider and cannot tell why it has
  nothing: when the exchange itself does not panic, \<open>aggregate_fact_checks\<close>
  returns successfully, and its list holds a result exactly when the key is
  configured, the exchange succeeded, the body was read as a response and a claim
  of it has a review.  A missing key, a failed exchange, an undecodable body, an
  error report and an answer without reviewed claims all give the empty list.
\<close>

theorem aggregate_fact_checks_tolerant:
  assumes "\<And>url. \<not> is_panic (client self url)"
  shows "\<exists>rs. aggregate_fact_checks self claim = Ok rs
    \<and> (rs \<noteq> [] \<longleftrightarrow>
         (\<exists>k c j response. google_api_key self = Some k
            \<and> client self (google_url claim k) = Ok \<lparr>status_code = c, body = Some j\<rparr>
            \<and> google_fact_check_response_deserialize j = Some response
            \<and> reviewed response \<noteq> []))"
proof (cases "google_api_key self")
  case None
  then show ?thesis
    by (simp add: aggregate_fact_checks_def google_fact_check_no_key)
next
  case (Some k)
  show ?thesis
  proof (cases "client self (google_url claim k)")
    case (Inl x)
    with assms [of "google_url claim k"] obtain e where "x = Err e"
      by (cases x) (simp_all add: is_panic_def)
    with Some Inl show ?thesis
      by (simp add: aggregate_fact_checks_def google_fact_check_key get_json_def)
  next
    case (Inr res)
    obtain c b where res: "res = \<lparr>status_code = c, body = b\<rparr>"
      by (cases res) simp
    show ?thesis
    proof (cases "Option.bind b google_fact_check_response_deserialize")
      case None
      with Some Inr res show ?thesis
        by (auto simp: aggregate_fact_checks_def google_fact_check_key get_json_cases)
    next
      case (Some response)
      with \<open>google_api_key self = Some k\<close> Inr res show ?thesis
        by (auto simp: aggregate_fact_checks_def google_fact_check_key get_json_cases
            bind_eq_Some_conv)
    qed
  qed
qed

theorem aggregate_fact_checks_tolerant_witness:
  "aggregate_fact_checks demo_client ''x'' = Ok [demo_result]
   \<and> aggregate_fact_checks (fact_check_client_new demo_network Map.empty) ''x'' = Ok []"
proof -
  have "\<not> is_panic (client demo_client url)" for url
    by (simp add: demo_defs demo_network_def)
  moreover have "google_fact_check demo_client ''x'' = Ok [demo_result]"
    by (simp add: google_fact_check_key [of _ "''K''"] demo_defs reviewed_def review_result_def
        normalize_rating_def text_eval)
  ultimately show ?thesis
    using aggregate_fact_checks_tolerant [of demo_client "''x''"]
    by (simp add: aggregate_fact_checks_def google_fact_check_no_key fact_check_client_new_def)
qed

text \<open>
  C21.  \<open>check_news_sources\<close> succeeds exactly when the NewsAPI key is
  configured, the exchange succeeds and the body of the answer, whatever its
  status, is read as a response; it then returns the source name of every article,
  in the order of the response.  The list of articles is not optional: the error
  report of the provider, an object without \<open>articles\<close>, is a decoding error
  here, where the Google call reads it as an empty answer.
\<close>

theorem check_news_sources_eq_Ok_iff:
  "check_news_sources self query = Ok names \<longleftrightarrow>
     (\<exists>k c j response. newsapi_key self = Some k
        \<and> client self (news_url query k) = Ok \<lparr>status_code = c, body = Some j\<rparr>
        \<and> news_api_response_deserialize j = Some response
        \<and> names = map (\<lambda>a. ns_name (na_source a)) (articles response))"
proof (cases "newsapi_key self")
  case None
  then show ?thesis by (simp add: check_news_sources_def)
next
  case (Some k)
  show ?thesis
  proof (cases "client self (news_url query k)")
    case (Inl x)
    with Some show ?thesis by (simp add: check_news_sources_def get_json_def)
  next
    case (Inr res)
    obtain c b where "res = \<lparr>status_code = c, body = b\<rparr>"
      by (cases res) simp
    with Some Inr show ?thesis
      by (cases b; cases "news_api_response_deserialize (the b)")
        (auto simp: check_news_sources_def get_json_def)
  qed
qed

lemma news_report_without_articles:
  "''articles'' \<notin> fst ` set kvs \<Longrightarrow> news_api_response_deserialize (JObject kvs) = None"
  by (simp add: news_api_response_deserialize_def)

section \<open>Request URLs\<close>

text \<open>
  C22.  The provider receives the claim text as it was given: the request URLs of
  both calls, read as their receiver reads them, hold exactly two parameters, the
  text under \<open>query\<close> (or \<open>q\<close>) and the key, whatever characters the text
  contains, as long as the key is made of unreserved characters.  The key is put
  into the URL as it is.
\<close>

theorem request_url_roundtrip:
  assumes "list_all is_unreserved k"
  shows "query_pairs (google_url claim k) = Some [(''query'', claim), (''key'', k)]
    \<and> query_pairs (news_url q k) = Some [(''q'', q), (''apiKey'', k)]"
proof
  have "google_url claim k =
      ''https://factchecktools.googleapis.com/v1alpha1/claims:search'' @ CHR ''?'' #
        (''query'' @ CHR ''='' # urlencode claim) @ CHR ''&'' # ''key'' @ CHR ''='' # k"
    by (simp add: google_url_def)
  then show "query_pairs (google_url claim k) = Some [(''query'', claim), (''key'', k)]"
    by (rule ssubst) (rule request_query, simp_all add: assms unreserved_eval)
  have "news_url q k =
      ''https://newsapi.org/v2/everything'' @ CHR ''?'' #
        (''q'' @ CHR ''='' # urlencode q) @ CHR ''&'' # ''apiKey'' @ CHR ''='' # k"
    by (simp add: news_url_def)
  then show "query_pairs (news_url q k) = Some [(''q'', q), (''apiKey'', k)]"
    by (rule ssubst) (rule request_query, simp_all add: assms unreserved_eval)
qed

theorem request_url_roundtrip_witness:
  "query_pairs (google_url ''a&key=x'' ''K-1'') = Some [(''query'', ''a&key=x''), (''key'', ''K-1'')]
   \<and> query_pairs (news_url ''a b'' ''K-1'') = Some [(''q'', ''a b''), (''apiKey'', ''K-1'')]"
  using request_url_roundtrip [of "''K-1''" "''a&key=x''" "''a b''"]
  by (simp add: unreserved_eval)

text \<open>A key with a reserved character adds a parameter to the request.\<close>

lemma key_not_encoded:
  "query_pairs (google_url ''x'' ''K&query=y'') =
     Some [(''query'', ''x''), (''key'', ''K''), (''query'', ''y'')]"
  by (simp add: google_url_def query_pairs_def query_of_def pair_of_def text_eval)

end
