(* ===== verification/Ml.thy ===== *)
theory Ml
  imports Rust_Float
begin

text \<open>
  The server-side machine-learning module, \<open>src/backend/src/ml\<close>: the
  placeholder credibility scorer of \<open>credibility.rs\<close> (the mean of its factors)
  and the placeholder language processor of \<open>nlp.rs\<close> (no entities, a fixed
  sentiment).  Both structs have no fields.
\<close>

section \<open>The placeholder scorer\<close>

datatype MlCredibilityScorer = MlCredibilityScorer

definition ml_scorer_new :: MlCredibilityScorer where
  "ml_scorer_new = MlCredibilityScorer"

text \<open>\<open>Iterator::sum\<close> on \<open>f64\<close>: the values added from the left, starting at 0.\<close>

definition f64_sum :: "f64 list \<Rightarrow> f64" where
  "f64_sum xs = foldl (+) (Num 0) xs"

definition score_claim :: "MlCredibilityScorer \<Rightarrow> f64 list \<Rightarrow> f64" where
  "score_claim self factors = f64_sum factors / f64_of_usize (length factors)"

section \<open>The placeholder language processor\<close>

datatype NlpProcessor = NlpProcessor

definition nlp_new :: NlpProcessor where
  "nlp_new = NlpProcessor"

definition extract_entities :: "NlpProcessor \<Rightarrow> string \<Rightarrow> string list" where
  "extract_entities self text = []"

definition analyze_sentiment :: "NlpProcessor \<Rightarrow> string \<Rightarrow> f64 \<times> f64" where
  "analyze_sentiment self text = (Num 0.0, Num 0.5)"

section \<open>Lemmas\<close>

lemma foldl_add_Num: "foldl (+) (Num a) (map Num xs) = Num (a + sum_list xs)"
  by (induction xs arbitrary: a) (simp_all add: add.assoc)

lemma f64_sum_Num [simp]: "f64_sum (map Num xs) = Num (sum_list xs)"
  by (simp add: f64_sum_def foldl_add_Num)

lemma foldl_add_NaN [simp]: "foldl (+) NaN xs = NaN"
  by (induction xs) simp_all

lemma f64_sum_NaN: "NaN \<in> set xs \<Longrightarrow> f64_sum xs = NaN"
proof -
  have "NaN \<in> set xs \<Longrightarrow> foldl (+) a xs = NaN" for a
    by (induction xs arbitrary: a) auto
  then show "NaN \<in> set xs \<Longrightarrow> f64_sum xs = NaN"
    by (simp add: f64_sum_def)
qed

lemma sum_list_bounds:
  fixes xs :: "real list"
  assumes "\<forall>x \<in> set xs. 0 \<le> x \<and> x \<le> 1"
  shows "0 \<le> sum_list xs \<and> sum_list xs \<le> real (length xs)"
  using assms by (induction xs) auto

lemma score_claim_Num:
  "xs \<noteq> [] \<Longrightarrow> score_claim self (map Num xs) = Num (sum_list xs / real (length xs))"
  by (simp add: score_claim_def f64_of_usize_def)

text \<open>
  C32.  \<open>score_claim\<close> returns the arithmetic mean of finite factors, and the mean
  of factors in the unit interval is in the unit interval; on the empty slice it
  divides zero by zero and returns NaN.
\<close>

theorem score_claim_mean:
  "score_claim self [] = NaN
   \<and> (xs \<noteq> [] \<longrightarrow> score_claim self (map Num xs) = Num (sum_list xs / real (length xs)))
   \<and> (xs \<noteq> [] \<and> (\<forall>x \<in> set xs. 0 \<le> x \<and> x \<le> 1) \<longrightarrow> in_unit (score_claim self (map Num xs)))"
proof (intro conjI impI)
  show "score_claim self [] = NaN"
    by (simp add: score_claim_def f64_sum_def f64_of_usize_def)
  show mean: "score_claim self (map Num xs) = Num (sum_list xs / real (length xs))" if "xs \<noteq> []"
    using that by (rule score_claim_Num)
  show "in_unit (score_claim self (map Num xs))"
    if "xs \<noteq> [] \<and> (\<forall>x \<in> set xs. 0 \<le> x \<and> x \<le> 1)"
  proof -
    from that have "0 \<le> sum_list xs \<and> sum_list xs \<le> real (length xs)"
      by (intro sum_list_bounds) simp
    moreover from that have "0 < real (length xs)" by simp
    ultimately show ?thesis
      using that by (simp add: mean divide_le_eq)
  qed
qed

theorem score_claim_mean_witness:
  "score_claim ml_scorer_new [] = NaN
   \<and> score_claim ml_scorer_new [Num 0.2, Num 0.4, Num 0.9] = Num 0.5
   \<and> in_unit (score_claim ml_scorer_new [Num 0.2, Num 0.4, Num 0.9])"
  using score_claim_mean [of ml_scorer_new "[0.2, 0.4, 0.9]"] by simp

text \<open>
  The language processor is a placeholder: it finds no entity in any text and
  reports the sentiment (0.0, 0.5) for every text.
\<close>

lemma nlp_placeholder:
  "extract_entities self text = [] \<and> analyze_sentiment self text = (Num 0, Num 0.5)"
  by (simp add: extract_entities_def analyze_sentiment_def)

end
