(* ===== verification/Stores.thy ===== *)
theory Stores
  imports Serde_Json
begin

text \<open>
  The three database clients, \<open>src/backend/src/db\<close>: \<open>ArangoClient\<close>
  (\<open>arango.rs\<close>), \<open>XtdbClient\<close> (\<open>xtdb.rs\<close>) and \<open>CacheClient\<close>
  (\<open>cache.rs\<close>).

  Each client talks to a server the sources do not contain.  A client handle is
  modelled as the transport it sends through: a function that takes a request and
  the state of the remote side and returns the reply, or the error of the exchange,
  and the new state.  The operations are state passing over that remote state, so
  their lemmas hold for every server; a server model is an instance of the
  transport.  JSON documents, which the sources hold as \<open>serde_json::Value\<close>,
  and responses are those of theory \<open>Serde_Json\<close>.
\<close>

section \<open>HTTP messages\<close>

datatype http_method = GET | HEAD | POST | PUT | DELETE | OPTIONS | PATCH

record request =
  http_method :: http_method
  req_url :: string
  query :: "(string \<times> string) list"
  json_body :: "json option"

type_synonym 's http = "request \<Rightarrow> 's \<Rightarrow> (error, response) result \<times> 's"

text \<open>\<open>StatusCode::is_success\<close>: the codes 200 to 299.\<close>

definition is_success :: "nat \<Rightarrow> bool" where
  "is_success code = (200 \<le> code \<and> code < 300)"

section \<open>XtdbClient\<close>

record 's XtdbClient =
  x_client :: "'s http"
  base_url :: string

definition xtdb_new :: "'s http \<Rightarrow> string \<Rightarrow> (error, 's XtdbClient) result" where
  "xtdb_new net url = Ok \<lparr>x_client = net, base_url = url\<rparr>"

definition put_request :: "string \<Rightarrow> json \<Rightarrow> request" where
  "put_request base doc =
     \<lparr>http_method = POST, req_url = base @ ''/_xtdb/submit-tx'', query = [],
      json_body = Some (JObject [(''tx-ops'', JArray [JArray [JString ''put'', doc]])])\<rparr>"

definition xtdb_put :: "'s XtdbClient \<Rightarrow> json \<Rightarrow> 's \<Rightarrow> (error, json) result \<times> 's" where
  "xtdb_put self doc s =
     (case x_client self (put_request (base_url self) doc) s of
        (r, s') \<Rightarrow> (and_then r response_json, s'))"

definition get_request :: "string \<Rightarrow> string \<Rightarrow> request" where
  "get_request base eid =
     \<lparr>http_method = GET, req_url = base @ ''/_xtdb/entity'', query = [(''eid'', eid)],
      json_body = None\<rparr>"

definition xtdb_get :: "'s XtdbClient \<Rightarrow> string \<Rightarrow> 's \<Rightarrow> (error, json option) result \<times> 's" where
  "xtdb_get self eid s =
     (case x_client self (get_request (base_url self) eid) s of
        (r, s') \<Rightarrow>
          (and_then r (\<lambda>res.
             if is_success (status_code res)
             then and_then (response_json res) (\<lambda>j. Ok (Some j))
             else Ok None), s'))"

section \<open>CacheClient\<close>

text \<open>
  The two Redis commands the client sends, and the replies of the server: no value,
  a bulk string that is UTF-8 text, a bulk string that is not (\<open>Binary\<close>), an
  integer, a status line, or an error.
\<close>

datatype redis_command = Get string | SetEx string nat string

datatype redis_reply =
  Nil | Bulk string | Binary "u8 list" | Integer int | Status string | Failure string

type_synonym 's redis = "redis_command \<Rightarrow> 's \<Rightarrow> (error, redis_reply) result \<times> 's"

record 's CacheClient =
  conn :: "'s redis"

text \<open>
  \<open>new\<close> opens the URL and connects; \<open>connect\<close> gives the connection reached
  under a URL, or the error of parsing the URL or of connecting.
\<close>

definition cache_new :: "(string \<Rightarrow> (error, 's redis) result) \<Rightarrow> string \<Rightarrow> (error, 's CacheClient) result" where
  "cache_new connect url = and_then (connect url) (\<lambda>c. Ok \<lparr>conn = c\<rparr>)"

text \<open>
  Conversion of a reply to \<open>Option<String>\<close> and to \<open>()\<close>: an error reply of
  the server is an error; a bulk string that is not UTF-8 and an integer do not
  convert to a string; every reply but an error converts to \<open>()\<close>.
\<close>

definition reply_option_string :: "redis_reply \<Rightarrow> (error, string option) result" where
  "reply_option_string r =
     (case r of
        Nil \<Rightarrow> Ok None
      | Bulk v \<Rightarrow> Ok (Some v)
      | Binary bytes \<Rightarrow> Error (Decode ''Invalid UTF-8'')
      | Integer i \<Rightarrow> Error (Decode ''Response type not string compatible.'')
      | Status v \<Rightarrow> Ok (Some v)
      | Failure e \<Rightarrow> Error (Transport e))"

definition reply_unit :: "redis_reply \<Rightarrow> (error, unit) result" where
  "reply_unit r =
     (case r of Failure e \<Rightarrow> Error (Transport e) | _ \<Rightarrow> Ok ())"

definition cache_get :: "'s CacheClient \<Rightarrow> string \<Rightarrow> 's \<Rightarrow> (error, string option) result \<times> 's" where
  "cache_get self key s =
     (case conn self (Get key) s of (r, s') \<Rightarrow> (and_then r reply_option_string, s'))"

definition cache_set :: "'s CacheClient \<Rightarrow> string \<Rightarrow> string \<Rightarrow> nat \<Rightarrow> 's \<Rightarrow> (error, unit) result \<times> 's" where
  "cache_set self key v ttl s =
     (case conn self (SetEx key ttl v) s of (r, s') \<Rightarrow> (and_then r reply_unit, s'))"

section \<open>ArangoClient\<close>

text \<open>
  What \<open>new\<close> needs of an ArangoDB server: whether it is reached under a URL,
  which user and password it accepts, and which databases it holds.
\<close>

record arango_server =
  accepts :: "string \<Rightarrow> string \<Rightarrow> bool"
  databases :: "string list"

record Database =
  db_url :: string
  db_name :: string

record ArangoClient =
  db :: Database

definition establish_jwt ::
  "(string \<rightharpoonup> arango_server) \<Rightarrow> string \<Rightarrow> string \<Rightarrow> string \<Rightarrow> (error, arango_server) result" where
  "establish_jwt servers url user password =
     (case servers url of
        None \<Rightarrow> Error (Transport ''connection refused'')
      | Some srv \<Rightarrow>
          if accepts srv user password then Ok srv else Error (Transport ''unauthorized''))"

definition arango_new ::
  "(string \<rightharpoonup> arango_server) \<Rightarrow> string \<Rightarrow> string \<Rightarrow> (error, ArangoClient) result" where
  "arango_new servers url name =
     and_then (establish_jwt servers url ''root'' ''changeme'') (\<lambda>conn.
     and_then (if name \<in> set (databases conn) then Ok \<lparr>db_url = url, db_name = name\<rparr>
               else Error (Transport ''database not found'')) (\<lambda>d.
       Ok \<lparr>db = d\<rparr>))"

definition database :: "ArangoClient \<Rightarrow> Database" where
  "database self = db self"


section \<open>Lemmas on XtdbClient\<close>

lemmas store_defs =
  xtdb_new_def xtdb_put_def xtdb_get_def put_request_def get_request_def response_json_def
  cache_new_def cache_get_def cache_set_def reply_option_string_def reply_unit_def
  arango_new_def establish_jwt_def database_def

lemma is_success_simps [simp]:
  "is_success 200" "is_success 202" "\<not> is_success 404" "\<not> is_success 500"
  by (simp_all add: is_success_def)

lemma xtdb_get_state:
  "snd (xtdb_get self eid s) = snd (x_client self (get_request (base_url self) eid) s)"
  by (simp add: xtdb_get_def split: prod.split)

lemma xtdb_put_state:
  "snd (xtdb_put self doc s) = snd (x_client self (put_request (base_url self) doc) s)"
  by (simp add: xtdb_put_def split: prod.split)

section \<open>Lemmas on ArangoClient\<close>

text \<open>
  \<open>ArangoClient::new\<close> succeeds exactly when a server is reached under the
  URL, that server accepts the user \<open>root\<close> with the password \<open>changeme\<close>, and
  it holds the named database; the handle then names that URL and database.
\<close>

lemma arango_new_ok_iff:
  "arango_new servers url name = Ok c \<longleftrightarrow>
     (\<exists>srv. servers url = Some srv \<and> accepts srv ''root'' ''changeme''
        \<and> name \<in> set (databases srv))
     \<and> c = \<lparr>db = \<lparr>db_url = url, db_name = name\<rparr>\<rparr>"
  by (auto simp: arango_new_def establish_jwt_def and_then_eq_Ok_iff split: option.splits if_splits)

end
