(* ===== verification/Store_Servers.thy ===== *)
theory Store_Servers
  imports Stores
begin

text \<open>
  Reference servers for two of the transports of \<open>Stores\<close>: a Redis that
  keeps values until they expire, and an XTDB node that keeps an append-only log of
  the documents put into it.  The sources contain neither; the models follow the
  collaborator contracts of the design (a cache with \<open>get\<close> and \<open>set\<close> with a
  time to live in seconds; a log with a put keyed by entity id and a read by id) and
  the request formats the clients send.  They are instances of the transports, so
  the lemmas of \<open>Stores\<close> apply to them, and they give the client operations a
  server to be correct against: what is written can be read back.

  The node indexes a transaction as it accepts it; a real node does so a moment
  later, which the model does not show.
\<close>

section \<open>A Redis with expiry\<close>

text \<open>The entries with the second in which each expires, and the server's clock.\<close>

record redis_server =
  entries :: "string \<rightharpoonup> string \<times> nat"
  seconds :: nat

definition redis_exec :: "redis_server redis" where
  "redis_exec cmd s =
     (case cmd of
        Get key \<Rightarrow>
          (case entries s key of
             None \<Rightarrow> (Ok Nil, s)
           | Some (v, expires) \<Rightarrow>
               if seconds s < expires then (Ok (Bulk v), s)
               else (Ok Nil, s\<lparr>entries := (entries s)(key := None)\<rparr>))
      | SetEx key ttl v \<Rightarrow>
          if ttl = 0 then (Ok (Failure ''ERR invalid expire time in setex''), s)
          else (Ok (Status ''OK''), s\<lparr>entries := (entries s)(key \<mapsto> (v, seconds s + ttl))\<rparr>))"

definition elapse :: "nat \<Rightarrow> redis_server \<Rightarrow> redis_server" where
  "elapse n s = s\<lparr>seconds := seconds s + n\<rparr>"

definition redis_client :: "redis_server CacheClient" where
  "redis_client = \<lparr>conn = redis_exec\<rparr>"

text \<open>What the cache holds: the values that have not expired.\<close>

definition live :: "redis_server \<Rightarrow> string \<rightharpoonup> string" where
  "live s key =
     (case entries s key of
        None \<Rightarrow> None
      | Some (v, expires) \<Rightarrow> if seconds s < expires then Some v else None)"

definition empty_redis :: redis_server where
  "empty_redis = \<lparr>entries = Map.empty, seconds = 0\<rparr>"

section \<open>An XTDB node\<close>

text \<open>The transaction log, newest first: the entity id and the document of each put.\<close>

record xtdb_node =
  tx_log :: "(string \<times> json) list"

text \<open>The id of a document: its field \<open>xt/id\<close>, when that is a string.\<close>

definition doc_id :: "json \<Rightarrow> string option" where
  "doc_id doc =
     (case doc of
        JObject kvs \<Rightarrow>
          (case map_of kvs ''xt/id'' of Some (JString i) \<Rightarrow> Some i | _ \<Rightarrow> None)
      | _ \<Rightarrow> None)"

text \<open>The document of a transaction that is a single put.\<close>

fun put_doc :: "json \<Rightarrow> json option" where
  "put_doc (JObject [(k, JArray [JArray [JString op, doc]])]) =
     (if k = ''tx-ops'' \<and> op = ''put'' then Some doc else None)"
| "put_doc _ = None"

definition entity :: "xtdb_node \<Rightarrow> string \<rightharpoonup> json" where
  "entity n = map_of (tx_log n)"

definition error_body :: "string \<Rightarrow> json" where
  "error_body msg = JObject [(''error'', JString msg)]"

definition submit_tx :: "json option \<Rightarrow> xtdb_node \<Rightarrow> (error, response) result \<times> xtdb_node" where
  "submit_tx b n =
     (case Option.bind (Option.bind b put_doc) (\<lambda>doc. map_option (\<lambda>i. (i, doc)) (doc_id doc)) of
        Some (i, doc) \<Rightarrow>
          (Ok \<lparr>status_code = 202,
               body = Some (JObject [(''txId'', JNumber (f64_of_usize (length (tx_log n))))])\<rparr>,
           n\<lparr>tx_log := (i, doc) # tx_log n\<rparr>)
      | None \<Rightarrow> (Ok \<lparr>status_code = 400, body = Some (error_body ''Malformed transaction'')\<rparr>, n))"

definition read_entity :: "(string \<times> string) list \<Rightarrow> xtdb_node \<Rightarrow> (error, response) result \<times> xtdb_node" where
  "read_entity q n =
     (case Option.bind (map_of q ''eid'') (entity n) of
        Some doc \<Rightarrow> (Ok \<lparr>status_code = 200, body = Some doc\<rparr>, n)
      | None \<Rightarrow> (Ok \<lparr>status_code = 404, body = Some (error_body ''entity not found'')\<rparr>, n))"

definition xtdb_exec :: "xtdb_node http" where
  "xtdb_exec req n =
     (if http_method req = POST \<and> suffix ''/_xtdb/submit-tx'' (req_url req)
        then submit_tx (json_body req) n
      else if http_method req = GET \<and> suffix ''/_xtdb/entity'' (req_url req)
        then read_entity (query req) n
      else (Ok \<lparr>status_code = 404, body = None\<rparr>, n))"

definition node_client :: "string \<Rightarrow> xtdb_node XtdbClient" where
  "node_client url = \<lparr>x_client = xtdb_exec, base_url = url\<rparr>"

definition empty_node :: xtdb_node where
  "empty_node = \<lparr>tx_log = []\<rparr>"

definition demo_doc :: json where
  "demo_doc = JObject [(''xt/id'', JString ''claim-1''), (''verdict'', JString ''Mixed'')]"

section \<open>Lemmas on the Redis\<close>

lemmas server_defs =
  redis_exec_def redis_client_def live_def elapse_def empty_redis_def
  doc_id_def entity_def submit_tx_def read_entity_def xtdb_exec_def node_client_def
  empty_node_def demo_doc_def error_body_def

text \<open>
  The client over the reference server implements a map with expiry: \<open>get\<close>
  looks the key up among the live values and leaves them as they are, \<open>set\<close>
  with a positive time to live binds the key, and the passing of time only removes
  bindings.
\<close>

lemma cache_get_live:
  "fst (cache_get redis_client key s) = Ok (live s key)"
  "live (snd (cache_get redis_client key s)) = live s"
  "seconds (snd (cache_get redis_client key s)) = seconds s"
  by (auto simp: cache_get_def redis_client_def redis_exec_def reply_option_string_def live_def
      fun_eq_iff split: option.splits prod.splits)

lemma cache_set_live:
  assumes "0 < ttl"
  shows "fst (cache_set redis_client key v ttl s) = Ok ()"
    and "live (snd (cache_set redis_client key v ttl s)) = (live s)(key \<mapsto> v)"
    and "entries (snd (cache_set redis_client key v ttl s)) key = Some (v, seconds s + ttl)"
    and "seconds (snd (cache_set redis_client key v ttl s)) = seconds s"
  using assms
  by (auto simp: cache_set_def redis_client_def redis_exec_def reply_unit_def live_def fun_eq_iff
      split: option.splits prod.splits)

lemma cache_set_zero:
  "cache_set redis_client key v 0 s = (Error (Transport ''ERR invalid expire time in setex''), s)"
  by (simp add: cache_set_def redis_client_def redis_exec_def reply_unit_def)

lemma live_elapse:
  "live (elapse n s) key =
     (case entries s key of
        None \<Rightarrow> None
      | Some (v, expires) \<Rightarrow> if seconds s + n < expires then Some v else None)"
  by (simp add: live_def elapse_def split: option.splits)

lemma live_elapse_le: "live (elapse n s) \<subseteq>\<^sub>m live s"
  by (auto simp: map_le_def live_def elapse_def split: option.splits if_splits)

lemma entries_elapse [simp]: "entries (elapse n s) = entries s"
  by (simp add: elapse_def)

lemma seconds_elapse [simp]: "seconds (elapse n s) = seconds s + n"
  by (simp add: elapse_def)

text \<open>
  C26.  Against the reference Redis a value set with a positive time to live is
  read back by \<open>cache_get\<close> for exactly that many seconds and is gone from then
  on; a time to live of zero is refused by the server, the set fails and the cache
  is unchanged.
\<close>

theorem cache_set_get_roundtrip:
  assumes "0 < ttl"
  shows "fst (cache_get redis_client key (elapse n (snd (cache_set redis_client key v ttl s)))) =
      Ok (if n < ttl then Some v else None)
    \<and> is_ok (fst (cache_set redis_client key v ttl s))
    \<and> \<not> is_ok (fst (cache_set redis_client key v 0 s))
    \<and> snd (cache_set redis_client key v 0 s) = s"
  using assms
  by (simp add: cache_get_live live_elapse cache_set_live cache_set_zero)

theorem cache_set_get_roundtrip_witness:
  "fst (cache_get redis_client ''k'' (elapse 59 (snd (cache_set redis_client ''k'' ''v'' 60 empty_redis))))
     = Ok (Some ''v'')
   \<and> fst (cache_get redis_client ''k'' (elapse 60 (snd (cache_set redis_client ''k'' ''v'' 60 empty_redis))))
     = Ok None"
  using cache_set_get_roundtrip [of 60 "''k''" 59 "''v''" empty_redis]
    cache_set_get_roundtrip [of 60 "''k''" 60 "''v''" empty_redis]
  by simp

section \<open>Lemmas on the node\<close>

lemma put_doc_tx [simp]:
  "put_doc (JObject [(''tx-ops'', JArray [JArray [JString ''put'', doc]])]) = Some doc"
  by simp

lemma suffix_append_same [simp]: "suffix ys (xs @ ys)"
  by (simp add: suffix_def)

lemma xtdb_exec_put:
  "xtdb_exec (put_request base doc) n =
     (case doc_id doc of
        Some i \<Rightarrow>
          (Ok \<lparr>status_code = 202,
               body = Some (JObject [(''txId'', JNumber (f64_of_usize (length (tx_log n))))])\<rparr>,
           n\<lparr>tx_log := (i, doc) # tx_log n\<rparr>)
      | None \<Rightarrow> (Ok \<lparr>status_code = 400, body = Some (error_body ''Malformed transaction'')\<rparr>, n))"
  by (simp add: xtdb_exec_def put_request_def submit_tx_def split: option.split)

lemma xtdb_exec_get:
  "xtdb_exec (get_request base eid) n =
     (case entity n eid of
        Some doc \<Rightarrow> (Ok \<lparr>status_code = 200, body = Some doc\<rparr>, n)
      | None \<Rightarrow> (Ok \<lparr>status_code = 404, body = Some (error_body ''entity not found'')\<rparr>, n))"
  by (simp add: xtdb_exec_def get_request_def read_entity_def)

lemma xtdb_get_node [simp]: "xtdb_get (node_client url) eid n = (Ok (entity n eid), n)"
  by (simp add: xtdb_get_def node_client_def xtdb_exec_get is_success_def response_json_def
      split: option.split)

lemma xtdb_put_node:
  "xtdb_put (node_client url) doc n =
     (case doc_id doc of
        Some i \<Rightarrow>
          (Ok (JObject [(''txId'', JNumber (f64_of_usize (length (tx_log n))))]),
           n\<lparr>tx_log := (i, doc) # tx_log n\<rparr>)
      | None \<Rightarrow> (Ok (error_body ''Malformed transaction''), n))"
  by (simp add: xtdb_put_def node_client_def xtdb_exec_put response_json_def split: option.split)

text \<open>The log only grows: no request removes or rewrites a transaction.\<close>

lemma xtdb_exec_append_only: "suffix (tx_log n) (tx_log (snd (xtdb_exec req n)))"
  by (auto simp: xtdb_exec_def submit_tx_def read_entity_def suffix_Cons
      split: option.splits prod.splits)

text \<open>
  C27.  Against the reference node a document with an id that \<open>xtdb_put\<close>
  submits is what \<open>xtdb_get\<close> then reads under that id, other ids read as
  before, and the put adds one transaction to the log.
\<close>

theorem xtdb_put_get_roundtrip:
  assumes "doc_id doc = Some i"
  shows "is_ok (fst (xtdb_put (node_client url) doc n))
    \<and> xtdb_get (node_client url) eid (snd (xtdb_put (node_client url) doc n)) =
        (Ok (if eid = i then Some doc else entity n eid),
         n\<lparr>tx_log := (i, doc) # tx_log n\<rparr>)"
  using assms by (simp add: xtdb_put_node entity_def)

theorem xtdb_put_get_roundtrip_witness:
  "xtdb_get (node_client ''http://xtdb:3000'') ''claim-1''
     (snd (xtdb_put (node_client ''http://xtdb:3000'') demo_doc empty_node)) =
   (Ok (Some demo_doc), \<lparr>tx_log = [(''claim-1'', demo_doc)]\<rparr>)"
  using xtdb_put_get_roundtrip [of demo_doc "''claim-1''" "''http://xtdb:3000''" empty_node "''claim-1''"]
  by (simp add: doc_id_def demo_doc_def empty_node_def entity_def)

text \<open>
  C28.  A document without an id is refused by the node with status 400, and
  \<open>xtdb_put\<close> returns the error body as a successful result: the caller is told
  \<open>Ok\<close> while nothing was stored, and the document cannot be read back.
\<close>

theorem xtdb_put_rejected_ok:
  assumes "doc_id doc = None"
  shows "xtdb_put (node_client url) doc n = (Ok (error_body ''Malformed transaction''), n)
    \<and> (\<forall>eid. fst (xtdb_get (node_client url) eid (snd (xtdb_put (node_client url) doc n))) =
          Ok (entity n eid))"
  using assms by (simp add: xtdb_put_node)

theorem xtdb_put_rejected_ok_witness:
  "xtdb_put (node_client ''http://xtdb:3000'') (JString ''not a document'') empty_node =
     (Ok (error_body ''Malformed transaction''), empty_node)"
  using xtdb_put_rejected_ok [of "JString ''not a document''" "''http://xtdb:3000''" empty_node]
  by (simp add: doc_id_def)

end
