(* ===== verification/Models.thy ===== *)
theory Models
  imports Rust_Float
begin

text \<open>
  The data model, \<open>src/backend/src/models/mod.rs\<close>: the structs as records and
  the enums as datatypes.  A \<open>Uuid\<close> is its 128 bits and a \<open>DateTime<Utc>\<close> a
  signed count of time units since the epoch.  The constructors \<open>True\<close> and
  \<open>False\<close> of \<open>Verdict\<close> are written \<open>VTrue\<close> and \<open>VFalse\<close>, and a field
  name that two structs share (or that HOL reserves, as \<open>id\<close> and \<open>text\<close>)
  carries the initials of its struct.

  \<open>lifecycle\<close> is the claim lifecycle of the design (Pending, Processing, then
  Verified or Failed) as a step relation on \<open>ClaimStatus\<close>.
\<close>

section \<open>Data\<close>

type_synonym uuid = u128
type_synonym timestamp = int

datatype ClaimStatus = Pending | Processing | Verified | Failed

datatype Verdict = VTrue | MostlyTrue | Mixed | MostlyFalse | VFalse | Unverifiable

record Claim =
  c_id :: uuid
  c_text :: string
  c_url :: "string option"
  c_platform :: "string option"
  c_author :: "string option"
  text_hash :: string
  created_at :: timestamp
  updated_at :: timestamp
  status :: ClaimStatus

record ClaimInput =
  ci_text :: string
  ci_url :: "string option"
  ci_platform :: "string option"
  ci_author :: "string option"

record FactCheckSource =
  fs_name :: string
  fs_verdict :: Verdict
  fs_rating :: f64
  fs_url :: "string option"

record SentimentAnalysis =
  polarity :: f64
  subjectivity :: f64
  classification :: string

record VerificationResult =
  claim_id :: uuid
  verdict :: Verdict
  confidence :: f64
  explanation :: string
  sources :: "FactCheckSource list"
  entities :: "string list"
  sentiment :: "SentimentAnalysis option"
  credibility_score :: f64
  checked_at :: timestamp

section \<open>The claim lifecycle\<close>

inductive lifecycle :: "ClaimStatus \<Rightarrow> ClaimStatus \<Rightarrow> bool" where
  start: "lifecycle Pending Processing"
| succeed: "lifecycle Processing Verified"
| fail: "lifecycle Processing Failed"

inductive_cases lifecycle_from_Pending [elim!]: "lifecycle Pending s"
inductive_cases lifecycle_from_Processing [elim!]: "lifecycle Processing s"
inductive_cases lifecycle_from_Verified [elim!]: "lifecycle Verified s"
inductive_cases lifecycle_from_Failed [elim!]: "lifecycle Failed s"
inductive_simps lifecycle_simps [simp]:
  "lifecycle Pending s" "lifecycle Processing s" "lifecycle Verified s" "lifecycle Failed s"

code_pred lifecycle .

definition terminal :: "ClaimStatus \<Rightarrow> bool" where
  "terminal s = (s = Verified \<or> s = Failed)"

text \<open>How far a status is along the lifecycle: every step raises it.\<close>

fun stage :: "ClaimStatus \<Rightarrow> nat" where
  "stage Pending = 0"
| "stage Processing = 1"
| "stage Verified = 2"
| "stage Failed = 2"

section \<open>Lemmas\<close>

lemma lifecycle_stage: "lifecycle s t \<Longrightarrow> stage t = Suc (stage s)"
  by (induction rule: lifecycle.induct) simp_all

lemma lifecycle_terminal_iff: "terminal s \<longleftrightarrow> (\<forall>t. \<not> lifecycle s t)"
  by (cases s) (auto simp: terminal_def)

lemma lifecycle_irrefl: "\<not> lifecycle s s"
  by (auto dest: lifecycle_stage)

lemma lifecycle_rtrancl_stage: "lifecycle\<^sup>*\<^sup>* s t \<Longrightarrow> stage s \<le> stage t"
  by (induction rule: rtranclp_induct) (auto dest: lifecycle_stage)

lemma lifecycle_reachable: "lifecycle\<^sup>*\<^sup>* Pending s"
proof (cases s)
  case Pending
  then show ?thesis by simp
next
  case Processing
  then show ?thesis by (auto intro: lifecycle.start)
next
  case Verified
  have "lifecycle\<^sup>*\<^sup>* Pending Processing" by (auto intro: lifecycle.start)
  then show ?thesis unfolding Verified by (rule rtranclp.rtrancl_into_rtrancl) (rule lifecycle.succeed)
next
  case Failed
  have "lifecycle\<^sup>*\<^sup>* Pending Processing" by (auto intro: lifecycle.start)
  then show ?thesis unfolding Failed by (rule rtranclp.rtrancl_into_rtrancl) (rule lifecycle.fail)
qed

lemma lifecycle_no_return: "lifecycle\<^sup>*\<^sup>* s t \<Longrightarrow> lifecycle\<^sup>*\<^sup>* t s \<Longrightarrow> s = t"
proof -
  assume st: "lifecycle\<^sup>*\<^sup>* s t" and ts: "lifecycle\<^sup>*\<^sup>* t s"
  from st have "s = t \<or> stage s < stage t"
    by (induction rule: rtranclp_induct) (auto dest: lifecycle_stage lifecycle_rtrancl_stage)
  moreover from ts have "stage t \<le> stage s" by (rule lifecycle_rtrancl_stage)
  ultimately show "s = t" by auto
qed

end
