(* ===== verification/Claim_Service.thy ===== *)
theory Claim_Service
  imports Models Stores
begin

text \<open>
  The claim service, \<open>src/backend/src/services/claim_service.rs\<close>: the service
  struct with its three store clients, \<open>verify_claim\<close>, \<open>get_claim\<close>,
  \<open>list_claims\<close> and \<open>compute_hash\<close>.

  \<open>verify_claim\<close> draws a random UUID and reads the clock three times.  Both are
  effects on a \<open>world\<close>: the values the random generator and the clock will
  yield, and how many of each have been consumed.  The SHA-256 function of the
  \<open>sha2\<close> crate is a parameter (\<open>sha256\<close>, from bytes to the digest bytes), so
  the lemmas on \<open>compute_hash\<close> hold for every digest function.  Lower-casing
  is that of \<open>Rust_Text\<close>, which is \<open>str::to_lowercase\<close> on every text whose
  characters outside ASCII have no other lower-case form; a character that has
  one is changed by the code and not by the model, and no theorem is stated for a
  text that holds one.
\<close>

unbundle bit_operations_syntax

section \<open>The world: randomness and time\<close>

record world =
  rng :: "nat \<Rightarrow> u128"
  drawn :: nat
  clock :: "nat \<Rightarrow> timestamp"
  reads :: nat

text \<open>
  \<open>Uuid::new_v4\<close>: 128 random bits with the version nibble set to 4 and the
  variant bits to binary 10 (byte 6 is bits 72 to 79, byte 8 bits 56 to 63).
\<close>

definition v4_bits :: "u128 \<Rightarrow> uuid" where
  "v4_bits r =
     (r AND NOT (push_bit 76 (mask 4)) AND NOT (push_bit 62 (mask 2))) OR 2 ^ 78 OR 2 ^ 63"

definition new_v4 :: "world \<Rightarrow> uuid \<times> world" where
  "new_v4 w = (v4_bits (rng w (drawn w)), w\<lparr>drawn := Suc (drawn w)\<rparr>)"

text \<open>\<open>Utc::now\<close>.\<close>

definition utc_now :: "world \<Rightarrow> timestamp \<times> world" where
  "utc_now w = (clock w (reads w), w\<lparr>reads := Suc (reads w)\<rparr>)"

section \<open>The service\<close>

record ('s, 'c) ClaimService =
  arango :: ArangoClient
  xtdb :: "'s XtdbClient"
  cache :: "'c CacheClient"

definition claim_service_new ::
  "ArangoClient \<Rightarrow> 's XtdbClient \<Rightarrow> 'c CacheClient \<Rightarrow> ('s, 'c) ClaimService" where
  "claim_service_new a x c = \<lparr>arango = a, xtdb = x, cache = c\<rparr>"

definition compute_hash :: "(u8 list \<Rightarrow> u8 list) \<Rightarrow> ('s, 'c) ClaimService \<Rightarrow> string \<Rightarrow> string" where
  "compute_hash sha256 self text = hex_lower (sha256 (as_bytes (to_lowercase text)))"

text \<open>
  The first half of \<open>verify_claim\<close>: the identifier, the hash and the claim
  record, which the function builds and then drops.
\<close>

definition build_claim ::
  "(u8 list \<Rightarrow> u8 list) \<Rightarrow> ('s, 'c) ClaimService \<Rightarrow> ClaimInput \<Rightarrow> world \<Rightarrow> Claim \<times> world" where
  "build_claim sha256 self input w =
     (let (claim_id, w1) = new_v4 w;
          text_hash = compute_hash sha256 self (ci_text input);
          (t1, w2) = utc_now w1;
          (t2, w3) = utc_now w2
      in (\<lparr>c_id = claim_id, c_text = ci_text input, c_url = ci_url input,
           c_platform = ci_platform input, c_author = ci_author input,
           text_hash = text_hash, created_at = t1, updated_at = t2,
           status = Processing\<rparr>, w3))"

definition verify_claim ::
  "(u8 list \<Rightarrow> u8 list) \<Rightarrow> ('s, 'c) ClaimService \<Rightarrow> ClaimInput \<Rightarrow> world
     \<Rightarrow> (error, VerificationResult) result \<times> world" where
  "verify_claim sha256 self input w =
     (let (claim, w3) = build_claim sha256 self input w;
          (t3, w4) = utc_now w3
      in (Ok \<lparr>claim_id = c_id claim, verdict = Unverifiable, confidence = Num 0.5,
              explanation = ''Verification in progress'', sources = [], entities = [],
              sentiment = None, credibility_score = Num 0.5, checked_at = t3\<rparr>, w4))"

definition get_claim :: "('s, 'c) ClaimService \<Rightarrow> string \<Rightarrow> (error, Claim) result" where
  "get_claim self cid = Error (Message ''Not implemented'')"

definition list_claims :: "('s, 'c) ClaimService \<Rightarrow> i32 \<Rightarrow> i32 \<Rightarrow> (error, Claim list) result" where
  "list_claims self skip limit = Ok []"

section \<open>Vocabulary of the lemmas\<close>

text \<open>
  A worked example: a service whose stores are all unreachable, a world whose
  generator counts and whose clock ticks once per reading, and one input.
\<close>

definition demo_service :: "(unit, unit) ClaimService" where
  "demo_service =
     claim_service_new \<lparr>db = \<lparr>db_url = ''http://arango:8529'', db_name = ''polygraph''\<rparr>\<rparr>
       \<lparr>x_client = (\<lambda>req s. (Error (Transport ''connection refused''), s)),
        base_url = ''http://xtdb:3000''\<rparr>
       \<lparr>conn = (\<lambda>cmd s. (Error (Transport ''connection refused''), s))\<rparr>"

definition demo_world :: world where
  "demo_world = \<lparr>rng = of_nat, drawn = 0, clock = int, reads = 0\<rparr>"

definition demo_input :: ClaimInput where
  "demo_input =
     \<lparr>ci_text = ''Water is wet'', ci_url = None, ci_platform = Some ''twitter'', ci_author = None\<rparr>"

text \<open>The mock result, all but the identifier and the time.\<close>

definition mock_result :: "uuid \<Rightarrow> timestamp \<Rightarrow> VerificationResult" where
  "mock_result cid t =
     \<lparr>claim_id = cid, verdict = Unverifiable, confidence = Num 0.5,
      explanation = ''Verification in progress'', sources = [], entities = [],
      sentiment = None, credibility_score = Num 0.5, checked_at = t\<rparr>"


text \<open>A version-4 UUID of the standard variant: the version nibble is 0100, the variant bits are 10.\<close>

definition is_v4 :: "uuid \<Rightarrow> bool" where
  "is_v4 u \<longleftrightarrow>
     \<not> bit u 79 \<and> bit u 78 \<and> \<not> bit u 77 \<and> \<not> bit u 76 \<and> bit u 63 \<and> \<not> bit u 62"

section \<open>Lemmas on the world\<close>

lemmas service_defs =
  verify_claim_def build_claim_def new_v4_def utc_now_def compute_hash_def get_claim_def
  list_claims_def claim_service_new_def mock_result_def

lemma bit_v4_bits:
  "bit (v4_bits r) n \<longleftrightarrow>
     n < 128 \<and> (if 76 \<le> n \<and> n < 80 then n = 78
                else if 62 \<le> n \<and> n < 64 then n = 63 else bit r n)"
  by (simp only: v4_bits_def bit_or_iff bit_and_iff bit_not_iff bit_push_bit_iff bit_mask_iff
      bit_exp_iff)
    (auto dest: bit_imp_le_length simp: possible_bit_word)

lemma is_v4_v4_bits [simp]: "is_v4 (v4_bits r)"
  by (simp add: is_v4_def bit_v4_bits)

lemma v4_bits_idem [simp]: "v4_bits (v4_bits r) = v4_bits r"
  by (rule bit_word_eqI) (auto simp: bit_v4_bits)

lemma new_v4_simps [simp]:
  "fst (new_v4 w) = v4_bits (rng w (drawn w))"
  "snd (new_v4 w) = w\<lparr>drawn := Suc (drawn w)\<rparr>"
  by (simp_all add: new_v4_def)

lemma utc_now_simps [simp]:
  "fst (utc_now w) = clock w (reads w)"
  "snd (utc_now w) = w\<lparr>reads := Suc (reads w)\<rparr>"
  by (simp_all add: utc_now_def)

lemma build_claim_eq:
  "build_claim sha256 self input w =
     (\<lparr>c_id = v4_bits (rng w (drawn w)), c_text = ci_text input, c_url = ci_url input,
       c_platform = ci_platform input, c_author = ci_author input,
       text_hash = compute_hash sha256 self (ci_text input),
       created_at = clock w (reads w), updated_at = clock w (Suc (reads w)),
       status = Processing\<rparr>,
      w\<lparr>drawn := Suc (drawn w), reads := Suc (Suc (reads w))\<rparr>)"
  by (simp add: build_claim_def new_v4_def utc_now_def)

lemma verify_claim_eq:
  "verify_claim sha256 self input w =
     (Ok (mock_result (v4_bits (rng w (drawn w))) (clock w (reads w + 2))),
      w\<lparr>drawn := Suc (drawn w), reads := reads w + 3\<rparr>)"
  by (simp add: verify_claim_def build_claim_eq utc_now_def mock_result_def)

section \<open>Properties of the service\<close>

text \<open>
  C14.  The fingerprint does not trim white space: if the digest function tells the
  bytes of "hello world" from those of "hello world " (with a trailing space), then
  "Hello World" and "hello world " have different fingerprints.
\<close>

theorem compute_hash_keeps_whitespace:
  assumes "sha256 (as_bytes ''hello world'') \<noteq> sha256 (as_bytes ''hello world '')"
  shows "compute_hash sha256 self ''Hello World'' \<noteq> compute_hash sha256 self ''hello world ''"
proof -
  have "to_lowercase ''Hello World'' = ''hello world''"
    and "to_lowercase ''hello world '' = ''hello world ''"
    by (simp_all add: text_eval)
  with assms show ?thesis
    by (simp add: compute_hash_def)
qed

theorem compute_hash_keeps_whitespace_witness:
  "compute_hash id demo_service ''Hello World'' \<noteq> compute_hash id demo_service ''hello world ''"
  by (rule compute_hash_keeps_whitespace) simp

end
