(* ===== verification/Graphql_Api.thy ===== *)
theory Graphql_Api
  imports Claim_Service
begin

text \<open>
  The GraphQL layer, \<open>src/backend/src/api/graphql.rs\<close>: the resolvers of
  \<open>Query\<close> and \<open>Mutation\<close>, \<open>create_schema\<close> and the request handler.

  A resolver finds the service in the data of the schema, which \<open>ctx.data\<close>
  looks up by type; the lookup fails when no service was registered.

  A request is modelled after parsing and validation: a query or a mutation with
  the list of root fields it selects, each with its arguments.  \<open>execute\<close>
  follows the execution rules of GraphQL as \<open>async-graphql\<close> implements them:
  the fields of a query are resolved together and joined, the fields of a mutation
  one after the other, and the first field that fails ends the execution.  Every
  root field of this schema has a non-null type, so a failed field leaves no partial
  data: the response then carries \<open>null\<close> data and the error.  Aliases,
  introspection fields, subscriptions and the selection inside a returned object
  are not modelled.
\<close>

section \<open>Schema and context\<close>

record ('s, 'c) PolygraphSchema =
  data :: "('s, 'c) ClaimService option"

text \<open>
  \<open>Context::data\<close>.  The error of a missing value names the type by
  \<open>std::any::type_name\<close>, its full path: the crate is taken to be \<open>polygraph\<close>,
  the name under which \<open>main\<close> filters its own log lines, and the module is that
  of the file \<open>services/claim_service.rs\<close>.
\<close>

definition type_name_claim_service :: string where
  "type_name_claim_service = ''polygraph::services::claim_service::ClaimService''"

definition ctx_data :: "('s, 'c) PolygraphSchema \<Rightarrow> (error, ('s, 'c) ClaimService) result" where
  "ctx_data ctx =
     ok_or_else (data ctx)
       (Message (''Data `'' @ type_name_claim_service @ ''` does not exist.''))"

definition create_schema ::
  "ArangoClient \<Rightarrow> 's XtdbClient \<Rightarrow> 'c CacheClient \<Rightarrow> ('s, 'c) PolygraphSchema" where
  "create_schema a x c = (let claim_service = claim_service_new a x c in \<lparr>data = Some claim_service\<rparr>)"

section \<open>Resolvers\<close>

definition query_health :: string where
  "query_health = ''OK''"

definition query_claim :: "('s, 'c) PolygraphSchema \<Rightarrow> string \<Rightarrow> (error, Claim) result" where
  "query_claim ctx cid = and_then (ctx_data ctx) (\<lambda>service. get_claim service cid)"

definition query_claims ::
  "('s, 'c) PolygraphSchema \<Rightarrow> i32 option \<Rightarrow> i32 option \<Rightarrow> (error, Claim list) result" where
  "query_claims ctx skip limit =
     and_then (ctx_data ctx) (\<lambda>service.
       list_claims service (unwrap_or skip 0) (unwrap_or limit 100))"

definition mutation_verify_claim ::
  "(u8 list \<Rightarrow> u8 list) \<Rightarrow> ('s, 'c) PolygraphSchema \<Rightarrow> ClaimInput \<Rightarrow> world
     \<Rightarrow> (error, VerificationResult) result \<times> world" where
  "mutation_verify_claim sha256 ctx input w =
     (case ctx_data ctx of
        Inl x \<Rightarrow> (Inl x, w)
      | Inr service \<Rightarrow> verify_claim sha256 service input w)"

section \<open>Requests and responses\<close>

datatype query_field = Health | ClaimById string | Claims "i32 option" "i32 option"

datatype mutation_field = VerifyClaim ClaimInput

datatype request = Query "query_field list" | Mutation "mutation_field list"

datatype answer =
  Text string | OneClaim Claim | ManyClaims "Claim list" | Verification VerificationResult

record gql_response =
  resp_data :: "answer list option"
  resp_errors :: "error list"

text \<open>
  What the \<open>Json\<close> extractor makes of a request body: the decoded value, or a
  rejection with the status and the text of its response.
\<close>

datatype 'a extracted = Rejected nat string | Extracted 'a

datatype content = No_content | Plain string | Html string | Json gql_response

record http_response =
  rs_status :: nat
  rs_content :: content
  rs_headers :: "(string \<times> string) list"

section \<open>Execution\<close>

text \<open>The root objects: each field is resolved by the method of its name.\<close>

definition resolve_query :: "('s, 'c) PolygraphSchema \<Rightarrow> query_field \<Rightarrow> (error, answer) result" where
  "resolve_query ctx f =
     (case f of
        Health \<Rightarrow> Ok (Text query_health)
      | ClaimById cid \<Rightarrow> and_then (query_claim ctx cid) (\<lambda>c. Ok (OneClaim c))
      | Claims skip limit \<Rightarrow> and_then (query_claims ctx skip limit) (\<lambda>cs. Ok (ManyClaims cs)))"

definition resolve_mutation ::
  "(u8 list \<Rightarrow> u8 list) \<Rightarrow> ('s, 'c) PolygraphSchema \<Rightarrow> mutation_field \<Rightarrow> world
     \<Rightarrow> (error, answer) result \<times> world" where
  "resolve_mutation sha256 ctx f w =
     (case f of
        VerifyClaim input \<Rightarrow>
          (case mutation_verify_claim sha256 ctx input w of
             (r, w') \<Rightarrow> (and_then r (\<lambda>v. Ok (Verification v)), w')))"

text \<open>Serial execution: the fields in order, ending at the first that fails.\<close>

fun resolve_serial ::
  "(u8 list \<Rightarrow> u8 list) \<Rightarrow> ('s, 'c) PolygraphSchema \<Rightarrow> mutation_field list \<Rightarrow> world
     \<Rightarrow> (error, answer list) result \<times> world" where
  "resolve_serial sha256 ctx [] w = (Ok [], w)"
| "resolve_serial sha256 ctx (f # fs) w =
     (case resolve_mutation sha256 ctx f w of
        (Inl x, w') \<Rightarrow> (Inl x, w')
      | (Inr a, w') \<Rightarrow>
          (case resolve_serial sha256 ctx fs w' of
             (r, w'') \<Rightarrow> (and_then r (\<lambda>as. Ok (a # as)), w'')))"

text \<open>
  The response of an execution: the data, or \<open>null\<close> and the error of the field
  that failed; a panic of a resolver is not caught.
\<close>

definition respond :: "(error, answer list) result \<Rightarrow> (error, gql_response) result" where
  "respond r =
     (case r of
        Inr as \<Rightarrow> Ok \<lparr>resp_data = Some as, resp_errors = []\<rparr>
      | Inl (Err e) \<Rightarrow> Ok \<lparr>resp_data = None, resp_errors = [e]\<rparr>
      | Inl (Panic p) \<Rightarrow> Abort p)"

definition execute ::
  "(u8 list \<Rightarrow> u8 list) \<Rightarrow> ('s, 'c) PolygraphSchema \<Rightarrow> request \<Rightarrow> world
     \<Rightarrow> (error, gql_response) result \<times> world" where
  "execute sha256 ctx req w =
     (case req of
        Query fs \<Rightarrow> (respond (try_collect (map (resolve_query ctx) fs)), w)
      | Mutation fs \<Rightarrow>
          (case resolve_serial sha256 ctx fs w of (r, w') \<Rightarrow> (respond r, w')))"

section \<open>The handlers\<close>

text \<open>
  \<open>graphql_handler\<close> with its extractors: a body the \<open>Json\<close> extractor
  rejects is answered by the rejection and the schema is not asked; a decoded
  request is executed and the response sent as JSON with status 200, whether it
  carries data or errors.
\<close>

definition graphql_handler ::
  "(u8 list \<Rightarrow> u8 list) \<Rightarrow> ('s, 'c) PolygraphSchema \<Rightarrow> request extracted \<Rightarrow> world
     \<Rightarrow> (error, http_response) result \<times> world" where
  "graphql_handler sha256 schema req w =
     (case req of
        Rejected code msg \<Rightarrow>
          (Ok \<lparr>rs_status = code, rs_content = Plain msg, rs_headers = []\<rparr>, w)
      | Extracted r \<Rightarrow>
          (case execute sha256 schema r w of
             (res, w') \<Rightarrow>
               (and_then res (\<lambda>res.
                  Ok \<lparr>rs_status = 200, rs_content = Json res, rs_headers = []\<rparr>), w')))"

text \<open>The playground page for the endpoint \<open>/graphql\<close>; the page source is the library's.\<close>

definition graphql_playground :: "(string \<Rightarrow> string) \<Rightarrow> http_response" where
  "graphql_playground playground_source =
     \<lparr>rs_status = 200, rs_content = Html (playground_source ''/graphql''), rs_headers = []\<rparr>"

section \<open>Vocabulary of the lemmas\<close>

text \<open>The error of a resolver that finds no service.\<close>

definition no_service :: error where
  "no_service = Message (''Data `'' @ type_name_claim_service @ ''` does not exist.'')"

text \<open>The mock results of \<open>n\<close> verifications in a row that start in the world \<open>w\<close>.\<close>

definition mock_results :: "world \<Rightarrow> nat \<Rightarrow> VerificationResult list" where
  "mock_results w n =
     map (\<lambda>i. mock_result (v4_bits (rng w (drawn w + i))) (clock w (reads w + 3 * i + 2))) [0..<n]"

definition mock_answers :: "world \<Rightarrow> nat \<Rightarrow> answer list" where
  "mock_answers w n = map Verification (mock_results w n)"

definition spend :: "nat \<Rightarrow> world \<Rightarrow> world" where
  "spend n w = w\<lparr>drawn := drawn w + n, reads := reads w + 3 * n\<rparr>"

text \<open>
  What the fields of a query answer through a schema that holds the service as the
  sources implement it; \<open>claim\<close> has no answer.
\<close>

fun stub_answer :: "query_field \<Rightarrow> answer option" where
  "stub_answer Health = Some (Text ''OK'')"
| "stub_answer (ClaimById _) = None"
| "stub_answer (Claims _ _) = Some (ManyClaims [])"

section \<open>Lemmas\<close>

lemmas graphql_defs =
  ctx_data_def create_schema_def query_health_def query_claim_def query_claims_def
  mutation_verify_claim_def resolve_query_def resolve_mutation_def respond_def execute_def
  graphql_handler_def graphql_playground_def no_service_def mock_answers_def mock_results_def
  spend_def

lemma ctx_data_create_schema [simp]:
  "ctx_data (create_schema a x c) = Ok (claim_service_new a x c)"
  by (simp add: ctx_data_def create_schema_def)

lemma ctx_data_None [simp]: "ctx_data \<lparr>data = None\<rparr> = Error no_service"
  by (simp add: ctx_data_def no_service_def)

lemma respond_simps [simp]:
  "respond (Ok as) = Ok \<lparr>resp_data = Some as, resp_errors = []\<rparr>"
  "respond (Error e) = Ok \<lparr>resp_data = None, resp_errors = [e]\<rparr>"
  "respond (Abort p) = Abort p"
  by (simp_all add: respond_def)

lemma respond_is_ok_iff: "is_ok (respond r) \<longleftrightarrow> \<not> is_panic r"
  by (simp add: respond_def is_panic_def split: sum.split fault.split)

lemma spend_simps [simp]:
  "spend 0 w = w" "spend m (spend n w) = spend (n + m) w"
  "drawn (spend n w) = drawn w + n" "reads (spend n w) = reads w + 3 * n"
  "rng (spend n w) = rng w" "clock (spend n w) = clock w"
  by (simp_all add: spend_def algebra_simps)

lemma mock_results_simps [simp]:
  "mock_results w 0 = []"
  "mock_results w (Suc n) =
     mock_result (v4_bits (rng w (drawn w))) (clock w (reads w + 2)) # mock_results (spend 1 w) n"
  "length (mock_results w n) = n"
  by (simp_all add: mock_results_def map_upt_Suc spend_def algebra_simps del: upt_Suc)

lemma mock_results_add: "mock_results w (n + m) = mock_results w n @ mock_results (spend n w) m"
  by (induction n arbitrary: w) simp_all

lemma claim_id_mock_results:
  "map claim_id (mock_results w n) = map (\<lambda>i. v4_bits (rng w i)) [drawn w..<drawn w + n]"
proof -
  have "map claim_id (mock_results w n) =
      map (\<lambda>i. v4_bits (rng w i)) (map (\<lambda>i. i + drawn w) [0..<n])"
    by (simp add: mock_results_def mock_result_def o_def add.commute)
  also have "map (\<lambda>i. i + drawn w) [0..<n] = [drawn w..<drawn w + n]"
    by (simp add: map_add_upt add.commute)
  finally show ?thesis .
qed

lemma mock_answers_simps [simp]:
  "mock_answers w 0 = []"
  "mock_answers w (Suc n) =
     Verification (mock_result (v4_bits (rng w (drawn w))) (clock w (reads w + 2)))
       # mock_answers (spend 1 w) n"
  "length (mock_answers w n) = n"
  by (simp_all add: mock_answers_def)

subsection \<open>Through a created schema\<close>

lemma resolve_query_created:
  "resolve_query (create_schema a x c) f =
     (case stub_answer f of Some v \<Rightarrow> Ok v | None \<Rightarrow> Error (Message ''Not implemented''))"
  by (cases f)
    (simp_all add: resolve_query_def query_health_def query_claim_def query_claims_def
      get_claim_def list_claims_def)

lemma resolve_mutation_created:
  "resolve_mutation sha256 (create_schema a x c) (VerifyClaim input) w =
     (Ok (Verification (mock_result (v4_bits (rng w (drawn w))) (clock w (reads w + 2)))),
      spend 1 w)"
  by (simp add: resolve_mutation_def mutation_verify_claim_def verify_claim_eq spend_def)

lemma resolve_serial_created:
  "resolve_serial sha256 (create_schema a x c) fs w = (Ok (mock_answers w (length fs)), spend (length fs) w)"
proof (induction fs arbitrary: w)
  case Nil
  show ?case by simp
next
  case (Cons f fs)
  obtain input where "f = VerifyClaim input" by (cases f)
  then show ?case
    by (simp add: resolve_mutation_created Cons.IH)
qed

lemma execute_query_created:
  "execute sha256 (create_schema a x c) (Query fs) w =
     (Ok \<lparr>resp_data = those (map stub_answer fs),
          resp_errors = (if those (map stub_answer fs) = None then [Message ''Not implemented''] else [])\<rparr>,
      w)"
  by (simp add: execute_def try_collect_map_option [where g = stub_answer and e = "Err (Message ''Not implemented'')"]
      resolve_query_created split: option.split)

lemma execute_mutation_created:
  "execute sha256 (create_schema a x c) (Mutation fs) w =
     (Ok \<lparr>resp_data = Some (mock_answers w (length fs)), resp_errors = []\<rparr>, spend (length fs) w)"
  by (simp add: execute_def resolve_serial_created)

lemma those_stub_answer_None_iff: "those (map stub_answer fs) = None \<longleftrightarrow> (\<exists>cid. ClaimById cid \<in> set fs)"
proof (induction fs)
  case Nil
  show ?case by simp
next
  case (Cons f fs)
  then show ?case by (cases f) (auto split: option.split)
qed

subsection \<open>Without a service\<close>

lemma resolve_query_no_service:
  "resolve_query \<lparr>data = None\<rparr> f = (if f = Health then Ok (Text ''OK'') else Error no_service)"
  by (cases f) (simp_all add: resolve_query_def query_health_def query_claim_def query_claims_def)

lemma resolve_serial_no_service:
  "resolve_serial sha256 \<lparr>data = None\<rparr> fs w = (if fs = [] then Ok [] else Error no_service, w)"
proof (cases fs)
  case Nil
  then show ?thesis by simp
next
  case (Cons f fs')
  obtain input where "f = VerifyClaim input" by (cases f)
  with Cons show ?thesis
    by (simp add: resolve_mutation_def mutation_verify_claim_def)
qed

text \<open>
  C25.  Without a registered service a query is answered only if it selects
  nothing but \<open>health\<close>, and a mutation only if it selects nothing; every other
  request gets \<open>null\<close> data and the error \<open>no_service\<close>, which names the
  missing type by its full path, and no request changes the world.
\<close>

theorem execute_no_service:
  "execute sha256 \<lparr>data = None\<rparr> req w =
     (Ok (case req of
            Query fs \<Rightarrow>
              if set fs \<subseteq> {Health}
              then \<lparr>resp_data = Some (map (\<lambda>f. Text ''OK'') fs), resp_errors = []\<rparr>
              else \<lparr>resp_data = None, resp_errors = [no_service]\<rparr>
          | Mutation fs \<Rightarrow>
              if fs = [] then \<lparr>resp_data = Some [], resp_errors = []\<rparr>
              else \<lparr>resp_data = None, resp_errors = [no_service]\<rparr>),
      w)"
proof (cases req)
  case (Query fs)
  have "try_collect (map (resolve_query \<lparr>data = None\<rparr>) fs) =
      (case those (map (\<lambda>f. if f = Health then Some (Text ''OK'') else None) fs) of
         Some vs \<Rightarrow> Ok vs | None \<Rightarrow> Error no_service)"
    by (rule try_collect_map_option) (simp add: resolve_query_no_service)
  moreover have "those (map (\<lambda>f. if f = Health then Some (Text ''OK'') else None) fs) =
      (if set fs \<subseteq> {Health} then Some (map (\<lambda>f. Text ''OK'') fs) else None)"
    by (induction fs) (auto split: option.split)
  ultimately have eq: "try_collect (map (resolve_query \<lparr>data = None\<rparr>) fs) =
      (if set fs \<subseteq> {Health} then Ok (map (\<lambda>f. Text ''OK'') fs) else Error no_service)"
    by (cases "set fs \<subseteq> {Health}") simp_all
  show ?thesis
    by (simp add: Query execute_def eq)
next
  case (Mutation fs)
  then show ?thesis
    by (simp add: execute_def resolve_serial_no_service)
qed

subsection \<open>No resolver panics\<close>

lemma resolve_query_no_panic [simp]: "\<not> is_panic (resolve_query ctx f)"
  by (cases f; cases "data ctx")
    (simp_all add: resolve_query_def query_claim_def query_claims_def ctx_data_def get_claim_def
      list_claims_def)

lemma resolve_serial_no_panic [simp]: "\<not> is_panic (fst (resolve_serial sha256 ctx fs w))"
proof (induction fs arbitrary: w)
  case Nil
  show ?case by simp
next
  case (Cons f fs)
  obtain input where f: "f = VerifyClaim input" by (cases f)
  show ?case
  proof (cases "data ctx")
    case None
    then show ?thesis
      by (simp add: f resolve_mutation_def mutation_verify_claim_def ctx_data_def)
  next
    case (Some service)
    with Cons.IH [of "snd (verify_claim sha256 service input w)"] show ?thesis
      by (simp add: f resolve_mutation_def mutation_verify_claim_def ctx_data_def verify_claim_eq
          is_panic_and_then case_prod_unfold)
  qed
qed

lemma execute_is_ok [simp]: "is_ok (fst (execute sha256 ctx req w))"
proof (cases req)
  case (Query fs)
  have "\<not> is_panic (try_collect (map (resolve_query ctx) fs))"
    using is_panic_try_collect by fastforce
  with Query show ?thesis
    by (simp add: execute_def respond_is_ok_iff)
next
  case (Mutation fs)
  then show ?thesis
    by (simp add: execute_def respond_is_ok_iff case_prod_unfold)
qed

subsection \<open>The handlers\<close>

lemma graphql_handler_rejected [simp]:
  "graphql_handler sha256 sch (Rejected code msg) w =
     (Ok \<lparr>rs_status = code, rs_content = Plain msg, rs_headers = []\<rparr>, w)"
  by (simp add: graphql_handler_def)

lemma graphql_handler_is_ok [simp]: "is_ok (fst (graphql_handler sha256 sch req w))"
proof (cases req)
  case (Rejected code msg)
  then show ?thesis by simp
next
  case (Extracted r)
  obtain res where "fst (execute sha256 sch r w) = Ok res"
    using execute_is_ok [of sha256 sch r w] by (auto simp: is_ok_iff)
  with Extracted show ?thesis
    by (simp add: graphql_handler_def case_prod_unfold)
qed


lemma graphql_handler_created:
  "graphql_handler sha256 (create_schema a x c) (Extracted req) w =
     (Ok \<lparr>rs_status = 200,
          rs_content = Json (case req of
            Query fs \<Rightarrow>
              \<lparr>resp_data = those (map stub_answer fs),
               resp_errors =
                 (if those (map stub_answer fs) = None then [Message ''Not implemented''] else [])\<rparr>
          | Mutation fs \<Rightarrow> \<lparr>resp_data = Some (mock_answers w (length fs)), resp_errors = []\<rparr>),
          rs_headers = []\<rparr>,
      case req of Query fs \<Rightarrow> w | Mutation fs \<Rightarrow> spend (length fs) w)"
  by (cases req)
    (simp_all add: graphql_handler_def execute_query_created execute_mutation_created)

end
