(* ===== verification/Bootstrap.thy ===== *)
theory Bootstrap
  imports Graphql_Api
begin

text \<open>
  Process start, \<open>src/backend/src/main.rs\<close>: the configuration is read, the
  three store clients are created in the order ArangoDB, XTDB, Redis, the schema is
  built and the routes are set up; every step that fails ends the start with its
  error.  \<open>startup\<close> is \<open>main\<close> from the configuration to the address, and
  \<open>router\<close> the table of its routes; the server itself is in \<open>Http_Server\<close>.
  The \<open>environment\<close> holds what \<open>startup\<close> finds outside the process: the
  configuration built from the \<open>POLYGRAPH\<close> variables and the three servers.
\<close>

section \<open>Environment and application\<close>

record ('s, 'c) environment =
  config_source :: "(error, string \<rightharpoonup> string) result"
  arango_servers :: "string \<rightharpoonup> arango_server"
  xtdb_net :: "'s http"
  redis_connect :: "string \<Rightarrow> (error, 'c redis) result"

record ('s, 'c) app =
  schema :: "('s, 'c) PolygraphSchema"
  addr :: "nat list \<times> nat"

datatype route_handler = Banner | Health_check | Graphql_handler | Graphql_playground

datatype routed = Handler route_handler | Method_not_allowed | Not_found

section \<open>Operations\<close>

text \<open>
  \<open>Config::get_string\<close>; the error of a missing key names the key in double
  quotes.
\<close>

definition not_found :: "string \<Rightarrow> error" where
  "not_found key =
     Message (''configuration property '' @ [CHR 0x22] @ key @ [CHR 0x22] @ '' not found'')"

definition get_string :: "(string \<rightharpoonup> string) \<Rightarrow> string \<Rightarrow> (error, string) result" where
  "get_string config key = ok_or_else (config key) (not_found key)"

definition startup :: "('s, 'c) environment \<Rightarrow> (error, ('s, 'c) app) result" where
  "startup env =
     and_then (config_source env) (\<lambda>config.
     and_then (get_string config ''arango_url'') (\<lambda>arango_url.
     and_then (get_string config ''arango_db'') (\<lambda>arango_db.
     and_then (arango_new (arango_servers env) arango_url arango_db) (\<lambda>arango.
     and_then (get_string config ''xtdb_url'') (\<lambda>xtdb_url.
     and_then (xtdb_new (xtdb_net env) xtdb_url) (\<lambda>xtdb.
     and_then (get_string config ''redis_url'') (\<lambda>redis_url.
     and_then (cache_new (redis_connect env) redis_url) (\<lambda>cache.
       Ok \<lparr>schema = create_schema arango xtdb cache, addr = ([0, 0, 0, 0], 8000)\<rparr>))))))))"

text \<open>
  The routes.  A \<open>get\<close> route also serves HEAD; a path with a route and no
  handler for the method is answered "method not allowed", a path without a route
  "not found".
\<close>

definition router :: "http_method \<Rightarrow> string \<Rightarrow> routed" where
  "router m path =
     (if path = ''/'' then
        (if m = GET \<or> m = HEAD then Handler Banner else Method_not_allowed)
      else if path = ''/health'' then
        (if m = GET \<or> m = HEAD then Handler Health_check else Method_not_allowed)
      else if path = ''/graphql'' then
        (if m = POST then Handler Graphql_handler
         else if m = GET \<or> m = HEAD then Handler Graphql_playground
         else Method_not_allowed)
      else Not_found)"

definition health_check :: string where
  "health_check = ''OK''"

section \<open>Vocabulary of the lemmas\<close>

text \<open>
  A worked example: a complete configuration, an ArangoDB server that accepts the
  built-in credentials and holds the database, and a Redis that connects.
\<close>

definition demo_config :: "string \<rightharpoonup> string" where
  "demo_config =
     [''arango_url'' \<mapsto> ''http://arango:8529'', ''arango_db'' \<mapsto> ''polygraph'',
      ''xtdb_url'' \<mapsto> ''http://xtdb:3000'', ''redis_url'' \<mapsto> ''redis://redis:6379'']"

definition demo_env :: "(unit, unit) environment" where
  "demo_env =
     \<lparr>config_source = Ok demo_config,
      arango_servers =
        [''http://arango:8529'' \<mapsto>
           \<lparr>accepts = (\<lambda>u p. u = ''root'' \<and> p = ''changeme''), databases = [''polygraph'']\<rparr>],
      xtdb_net = (\<lambda>req s. (Error (Transport ''connection refused''), s)),
      redis_connect = (\<lambda>url. Ok (\<lambda>cmd s. (Ok Nil, s)))\<rparr>"

section \<open>Lemmas\<close>

lemma get_string_simps [simp]:
  "config key = Some v \<Longrightarrow> get_string config key = Ok v"
  "config key = None \<Longrightarrow>
     get_string config key = Error (not_found key)"
  by (simp_all add: get_string_def)

lemma get_string_eq_Ok_iff [simp]: "get_string config key = Ok v \<longleftrightarrow> config key = Some v"
  by (cases "config key") simp_all

lemma cache_new_eq_Inl_iff [simp]: "cache_new connect url = Inl x \<longleftrightarrow> connect url = Inl x"
  by (cases "connect url") (simp_all add: cache_new_def)

lemma get_string_eq_Inl_iff [simp]:
  "get_string config key = Inl x \<longleftrightarrow> config key = None \<and> x = Err (not_found key)"
  by (cases "config key") (auto simp: get_string_def)

lemma startup_addr: "startup env = Ok a \<Longrightarrow> addr a = ([0, 0, 0, 0], 8000)"
  by (auto simp: startup_def and_then_eq_Ok_iff)

lemma startup_demo_env: "\<exists>a x y z. startup demo_env = Ok a \<and> schema a = create_schema x y z"
  by (simp add: startup_def demo_env_def demo_config_def arango_new_def establish_jwt_def
      xtdb_new_def cache_new_def) blast

lemma startup_schema:
  "startup env = Ok a \<Longrightarrow> \<exists>x y z. schema a = create_schema x y z"
  by (auto simp: startup_def and_then_eq_Ok_iff) blast

text \<open>
  C16.  The start succeeds exactly when the configuration is built and holds the
  four settings, the ArangoDB server under \<open>arango_url\<close> is reached, accepts
  \<open>root\<close> with the password \<open>changeme\<close> and holds the database \<open>arango_db\<close>,
  and Redis connects under \<open>redis_url\<close>; XTDB is not contacted.  The
  application then listens on 0.0.0.0:8000 and its schema holds the service over
  the three clients.
\<close>

theorem startup_ok_iff:
  "startup env = Ok a \<longleftrightarrow>
     (\<exists>config au ad xu ru srv cn.
        config_source env = Ok config
        \<and> config ''arango_url'' = Some au \<and> config ''arango_db'' = Some ad
        \<and> config ''xtdb_url'' = Some xu \<and> config ''redis_url'' = Some ru
        \<and> arango_servers env au = Some srv \<and> accepts srv ''root'' ''changeme''
        \<and> ad \<in> set (databases srv)
        \<and> redis_connect env ru = Ok cn
        \<and> a = \<lparr>schema = create_schema \<lparr>db = \<lparr>db_url = au, db_name = ad\<rparr>\<rparr>
                   \<lparr>x_client = xtdb_net env, base_url = xu\<rparr> \<lparr>conn = cn\<rparr>,
                 addr = ([0, 0, 0, 0], 8000)\<rparr>)"
  by (auto simp: startup_def and_then_eq_Ok_iff arango_new_ok_iff xtdb_new_def cache_new_def)

text \<open>
  C17.  The start fails in exactly these ways, in this order: with the error of
  the configuration source; with the error that names the first missing setting of
  \<open>arango_url\<close> and \<open>arango_db\<close>; as the connection to ArangoDB fails; then
  with the error that names \<open>xtdb_url\<close> or \<open>redis_url\<close> if it is missing; and
  last as the connection to Redis fails.  XTDB is not contacted and cannot make the
  start fail, and a later failure is reported only when every earlier step
  succeeded.
\<close>

theorem startup_fails_iff:
  "startup env = Inl x \<longleftrightarrow>
     config_source env = Inl x
   \<or> (\<exists>config. config_source env = Ok config
        \<and> (config ''arango_url'' = None \<and> x = Err (not_found ''arango_url'')
         \<or> (\<exists>au. config ''arango_url'' = Some au
              \<and> (config ''arango_db'' = None \<and> x = Err (not_found ''arango_db'')
               \<or> (\<exists>ad. config ''arango_db'' = Some ad
                    \<and> (arango_new (arango_servers env) au ad = Inl x
                     \<or> is_ok (arango_new (arango_servers env) au ad)
                       \<and> (config ''xtdb_url'' = None \<and> x = Err (not_found ''xtdb_url'')
                        \<or> (\<exists>xu. config ''xtdb_url'' = Some xu
                             \<and> (config ''redis_url'' = None \<and> x = Err (not_found ''redis_url'')
                              \<or> (\<exists>ru. config ''redis_url'' = Some ru
                                   \<and> redis_connect env ru = Inl x))))))))))"
  unfolding startup_def
  by (auto simp: and_then_eq_Inl_iff is_ok_iff xtdb_new_def)

text \<open>
  The routes: GET and HEAD on / give the banner, on /health the health check and on
  /graphql the playground, POST on /graphql the GraphQL handler; every other method
  on these paths is refused and every other path is not found.
\<close>

lemma router_eq_Handler_iff:
  "router m path = Handler h \<longleftrightarrow>
     (m \<in> {GET, HEAD} \<and> (path, h) \<in> {(''/'', Banner), (''/health'', Health_check),
        (''/graphql'', Graphql_playground)})
     \<or> (m = POST \<and> path = ''/graphql'' \<and> h = Graphql_handler)"
  by (auto simp: router_def)

lemma router_eq_Not_found_iff:
  "router m path = Not_found \<longleftrightarrow> path \<notin> {''/'', ''/health'', ''/graphql''}"
  by (auto simp: router_def)

end
