(* ===== verification/Http_Server.thy ===== *)
theory Http_Server
  imports Bootstrap
begin

text \<open>
  The HTTP server, \<open>src/backend/src/main.rs\<close>: the routes with their handlers,
  the CORS layer around them, the loop that accepts requests, and \<open>main\<close> as a
  whole.

  A request is its method, its path and what the \<open>Json\<close> extractor makes of its
  body.  A handler returns a response and the new world, or the panic it ends with.
  Requests are handled one at a time, in the order they arrive; the arrival of
  requests and the failure of the listening socket are events the environment
  supplies, so \<open>main\<close> returns, if it does, with the error of the first failure.
  Of the response headers only the one by which the CORS layer grants access is
  modelled, and the trace layer, which only logs, is left out.
\<close>

section \<open>Requests and services\<close>

record http_request =
  rq_method :: http_method
  rq_path :: string
  rq_body :: "request extracted"

type_synonym service = "http_request \<Rightarrow> world \<Rightarrow> (error, http_response) result \<times> world"

section \<open>Routes and layers\<close>

definition banner :: string where
  "banner = ''Social Media Polygraph GraphQL API''"

definition text_response :: "string \<Rightarrow> http_response" where
  "text_response s = \<lparr>rs_status = 200, rs_content = Plain s, rs_headers = []\<rparr>"

definition empty_response :: "nat \<Rightarrow> http_response" where
  "empty_response code = \<lparr>rs_status = code, rs_content = No_content, rs_headers = []\<rparr>"

text \<open>The response to HEAD is that to GET without its body.\<close>

definition strip_body :: "http_method \<Rightarrow> http_response \<Rightarrow> http_response" where
  "strip_body m res = (if m = HEAD then res\<lparr>rs_content := No_content\<rparr> else res)"

definition route_service ::
  "(u8 list \<Rightarrow> u8 list) \<Rightarrow> (string \<Rightarrow> string) \<Rightarrow> ('s, 'c) PolygraphSchema \<Rightarrow> service" where
  "route_service sha256 playground_source sch req w =
     (case router (rq_method req) (rq_path req) of
        Handler Banner \<Rightarrow> (Ok (strip_body (rq_method req) (text_response banner)), w)
      | Handler Health_check \<Rightarrow> (Ok (strip_body (rq_method req) (text_response health_check)), w)
      | Handler Graphql_handler \<Rightarrow> graphql_handler sha256 sch (rq_body req) w
      | Handler Graphql_playground \<Rightarrow>
          (Ok (strip_body (rq_method req) (graphql_playground playground_source)), w)
      | Method_not_allowed \<Rightarrow> (Ok (empty_response 405), w)
      | Not_found \<Rightarrow> (Ok (empty_response 404), w))"

text \<open>
  \<open>CorsLayer::permissive\<close>: a preflight request, which is every OPTIONS request,
  is answered by the layer and does not reach the routes; every response allows
  any origin.
\<close>

definition allow_any_origin :: "string \<times> string" where
  "allow_any_origin = (''access-control-allow-origin'', ''*'')"

definition cors_layer :: "service \<Rightarrow> service" where
  "cors_layer inner req w =
     (if rq_method req = OPTIONS
      then (Ok \<lparr>rs_status = 200, rs_content = No_content, rs_headers = [allow_any_origin]\<rparr>, w)
      else (case inner req w of
              (r, w') \<Rightarrow>
                (and_then r (\<lambda>res. Ok (res\<lparr>rs_headers := allow_any_origin # rs_headers res\<rparr>)),
                 w')))"

definition app_service ::
  "(u8 list \<Rightarrow> u8 list) \<Rightarrow> (string \<Rightarrow> string) \<Rightarrow> ('s, 'c) PolygraphSchema \<Rightarrow> service" where
  "app_service sha256 playground_source sch =
     cors_layer (route_service sha256 playground_source sch)"

section \<open>Serving\<close>

text \<open>What the listening socket delivers: a request, or the error that ends the server.\<close>

datatype event = Incoming http_request | Server_error string

text \<open>
  The server loop.  It ends only with an error of the socket; as long as requests
  arrive it does not return.
\<close>

partial_function (option) accept_loop ::
  "service \<Rightarrow> (nat \<Rightarrow> event) \<Rightarrow> nat \<Rightarrow> (error, http_response) result list \<Rightarrow> world
     \<Rightarrow> (string \<times> (error, http_response) result list \<times> world) option" where
  "accept_loop service events i out w =
     (case events i of
        Server_error e \<Rightarrow> Some (e, out, w)
      | Incoming req \<Rightarrow>
          (case service req w of
             (r, w') \<Rightarrow> accept_loop service events (Suc i) (out @ [r]) w'))"

text \<open>The requests of a list served in order: the reference for the loop.\<close>

fun serve_requests ::
  "service \<Rightarrow> http_request list \<Rightarrow> world \<Rightarrow> (error, http_response) result list \<times> world" where
  "serve_requests service [] w = ([], w)"
| "serve_requests service (req # reqs) w =
     (case service req w of
        (r, w') \<Rightarrow> (case serve_requests service reqs w' of (rs, w'') \<Rightarrow> (r # rs, w'')))"

section \<open>The process\<close>

text \<open>
  What \<open>main\<close> finds outside the process beyond the \<open>environment\<close> of
  \<open>startup\<close>: the variable \<open>RUST_LOG\<close>, the error of the system if an
  address cannot be bound, and the events of the socket.
\<close>

record ('s, 'c) host =
  h_env :: "('s, 'c) environment"
  rust_log :: "string option"
  bind_error :: "nat list \<times> nat \<Rightarrow> string option"
  incoming :: "nat \<Rightarrow> event"

definition default_filter :: string where
  "default_filter = ''polygraph=debug,tower_http=debug''"

text \<open>
  The log filter: the directives of \<open>RUST_LOG\<close> if the variable is set and
  parses, the default otherwise; \<open>parses\<close> is the parser of the library.
\<close>

definition tracing_filter :: "(string \<Rightarrow> bool) \<Rightarrow> string option \<Rightarrow> string" where
  "tracing_filter parses var =
     (case var of
        Some directives \<Rightarrow> if parses directives then directives else default_filter
      | None \<Rightarrow> default_filter)"

record exit =
  log_filter :: string
  outcome :: "(error, unit) result"
  served :: "(error, http_response) result list"
  world_at_exit :: world

text \<open>
  \<open>main\<close>: a failed start is returned as its error, an address that cannot be
  bound is a panic of \<open>Server::bind\<close>, whose message ends with the error of the
  system, and the server loop is left only with an
  error, so the final \<open>Ok(())\<close> of the source is not an outcome.
\<close>

definition main ::
  "(u8 list \<Rightarrow> u8 list) \<Rightarrow> (string \<Rightarrow> string) \<Rightarrow> (string \<Rightarrow> bool) \<Rightarrow> ('s, 'c) host \<Rightarrow> world
     \<Rightarrow> exit option" where
  "main sha256 playground_source parses h w =
     (let directives = tracing_filter parses (rust_log h) in
      case startup (h_env h) of
        Inl x \<Rightarrow>
          Some \<lparr>log_filter = directives, outcome = Inl x, served = [], world_at_exit = w\<rparr>
      | Inr a \<Rightarrow>
          (case bind_error h (addr a) of
             Some e \<Rightarrow>
               Some \<lparr>log_filter = directives,
                 outcome = Abort (Panic_message (''error binding to 0.0.0.0:8000: '' @ e)),
                 served = [], world_at_exit = w\<rparr>
           | None \<Rightarrow>
               map_option
                 (\<lambda>(e, out, w').
                    \<lparr>log_filter = directives, outcome = Error (Transport e), served = out,
                     world_at_exit = w'\<rparr>)
                 (accept_loop (app_service sha256 playground_source (schema a)) (incoming h) 0 [] w)))"

section \<open>Vocabulary of the lemmas\<close>

text \<open>The requests that arrived before event \<open>n\<close>, if no error came before it.\<close>

fun upcoming :: "(nat \<Rightarrow> event) \<Rightarrow> nat \<Rightarrow> http_request list option" where
  "upcoming events 0 = Some []"
| "upcoming events (Suc n) =
     (case (upcoming events n, events n) of
        (Some reqs, Incoming req) \<Rightarrow> Some (reqs @ [req])
      | _ \<Rightarrow> None)"

text \<open>
  The states of the server loop: before event \<open>i\<close> it has produced the results
  \<open>out\<close> and left the world \<open>w\<close>.
\<close>

inductive loop_at ::
  "service \<Rightarrow> (nat \<Rightarrow> event) \<Rightarrow> world \<Rightarrow> nat \<Rightarrow> (error, http_response) result list \<Rightarrow> world \<Rightarrow> bool"
  for service events w0 where
  start: "loop_at service events w0 0 [] w0"
| step: "loop_at service events w0 i out w \<Longrightarrow> events i = Incoming req
    \<Longrightarrow> service req w = (r, w') \<Longrightarrow> loop_at service events w0 (Suc i) (out @ [r]) w'"

inductive_cases loop_at_0E [elim!]: "loop_at service events w0 0 out w"
inductive_cases loop_at_SucE [elim]: "loop_at service events w0 (Suc i) out w"

text \<open>The loop ends in \<open>y\<close>: it reaches an error of the socket with that result.\<close>

definition ends_in ::
  "service \<Rightarrow> (nat \<Rightarrow> event) \<Rightarrow> world \<Rightarrow> string \<times> (error, http_response) result list \<times> world \<Rightarrow> bool" where
  "ends_in service events w0 y \<longleftrightarrow>
     (\<exists>k. loop_at service events w0 k (fst (snd y)) (snd (snd y)) \<and> events k = Server_error (fst y))"

text \<open>The verification results a response carries, and those of a list of responses.\<close>

fun verification :: "answer \<Rightarrow> VerificationResult list" where
  "verification (Verification v) = [v]"
| "verification _ = []"

definition verifications_of :: "(error, http_response) result \<Rightarrow> VerificationResult list" where
  "verifications_of r =
     (case r of
        Inr res \<Rightarrow>
          (case rs_content res of
             Json g \<Rightarrow> concat (map verification (case resp_data g of Some as \<Rightarrow> as | None \<Rightarrow> []))
           | _ \<Rightarrow> [])
      | Inl _ \<Rightarrow> [])"

definition issued :: "(error, http_response) result list \<Rightarrow> VerificationResult list" where
  "issued out = concat (map verifications_of out)"

text \<open>How many verifications a request asks for: the fields of a mutation posted to the endpoint.\<close>

definition minted :: "http_request \<Rightarrow> nat" where
  "minted req =
     (if rq_method req = POST \<and> rq_path req = ''/graphql''
      then (case rq_body req of Extracted (Mutation fs) \<Rightarrow> length fs | _ \<Rightarrow> 0)
      else 0)"

text \<open>
  A worked example: a host on which the start succeeds and the address is free,
  which receives a mutation with two verifications and a health check and then
  loses its socket.
\<close>

definition demo_schema :: "(unit, unit) PolygraphSchema" where
  "demo_schema = \<lparr>data = Some demo_service\<rparr>"

definition demo_requests :: "http_request list" where
  "demo_requests =
     [\<lparr>rq_method = POST, rq_path = ''/graphql'',
       rq_body = Extracted (Mutation [VerifyClaim demo_input, VerifyClaim demo_input])\<rparr>,
      \<lparr>rq_method = GET, rq_path = ''/health'', rq_body = Rejected 415 ''no body''\<rparr>]"

definition demo_events :: "nat \<Rightarrow> event" where
  "demo_events k = (if k < 2 then Incoming (demo_requests ! k) else Server_error ''socket closed'')"

definition demo_host :: "(unit, unit) host" where
  "demo_host =
     \<lparr>h_env = demo_env, rust_log = None, bind_error = (\<lambda>a. None), incoming = demo_events\<rparr>"

section \<open>Lemmas on the loop\<close>

lemmas server_defs =
  banner_def text_response_def empty_response_def strip_body_def route_service_def
  allow_any_origin_def cors_layer_def app_service_def default_filter_def tracing_filter_def
  main_def router_def health_check_def

lemma serve_requests_Cons [simp]:
  "fst (serve_requests service (req # reqs) w) =
     fst (service req w) # fst (serve_requests service reqs (snd (service req w)))"
  "snd (serve_requests service (req # reqs) w) =
     snd (serve_requests service reqs (snd (service req w)))"
  by (simp_all add: case_prod_unfold)

declare serve_requests.simps(2) [simp del]

lemma serve_requests_append:
  "fst (serve_requests service (xs @ ys) w) =
     fst (serve_requests service xs w) @ fst (serve_requests service ys (snd (serve_requests service xs w)))"
  "snd (serve_requests service (xs @ ys) w) =
     snd (serve_requests service ys (snd (serve_requests service xs w)))"
  by (induction xs arbitrary: w) simp_all

lemma length_serve_requests [simp]: "length (fst (serve_requests service reqs w)) = length reqs"
  by (induction reqs arbitrary: w) simp_all

lemma upcoming_Suc_eq_Some_iff [simp]:
  "upcoming events (Suc n) = Some reqs \<longleftrightarrow>
     (\<exists>rs req. upcoming events n = Some rs \<and> events n = Incoming req \<and> reqs = rs @ [req])"
  by (auto split: option.splits event.splits)

declare upcoming.simps(2) [simp del]

lemma length_upcoming: "upcoming events n = Some reqs \<Longrightarrow> length reqs = n"
  by (induction n arbitrary: reqs) auto

lemma upcoming_eq_Some_iff:
  "(\<exists>reqs. upcoming events n = Some reqs) \<longleftrightarrow> (\<forall>j<n. \<exists>req. events j = Incoming req)"
proof (induction n)
  case 0
  show ?case by simp
next
  case (Suc n)
  have "(\<exists>reqs. upcoming events (Suc n) = Some reqs) \<longleftrightarrow>
      (\<exists>rs. upcoming events n = Some rs) \<and> (\<exists>req. events n = Incoming req)"
    by auto
  with Suc show ?case
    by (auto simp: less_Suc_eq)
qed

text \<open>The states of the loop are the results of serving the requests that arrived.\<close>

lemma loop_at_iff:
  "loop_at service events w0 n out w \<longleftrightarrow>
     (\<exists>reqs. upcoming events n = Some reqs \<and> serve_requests service reqs w0 = (out, w))"
proof
  show "\<exists>reqs. upcoming events n = Some reqs \<and> serve_requests service reqs w0 = (out, w)"
    if "loop_at service events w0 n out w"
    using that
  proof (induction rule: loop_at.induct)
    case start
    show ?case by simp
  next
    case (step i out w req r w')
    then obtain reqs where "upcoming events i = Some reqs"
      and "serve_requests service reqs w0 = (out, w)" by blast
    with step.hyps(2,3) have "upcoming events (Suc i) = Some (reqs @ [req])
        \<and> serve_requests service (reqs @ [req]) w0 = (out @ [r], w')"
      by (simp add: prod_eq_iff serve_requests_append)
    then show ?case by blast
  qed
  show "loop_at service events w0 n out w"
    if "\<exists>reqs. upcoming events n = Some reqs \<and> serve_requests service reqs w0 = (out, w)"
    using that
  proof (induction n arbitrary: out w)
    case 0
    then show ?case by (auto intro: loop_at.start)
  next
    case (Suc n)
    then obtain rs req where rs: "upcoming events n = Some rs" and req: "events n = Incoming req"
      and eq: "serve_requests service (rs @ [req]) w0 = (out, w)"
      by auto
    from rs have "loop_at service events w0 n (fst (serve_requests service rs w0))
        (snd (serve_requests service rs w0))"
      by (intro Suc.IH) auto
    from loop_at.step [OF this req surjective_pairing] eq show ?case
      by (simp add: prod_eq_iff serve_requests_append)
  qed
qed


lemma loop_at_total:
  assumes "\<forall>j<n. \<exists>req. events j = Incoming req"
  shows "\<exists>out w. loop_at service events w0 n out w"
proof -
  from assms obtain reqs where "upcoming events n = Some reqs"
    using upcoming_eq_Some_iff [of events n] by blast
  then have "loop_at service events w0 n (fst (serve_requests service reqs w0))
      (snd (serve_requests service reqs w0))"
    by (simp add: loop_at_iff)
  then show ?thesis by blast
qed

lemma loop_at_requests: "loop_at service events w0 n out w \<Longrightarrow> j < n \<Longrightarrow> \<exists>req. events j = Incoming req"
  using upcoming_eq_Some_iff [of events n] by (auto simp: loop_at_iff)

lemma loop_at_length: "loop_at service events w0 n out w \<Longrightarrow> length out = n"
  by (induction rule: loop_at.induct) simp_all

lemma accept_loop_from_start:
  "loop_at service events w0 i out w \<Longrightarrow>
     accept_loop service events i out w = accept_loop service events 0 [] w0"
proof (induction rule: loop_at.induct)
  case start
  show ?case by simp
next
  case (step i out w req r w')
  have "accept_loop service events i out w = accept_loop service events (Suc i) (out @ [r]) w'"
    by (subst accept_loop.simps) (simp add: step.hyps)
  with step.IH show ?case by simp
qed

lemma accept_loop_ends_in:
  assumes "accept_loop service events i out w = Some y"
  shows "loop_at service events w0 i out w \<longrightarrow> ends_in service events w0 y"
proof (rule accept_loop.raw_induct [where P = "\<lambda>service events i out w y.
    loop_at service events w0 i out w \<longrightarrow> ends_in service events w0 y", OF _ assms])
  fix f :: "service \<Rightarrow> (nat \<Rightarrow> event) \<Rightarrow> nat \<Rightarrow> (error, http_response) result list \<Rightarrow> world
     \<Rightarrow> (string \<times> (error, http_response) result list \<times> world) option"
  fix service events i out w y
  assume IH: "\<And>service events i out w y. f service events i out w = Some y \<Longrightarrow>
      loop_at service events w0 i out w \<longrightarrow> ends_in service events w0 y"
    and eq: "(case events i of
        Incoming req \<Rightarrow> (case service req w of (r, w') \<Rightarrow> f service events (Suc i) (out @ [r]) w')
      | Server_error e \<Rightarrow> Some (e, out, w)) = Some y"
  show "loop_at service events w0 i out w \<longrightarrow> ends_in service events w0 y"
  proof
    assume at: "loop_at service events w0 i out w"
    show "ends_in service events w0 y"
    proof (cases "events i")
      case (Server_error e)
      with eq at show ?thesis by (auto simp: ends_in_def)
    next
      case (Incoming req)
      with eq have "f service events (Suc i) (out @ [fst (service req w)]) (snd (service req w)) = Some y"
        by (simp add: case_prod_unfold)
      moreover from at Incoming
      have "loop_at service events w0 (Suc i) (out @ [fst (service req w)]) (snd (service req w))"
        by (rule loop_at.step) simp
      ultimately show ?thesis using IH by blast
    qed
  qed
qed

lemma accept_loop_eq_Some_iff:
  "accept_loop service events 0 [] w0 = Some (e, out, w) \<longleftrightarrow>
     (\<exists>k. loop_at service events w0 k out w \<and> events k = Server_error e)"
proof
  assume "accept_loop service events 0 [] w0 = Some (e, out, w)"
  then have "ends_in service events w0 (e, out, w)"
    using accept_loop_ends_in loop_at.start by blast
  then show "\<exists>k. loop_at service events w0 k out w \<and> events k = Server_error e"
    by (simp add: ends_in_def)
next
  assume "\<exists>k. loop_at service events w0 k out w \<and> events k = Server_error e"
  then obtain k where at: "loop_at service events w0 k out w" and k: "events k = Server_error e"
    by blast
  have "accept_loop service events k out w = Some (e, out, w)"
    by (subst accept_loop.simps) (simp add: k)
  with accept_loop_from_start [OF at] show "accept_loop service events 0 [] w0 = Some (e, out, w)"
    by simp
qed

lemma accept_loop_eq_None_iff:
  "accept_loop service events 0 [] w0 = None \<longleftrightarrow> (\<forall>k. \<exists>req. events k = Incoming req)"
proof
  assume none: "accept_loop service events 0 [] w0 = None"
  show "\<forall>k. \<exists>req. events k = Incoming req"
  proof (rule ccontr)
    assume "\<not> (\<forall>k. \<exists>req. events k = Incoming req)"
    then obtain k where "\<nexists>req. events k = Incoming req" by blast
    then obtain k where k: "\<nexists>req. events k = Incoming req"
      and least: "\<forall>j<k. \<exists>req. events j = Incoming req"
      using exists_least_iff [of "\<lambda>k. \<nexists>req. events k = Incoming req"] by blast
    from k obtain e where "events k = Server_error e"
      by (cases "events k") auto
    moreover from least obtain out w where "loop_at service events w0 k out w"
      using loop_at_total by blast
    ultimately have "accept_loop service events 0 [] w0 = Some (e, out, w)"
      by (auto simp: accept_loop_eq_Some_iff)
    with none show False by simp
  qed
next
  assume all: "\<forall>k. \<exists>req. events k = Incoming req"
  show "accept_loop service events 0 [] w0 = None"
  proof (cases "accept_loop service events 0 [] w0")
    case None
    then show ?thesis .
  next
    case (Some y)
    then have "ends_in service events w0 y"
      using accept_loop_ends_in loop_at.start by blast
    then obtain k where "events k = Server_error (fst y)"
      by (auto simp: ends_in_def)
    with all show ?thesis by (metis event.distinct(1))
  qed
qed

section \<open>Lemmas on the routes\<close>

lemma demo_schema_eq:
  "demo_schema = create_schema (arango demo_service) (xtdb demo_service) (cache demo_service)"
  by (simp add: demo_schema_def create_schema_def claim_service_new_def)

lemma verification_mock_answers [simp]:
  "concat (map verification (mock_answers w n)) = mock_results w n"
  by (simp add: mock_answers_def o_def)

lemma verification_stub_answers:
  "those (map stub_answer fs) = Some as \<Longrightarrow> concat (map verification as) = []"
proof (induction fs arbitrary: as)
  case Nil
  then show ?case by simp
next
  case (Cons f fs)
  then show ?case by (cases f) (auto split: option.splits)
qed

lemma verification_query_data [simp]:
  "concat (map verification (case those (map stub_answer fs) of Some as \<Rightarrow> as | None \<Rightarrow> [])) = []"
  by (cases "those (map stub_answer fs)") (simp_all add: verification_stub_answers)

lemma verifications_of_simps [simp]:
  "verifications_of (Inl x) = []"
  "verifications_of (Ok \<lparr>rs_status = c, rs_content = No_content, rs_headers = hs\<rparr>) = []"
  "verifications_of (Ok \<lparr>rs_status = c, rs_content = Plain t, rs_headers = hs\<rparr>) = []"
  "verifications_of (Ok \<lparr>rs_status = c, rs_content = Html t, rs_headers = hs\<rparr>) = []"
  "verifications_of (Ok \<lparr>rs_status = c, rs_content = Json g, rs_headers = hs\<rparr>) =
     concat (map verification (case resp_data g of Some as \<Rightarrow> as | None \<Rightarrow> []))"
  by (simp_all add: verifications_of_def)

lemma issued_simps [simp]:
  "issued [] = []" "issued (out @ [r]) = issued out @ verifications_of r"
  by (simp_all add: issued_def)

lemma route_service_is_ok [simp]: "is_ok (fst (route_service sha256 pg sch req w))"
  by (simp add: route_service_def split: routed.split route_handler.split)

lemma cors_layer_is_ok: "is_ok (fst (inner req w)) \<Longrightarrow> is_ok (fst (cors_layer inner req w))"
  by (auto simp: cors_layer_def is_ok_iff case_prod_unfold)

lemma app_service_is_ok [simp]: "is_ok (fst (app_service sha256 pg sch req w))"
  by (simp add: app_service_def cors_layer_is_ok)

text \<open>Through a created schema a request spends what it mints and answers with the mock results.\<close>

lemma route_service_created:
  "snd (route_service sha256 pg (create_schema a x c) req w) = spend (minted req) w"
  "verifications_of (fst (route_service sha256 pg (create_schema a x c) req w)) =
     mock_results w (minted req)"
proof -
  show "snd (route_service sha256 pg (create_schema a x c) req w) = spend (minted req) w"
    by (auto simp: route_service_def router_def minted_def graphql_handler_created
        split: extracted.split request.split)
  show "verifications_of (fst (route_service sha256 pg (create_schema a x c) req w)) =
      mock_results w (minted req)"
    by (simp add: route_service_def router_def minted_def graphql_handler_created text_response_def
        empty_response_def strip_body_def graphql_playground_def
        split: extracted.split request.split)
qed

lemma verifications_of_cors:
  "verifications_of (fst (cors_layer inner req w)) =
     (if rq_method req = OPTIONS then [] else verifications_of (fst (inner req w)))"
  by (cases "fst (inner req w)")
    (simp_all add: cors_layer_def case_prod_unfold verifications_of_def)

lemma app_service_created:
  "snd (app_service sha256 pg (create_schema a x c) req w) = spend (minted req) w"
  "verifications_of (fst (app_service sha256 pg (create_schema a x c) req w)) =
     mock_results w (minted req)"
  by (auto simp: app_service_def verifications_of_cors route_service_created)
    (auto simp: cors_layer_def minted_def case_prod_unfold route_service_created)


lemma app_service_no_service:
  "snd (app_service sha256 pg \<lparr>data = None\<rparr> req w) = w"
proof -
  have gh: "snd (graphql_handler sha256 \<lparr>data = None\<rparr> b w) = w" for b
  proof (cases b)
    case (Rejected code msg)
    then show ?thesis by simp
  next
    case (Extracted r)
    then show ?thesis
      by (cases r)
        (simp_all add: graphql_handler_def execute_def resolve_serial_no_service case_prod_unfold)
  qed
  show ?thesis
    by (simp add: app_service_def cors_layer_def route_service_def case_prod_unfold gh
        split: routed.split route_handler.split)
qed

section \<open>Properties of the server\<close>

text \<open>
  C18.  Only a mutation posted to \<open>/graphql\<close> changes the world, and only when the
  schema holds the service: every other request, whatever its method, path and
  body, leaves the world as it was, and a mutation spends one random value and
  three clock readings for each field it selects.
\<close>

theorem app_service_effect:
  "snd (app_service sha256 pg sch req w) =
     (if data sch = None then w else spend (minted req) w)"
proof (cases "data sch")
  case None
  then have "sch = \<lparr>data = None\<rparr>" by simp
  then show ?thesis by (simp add: app_service_no_service)
next
  case (Some service)
  then have "sch = create_schema (arango service) (xtdb service) (cache service)"
    by (simp add: create_schema_def claim_service_new_def)
  then show ?thesis
    using Some app_service_created(1) [of sha256 pg "arango service" "xtdb service" "cache service"]
    by simp
qed

lemma graphql_handler_status:
  "\<exists>res. fst (graphql_handler sha256 sch b w) = Ok res \<and> rs_headers res = []
     \<and> rs_status res = (case b of Rejected code msg \<Rightarrow> code | Extracted r \<Rightarrow> 200)"
proof (cases b)
  case (Rejected code msg)
  then show ?thesis by simp
next
  case (Extracted r)
  obtain g where "fst (execute sha256 sch r w) = Ok g"
    using execute_is_ok [of sha256 sch r w] by (auto simp: is_ok_iff)
  with Extracted show ?thesis
    by (simp add: graphql_handler_def case_prod_unfold)
qed

text \<open>
  C19.  Every request gets an HTTP response that allows any origin.  Its status is
  200 for every OPTIONS request, which the CORS layer answers whatever the path; 404
  for a path without a route; 405 for a method the path has no handler for; the
  status of the rejection when the body of a posted GraphQL request is rejected;
  and 200 otherwise, for a GraphQL response that carries errors too.
\<close>

theorem app_service_status:
  "\<exists>res. fst (app_service sha256 pg sch req w) = Ok res
     \<and> allow_any_origin \<in> set (rs_headers res)
     \<and> rs_status res =
       (if rq_method req = OPTIONS then 200
        else case router (rq_method req) (rq_path req) of
               Handler Graphql_handler \<Rightarrow>
                 (case rq_body req of Rejected code msg \<Rightarrow> code | Extracted r \<Rightarrow> 200)
             | Handler h \<Rightarrow> 200
             | Method_not_allowed \<Rightarrow> 405
             | Not_found \<Rightarrow> 404)"
proof (cases "router (rq_method req) (rq_path req) = Handler Graphql_handler")
  case True
  obtain res where "fst (graphql_handler sha256 sch (rq_body req) w) = Ok res"
    and "rs_status res = (case rq_body req of Rejected code msg \<Rightarrow> code | Extracted r \<Rightarrow> 200)"
    using graphql_handler_status by blast
  with True show ?thesis
    by (simp add: app_service_def cors_layer_def route_service_def case_prod_unfold)
next
  case False
  then show ?thesis
    by (simp add: app_service_def cors_layer_def route_service_def strip_body_def
        text_response_def empty_response_def graphql_playground_def
        split: routed.split route_handler.split)
qed

lemma loop_at_all_ok:
  "loop_at (app_service sha256 pg sch) events w0 n out w \<Longrightarrow> list_all is_ok out"
proof (induction rule: loop_at.induct)
  case start
  show ?case by simp
next
  case (step i out w req r w')
  from step.hyps(3) have "r = fst (app_service sha256 pg sch req w)" by simp
  with step.IH show ?case by simp
qed

text \<open>
  C13.  Every request is answered: if the events before the \<open>n\<close>-th are requests,
  the loop reaches the state in which it has answered all \<open>n\<close> of them, and each
  answer is an HTTP response, for no request makes a handler panic, whatever the
  schema holds.
\<close>

theorem every_request_answered:
  assumes "\<forall>j<n. \<exists>req. events j = Incoming req"
  shows "\<exists>out w. loop_at (app_service sha256 pg sch) events w0 n out w
    \<and> length out = n \<and> list_all is_ok out"
proof -
  from assms obtain out w where "loop_at (app_service sha256 pg sch) events w0 n out w"
    using loop_at_total by blast
  then show ?thesis
    using loop_at_length loop_at_all_ok by blast
qed

theorem every_request_answered_witness:
  "\<exists>out w. loop_at (app_service id id demo_schema) demo_events demo_world 2 out w
    \<and> length out = 2 \<and> list_all is_ok out"
  by (rule every_request_answered) (simp add: demo_events_def)

text \<open>
  C12.  \<open>main\<close> does not return exactly when the start succeeds, the address can
  be bound and the socket never fails: a server that is up runs until an error ends
  it.
\<close>

theorem main_eq_None_iff:
  "main sha256 pg parses h w = None \<longleftrightarrow>
     is_ok (startup (h_env h)) \<and> bind_error h ([0, 0, 0, 0], 8000) = None
     \<and> (\<forall>k. \<exists>req. incoming h k = Incoming req)"
proof (cases "startup (h_env h)")
  case (Inl x)
  then show ?thesis by (simp add: main_def)
next
  case (Inr a)
  then have "addr a = ([0, 0, 0, 0], 8000)" by (rule startup_addr)
  with Inr show ?thesis
    by (simp add: main_def Let_def accept_loop_eq_None_iff split: option.split)
qed

text \<open>
  C15.  When the socket fails after \<open>k\<close> requests, \<open>main\<close> returns the error of
  the socket, having served the \<open>k\<close> requests in order, each in the world the
  one before left.
\<close>

theorem main_returns:
  assumes "startup (h_env h) = Ok a" and "bind_error h (addr a) = None"
    and "upcoming (incoming h) k = Some reqs" and "incoming h k = Server_error e"
  shows "main sha256 pg parses h w =
    Some \<lparr>log_filter = tracing_filter parses (rust_log h), outcome = Error (Transport e),
      served = fst (serve_requests (app_service sha256 pg (schema a)) reqs w),
      world_at_exit = snd (serve_requests (app_service sha256 pg (schema a)) reqs w)\<rparr>"
proof -
  let ?service = "app_service sha256 pg (schema a)"
  from assms(3) have "loop_at ?service (incoming h) w k
      (fst (serve_requests ?service reqs w)) (snd (serve_requests ?service reqs w))"
    by (simp add: loop_at_iff)
  with assms(4) have "accept_loop ?service (incoming h) 0 [] w =
      Some (e, fst (serve_requests ?service reqs w), snd (serve_requests ?service reqs w))"
    by (intro accept_loop_eq_Some_iff [THEN iffD2] exI [of _ k] conjI)
  with assms(1,2) show ?thesis
    by (simp add: main_def Let_def case_prod_unfold)
qed


lemma upcoming_demo_events: "upcoming demo_events 2 = Some demo_requests"
  by (simp add: numeral_2_eq_2 demo_events_def demo_requests_def)

lemma snd_serve_requests_created:
  "snd (serve_requests (app_service sha256 pg (create_schema a x c)) reqs w) =
     spend (sum_list (map minted reqs)) w"
  by (induction reqs arbitrary: w) (simp_all add: app_service_created)

theorem main_returns_witness:
  "\<exists>x. main id id (\<lambda>d. True) demo_host demo_world = Some x
     \<and> outcome x = Error (Transport ''socket closed'') \<and> length (served x) = 2
     \<and> world_at_exit x = spend 2 demo_world \<and> log_filter x = default_filter"
proof -
  obtain a x y z where a: "startup (h_env demo_host) = Ok a" "schema a = create_schema x y z"
    using startup_demo_env by (auto simp: demo_host_def)
  have "bind_error demo_host (addr a) = None" "upcoming (incoming demo_host) 2 = Some demo_requests"
    "incoming demo_host 2 = Server_error ''socket closed''"
    by (simp_all add: demo_host_def upcoming_demo_events demo_events_def)
  moreover have "snd (serve_requests (app_service id id (create_schema x y z)) demo_requests demo_world) =
      spend 2 demo_world"
    by (simp add: snd_serve_requests_created) (simp add: demo_requests_def minted_def)
  moreover have "length demo_requests = 2"
    by (simp add: demo_requests_def)
  ultimately show ?thesis
    using main_returns [OF a(1), of 2 demo_requests "''socket closed''" id id "\<lambda>d. True" demo_world]
    by (simp add: a(2) tracing_filter_def demo_host_def)
qed

lemma loop_at_created:
  assumes "loop_at (app_service sha256 pg (create_schema a x c)) events w0 n out w"
  shows "issued out = mock_results w0 (length (issued out)) \<and> w = spend (length (issued out)) w0"
  using assms
proof (induction rule: loop_at.induct)
  case start
  show ?case by simp
next
  case (step i out w req r w')
  from step.hyps(3) have "verifications_of r = mock_results w (minted req)"
    and "w' = spend (minted req) w"
    using app_service_created [of sha256 pg a x c req w] by simp_all
  with step.IH show ?case
    by (simp add: mock_results_add)
qed

lemma issued_ids:
  assumes "loop_at (app_service sha256 pg (create_schema a x c)) events w0 n out w"
  shows "map claim_id (issued out) = map (\<lambda>i. v4_bits (rng w0 i)) [drawn w0..<drawn w]"
proof -
  from loop_at_created [OF assms] have eq: "issued out = mock_results w0 (length (issued out))"
    and w: "w = spend (length (issued out)) w0"
    by simp_all
  from w have "drawn w = drawn w0 + length (issued out)"
    by (metis spend_simps(3))
  with eq show ?thesis
    by (metis claim_id_mock_results)
qed

text \<open>
  C11.  Through a created schema the state of the server is determined by the number
  of verifications it has issued: in every state of the loop the results issued so
  far are the mock results of that many draws from the start, in order, the world
  is the start world with that many draws and three times as many clock readings
  spent, and every identifier issued is a version-4 UUID.
\<close>

theorem server_issues_mock_results:
  assumes "loop_at (app_service sha256 pg (create_schema a x c)) events w0 n out w"
  shows "issued out = mock_results w0 (length (issued out)) \<and> w = spend (length (issued out)) w0
    \<and> list_all is_v4 (map claim_id (issued out))"
  using loop_at_created [OF assms] issued_ids [OF assms]
  by (simp add: list_all_iff)

theorem server_issues_mock_results_witness:
  "\<exists>out w. loop_at (app_service id id demo_schema) demo_events demo_world 2 out w
     \<and> issued out = [mock_result (v4_bits 0) 2, mock_result (v4_bits 1) 5]
     \<and> w = spend 2 demo_world"
proof -
  let ?service = "app_service id id
    (create_schema (arango demo_service) (xtdb demo_service) (cache demo_service))"
  have at: "loop_at ?service demo_events demo_world 2
      (fst (serve_requests ?service demo_requests demo_world))
      (snd (serve_requests ?service demo_requests demo_world))"
    by (simp add: loop_at_iff upcoming_demo_events)
  have "issued (fst (serve_requests ?service demo_requests demo_world)) =
      [mock_result (v4_bits 0) 2, mock_result (v4_bits 1) 5]"
    by (simp add: issued_def demo_requests_def app_service_created minted_def demo_world_def
        numeral_2_eq_2 spend_def)
  with server_issues_mock_results [OF at] at show ?thesis
    unfolding demo_schema_eq by (auto simp: numeral_2_eq_2)
qed

end
