(* ===== verification/Spec2Isabelle.thy ===== *)
theory Spec2Isabelle
  imports Wasm_Credibility Fact_Check Ml Store_Servers Http_Server
begin

text \<open>
  \<^bold>\<open>A verification development of the social-media-polygraph backend.\<close>

  The program (\<open>src/backend/src\<close>, Rust) verifies textual claims: a GraphQL API
  hands a claim to a service, which is to fingerprint it, collect fact-check
  ratings from outside providers, score its credibility and record the result in
  three stores.  The sources hold the scoring and the provider client in full and
  the service, the stores and the language processing as first implementations;
  the development models what the sources do, and its findings record where that
  differs from the design in \<open>spec.md\<close>.

  \<^bold>\<open>Theories, in the order of their imports.\<close>

  \<^descr>[\<open>Polygraph_Prelude\<close>] How a call ends: \<open>Inr v\<close> for a returned value,
  \<open>Inl (Err e)\<close> for a returned error, \<open>Inl (Panic p)\<close> for a panic;
  \<open>and_then\<close> is the operator \<open>?\<close>.  The operations of \<open>Option\<close>,
  \<open>Result\<close>, \<open>Vec\<close> and iterators that the sources call (\<open>ok_or_else\<close>,
  \<open>unwrap_or\<close>, \<open>unwrap_or_default\<close>, indexing with its panic, \<open>first\<close>,
  \<open>filter_map\<close>), the error type and the machine integers (\<open>u32\<close> and the
  others are words of that width).

  \<^descr>[\<open>Rust_Float\<close>] The type \<open>f64\<close>: a finite number, plus or minus infinity,
  or NaN.  Arithmetic on finite numbers is exact; the special values follow
  IEEE 754.  Rounding, overflow to infinity and the sign of zero are not modelled:
  the theorems on finite values are statements about the exact results, and the
  theorems on NaN and the infinities hold as stated.  A decimal literal of the
  sources (0.35, 0.8) is the number it writes, not the nearest binary fraction, so
  a comparison of a computed value with a literal is decided as on the reals;
  the thresholds themselves are reached by the values the theorems name.
  \<open>partial_cmp\<close>,
  \<open>f64::min\<close>, \<open>f64::clamp\<close> (with its assertion) and the casts from
  integers; order and monotonicity lemmas.

  \<^descr>[\<open>Rust_Text\<close>] Strings as UTF-8 bytes.  \<open>to_lowercase\<close> lowers the ASCII
  capitals only, which is \<open>str::to_lowercase\<close> on every text whose characters
  outside ASCII have no other lower-case form; on a text with such a character
  (a capital of another script) the library changes more bytes than the model,
  and no theorem is stated for such a text.  \<open>contains\<close> is
  the substring test, proved equal to the library's \<open>sublist\<close>; \<open>hex_lower\<close>
  is the \<open>{:x}\<close> format of a digest and \<open>urlencode\<close> the percent-encoding of
  the \<open>urlencoding\<close> crate, each with a decoder and its round trip.
  \<open>query_pairs\<close> reads the query of a URL as its receiver does (the pairs cut
  at \<open>&\<close>, name and value at the first \<open>=\<close>, both percent-decoded); it is
  the reference against which the request URLs of the provider client are stated.

  \<^descr>[\<open>Serde_Json\<close>] JSON documents (\<open>json\<close>), HTTP responses with a JSON
  body, \<open>Response::json\<close> (\<open>response_json\<close>, \<open>json_as\<close>), and the
  conventions by which a derived \<open>Deserialize\<close> or \<open>Serialize\<close> instance
  reads or writes a value: \<open>struct_members\<close>, \<open>required\<close> and
  \<open>optional\<close> fields, \<open>Option\<close>, \<open>Vec\<close>, strings and numbers.  A
  decoder returns the value or fails; the lemmas are the round trips of the
  combinators and how missing and repeated members are read.

  \<^descr>[\<open>Models\<close>] \<open>models/mod.rs\<close>: \<open>Claim\<close>, \<open>ClaimInput\<close>,
  \<open>VerificationResult\<close>, \<open>FactCheckSource\<close>, \<open>SentimentAnalysis\<close> as
  records, \<open>ClaimStatus\<close> and \<open>Verdict\<close> as datatypes; the claim lifecycle of
  the design as the step relation \<open>lifecycle\<close>, with the lemmas that every
  status is reachable from Pending, that every step moves forward and that the
  terminal statuses are the ones without a step.

  \<^descr>[\<open>Wasm_Credibility\<close>] \<open>wasm/credibility.rs\<close>: \<open>CredibilityInput\<close>,
  \<open>CredibilityScorer\<close>, \<open>scorer_new\<close> (\<open>new\<close>), \<open>score\<close> with its body
  \<open>score_input\<close>, \<open>get_recommendation\<close> and the start function \<open>init\<close>.
  The deserialiser of the
  JavaScript value is a parameter of \<open>score\<close>.  \<open>score_spec\<close> is the scoring
  contract on real numbers.  The theorems: \<open>score\<close> computes \<open>score_spec\<close> on
  finite inputs, stays in the unit interval on every input that is not
  NaN-producing, returns NaN on the others, fails only as deserialisation fails,
  is monotone in the evidence; the labels are five bands of width 0.2.

  \<^descr>[\<open>Fact_Check\<close>] \<open>services/fact_check_apis.rs\<close>: the result and response
  structs, \<open>FactCheckClient\<close>, \<open>fact_check_client_new\<close> (\<open>new\<close>, reading the
  environment), \<open>google_fact_check\<close>, \<open>check_news_sources\<close>,
  \<open>aggregate_fact_checks\<close> and \<open>normalize_rating\<close>; the derived instances
  of the structs (\<open>google_fact_check_response_deserialize\<close> and the decoders of
  its parts, those of the NewsAPI response, \<open>fact_check_result_serialize\<close> and
  \<open>fact_check_result_deserialize\<close>).  The HTTP client is the \<open>network\<close> it
  reaches: per request URL the response or the error of the exchange; \<open>get_json\<close>
  sends a request and decodes the body of the answer.  The theorems: the decision
  table of \<open>normalize_rating\<close>, the results and the three
  failures of the Google call, that the status of an answer is not looked at, so
  that the error report of a provider reads as a response without claims, that one
  claim without reviews makes a whole answer undecodable, the round trip of a
  result through JSON, when exactly the aggregation has a result (it returns the
  empty list for every failure of the provider as for an answer without reviews),
  when exactly the NewsAPI call succeeds and with what, and that the receiver of a
  request reads from its URL the claim text as it was given.

  \<^descr>[\<open>Ml\<close>] \<open>ml/credibility.rs\<close> and \<open>ml/nlp.rs\<close>: the placeholder scorer
  \<open>score_claim\<close>, proved to be the mean of its factors and NaN on none, and
  the placeholder language processor.

  \<^descr>[\<open>Stores\<close>] \<open>db/arango.rs\<close>, \<open>db/xtdb.rs\<close>, \<open>db/cache.rs\<close>: the three
  clients.  A client handle is the transport it sends through, a function from a
  request and the state of the remote side to the reply and the new state, so the
  operations (\<open>xtdb_put\<close>, \<open>xtdb_get\<close>, \<open>cache_get\<close>, \<open>cache_set\<close>) are
  state passing, and the lemmas that say how each reply of the server is read
  (a Redis reply that is nil, text, bytes that are not UTF-8, an integer, a status
  or an error; an XTDB answer by its status and body) hold for every server.
  \<open>arango_new\<close> connects with the credentials written in the source.

  \<^descr>[\<open>Store_Servers\<close>] Reference servers for two transports, which the sources
  do not contain: a Redis that keeps values until they expire and an XTDB node with
  an append-only transaction log, after the collaborator contracts of the design.
  Against them the client operations are proved to read back what they wrote
  (\<open>cache_set\<close> then \<open>cache_get\<close> within the time to live, \<open>xtdb_put\<close>
  then \<open>xtdb_get\<close>), and \<open>xtdb_put\<close> is shown to report a refused
  transaction as a success.

  \<^descr>[\<open>Claim_Service\<close>] \<open>services/claim_service.rs\<close>: \<open>ClaimService\<close>,
  \<open>verify_claim\<close> with its first half \<open>build_claim\<close>, \<open>get_claim\<close>,
  \<open>list_claims\<close>, \<open>compute_hash\<close>.  Random identifiers and clock readings
  are effects on a \<open>world\<close>; SHA-256 is a parameter.  The lemmas give the mock
  result of \<open>verify_claim\<close> and what it consumes of the world, on which the
  theorems of the layers above rest; the theorem is that the fingerprint keeps
  white space.

  \<^descr>[\<open>Graphql_Api\<close>] \<open>api/graphql.rs\<close>: the schema with its registered
  service, the resolvers (\<open>query_health\<close>, \<open>query_claim\<close>, \<open>query_claims\<close>,
  \<open>mutation_verify_claim\<close>), \<open>create_schema\<close>, the two handlers
  (\<open>graphql_handler\<close>, \<open>graphql_playground\<close>) and \<open>execute\<close>, the
  execution of a request by the schema, which is a model of the executor of
  \<open>async-graphql\<close> and not a translation of lines of the sources.  A request is
  a validated document: a query
  or a mutation with the root fields it selects (\<open>resolve_query\<close>,
  \<open>resolve_mutation\<close> dispatch a field to its resolver).  The fields of a query
  are joined, those of a mutation run in order, and the first failed field ends the
  execution with \<open>null\<close> data, every root field being non-null.  The lemmas:
  what a request is answered through a created schema and without a service, and
  that no resolver panics.

  \<^descr>[\<open>Bootstrap\<close>] \<open>main.rs\<close>: \<open>startup\<close> (configuration, the clients in
  order, the schema, the address) and the routes (\<open>router\<close>).  The theorems: when
  exactly the start succeeds and with which application, and in which ways exactly
  it fails, with which error.

  \<^descr>[\<open>Http_Server\<close>] \<open>main.rs\<close>: the application (\<open>route_service\<close>,
  the routes with their handlers; \<open>cors_layer\<close>; \<open>app_service\<close>), the log
  filter (\<open>tracing_filter\<close>), the server loop (\<open>accept_loop\<close>) and
  \<open>main\<close>.  \<open>cors_layer\<close> and \<open>accept_loop\<close> are models of
  \<open>tower-http\<close> and \<open>hyper\<close>, not translations of lines of the sources; the
  tracing layer only logs and is left out.  The loop is a partial function: it
  returns only when the socket fails.  Its states are the inductive relation \<open>loop_at\<close>, proved to be the
  results of \<open>serve_requests\<close> on the requests that arrived, and \<open>accept_loop\<close>
  is proved to return exactly the state in which the first error of the socket finds
  the loop.  The theorems: when \<open>main\<close> returns and with what; that every
  request is answered and none makes a handler fail; the status of every response;
  that only posted mutations change the world; and, by induction over the states of
  the loop, that the results issued and the world are determined by the number of
  verifications, with identifiers that are version-4 UUIDs.

  \<^descr>[\<open>Spec2Isabelle\<close>] This theory: the properties that span components.  What
  a started application answers to a query and to a mutation (\<open>Bootstrap\<close>,
  \<open>Graphql_Api\<close>, \<open>Claim_Service\<close>); when the two scorers agree on the
  same evidence, \<open>factors\<close> being the four factors of the browser-side scorer
  as the input of the server-side one (\<open>Wasm_Credibility\<close>, \<open>Ml\<close>).

  \<^bold>\<open>How the components interact.\<close>  \<open>startup\<close> builds the clients of
  \<open>Stores\<close> and passes them to \<open>create_schema\<close>, which wraps them in the
  service of \<open>Claim_Service\<close>; \<open>main\<close> puts the schema behind the routes
  and serves requests; \<open>graphql_handler\<close> executes a request, whose resolvers
  find the service in the schema and call its operations, threading the
  \<open>world\<close>.  The service holds
  the three clients and calls none of them, and it calls neither the provider
  client of \<open>Fact_Check\<close> nor a scorer: in the sources these components are not
  yet wired together.  The two scorers (\<open>Wasm_Credibility\<close>, \<open>Ml\<close>) are
  independent implementations.

  \<^bold>\<open>Bounds and assumptions.\<close>  No definition uses fuel.  The server loop is
  the one loop of the sources that may not end: it is a
  \<^theory_text>\<open>partial_function (option)\<close>, and when it returns is a theorem.  Every other
  loop is an iterator over a finite list and is a structural recursion here.
  The server is modelled as serving one request at a time, in the order of arrival;
  what the socket delivers (requests, or the error that ends the server) is given by
  the environment.
  Integers keep their width (\<open>u32\<close> counts, \<open>i32\<close> paging arguments, 128-bit
  identifiers); \<open>usize\<close> lengths are natural numbers.  The semantics of the
  libraries the sources call (the standard library, \<open>serde\<close>, \<open>reqwest\<close>,
  \<open>redis\<close>, \<open>sha2\<close>, \<open>uuid\<close>, \<open>chrono\<close>, \<open>urlencoding\<close>,
  \<open>config\<close>, \<open>async-graphql\<close>, \<open>axum\<close>, \<open>tower-http\<close>) is modelled
  by the definitions of the prelude theories and of the theory that uses it, or
  left as a parameter, as said above.

  \<^bold>\<open>Not modelled.\<close>  The concurrency of the asynchronous runtime (each
  operation is one atomic call, and requests do not overlap); the log output;
  response headers other than the grant of the CORS layer; the GraphQL query
  language (parsing, validation, aliases, introspection, the selection inside a
  returned object) and the text of the playground page; the text syntax of JSON (a
  body is a document, or no document); the derived instances of the structs of
  \<open>models/mod.rs\<close>, which no operation of the sources calls; and the
  ArangoDB server beyond its login (the sources send it no query).  The orchestration
  of the design (cache look-up, single flight, history and projection writes) has no
  code in the sources and no definition here.
\<close>

section \<open>Definitions\<close>

text \<open>
  The four factors the browser-side scorer weights, in the order of its weights: the
  input the server-side scorer would be given for the same evidence.
\<close>

definition factors :: "CredibilityInput \<Rightarrow> f64 list" where
  "factors input =
     [source_credibility input,
      f64_min (f64_of_u32 (fact_check_count input) / Num 10) (Num 1),
      f64_min (f64_of_u32 (corroborating_sources input) / Num 5) (Num 1),
      Num 1 - claim_complexity input]"

section \<open>Properties that span components\<close>

lemma factors_Num:
  assumes "source_credibility input = Num a" and "claim_complexity input = Num c"
  shows "factors input =
    map Num [a, saturate (unat (fact_check_count input)) 10,
      saturate (unat (corroborating_sources input)) 5, 1 - c]"
  using assms saturated_count [of 10 "fact_check_count input"]
    saturated_count [of 5 "corroborating_sources input"]
  by (simp add: factors_def)

text \<open>
  C10.  After a successful start no request fails for want of the service, and the
  stores are never asked.  A query is answered in full unless it selects
  \<open>claim\<close>: that field fails with "Not implemented" and, being non-null, leaves
  \<open>null\<close> data for the whole query, \<open>health\<close> and \<open>claims\<close> included.  A
  mutation of \<open>n\<close> verifications returns \<open>n\<close> mock results and spends \<open>n\<close>
  random values and \<open>3n\<close> clock readings.
\<close>

theorem started_service_answers:
  assumes "startup env = Ok a"
  shows "execute sha256 (schema a) (Query qs) w =
      (Ok \<lparr>resp_data = those (map stub_answer qs),
           resp_errors =
             (if \<exists>cid. ClaimById cid \<in> set qs then [Message ''Not implemented''] else [])\<rparr>,
       w)
    \<and> execute sha256 (schema a) (Mutation ms) w =
      (Ok \<lparr>resp_data = Some (mock_answers w (length ms)), resp_errors = []\<rparr>,
       spend (length ms) w)"
proof -
  from assms obtain x y z where "schema a = create_schema x y z"
    by (auto dest: startup_schema)
  then show ?thesis
    by (simp add: execute_query_created execute_mutation_created those_stub_answer_None_iff)
qed

theorem started_service_answers_witness:
  "\<exists>a. startup demo_env = Ok a
     \<and> execute id (schema a) (Query [Health, ClaimById ''7'']) demo_world =
       (Ok \<lparr>resp_data = None, resp_errors = [Message ''Not implemented'']\<rparr>, demo_world)
     \<and> execute id (schema a) (Mutation [VerifyClaim demo_input]) demo_world =
       (Ok \<lparr>resp_data = Some [Verification (mock_result (v4_bits 0) 2)], resp_errors = []\<rparr>,
        spend 1 demo_world)"
proof -
  obtain a where a: "startup demo_env = Ok a"
    using startup_demo_env by blast
  from started_service_answers [OF a, of id "[Health, ClaimById ''7'']" demo_world
      "[VerifyClaim demo_input]"] a
  show ?thesis
    by (simp add: demo_world_def)
qed

text \<open>
  C24.  The two scorers are different functions.  On evidence in the unit interval
  the browser-side score is the server-side placeholder score of the same four
  factors exactly when the source credibility equals the saturated corroboration:
  the weights 0.35 and 0.15 against the mean's 0.25 and 0.25.
\<close>

theorem scorers_agree_iff:
  assumes "in_unit (source_credibility input)" and "in_unit (claim_complexity input)"
  shows "score_input scorer_new input = Ok (score_claim ml_scorer_new (factors input)) \<longleftrightarrow>
    source_credibility input = Num (saturate (unat (corroborating_sources input)) 5)"
proof -
  from assms obtain a c where a: "source_credibility input = Num a" "0 \<le> a" "a \<le> 1"
    and c: "claim_complexity input = Num c" "0 \<le> c" "c \<le> 1"
    by (auto simp: in_unit_iff)
  let ?f = "saturate (unat (fact_check_count input)) 10"
  let ?s = "saturate (unat (corroborating_sources input)) 5"
  have w: "0 \<le> weighted_sum a (unat (fact_check_count input)) (unat (corroborating_sources input)) c
      \<and> weighted_sum a (unat (fact_check_count input)) (unat (corroborating_sources input)) c \<le> 1"
    using a(2,3) c(2,3) by (rule weighted_sum_in_unit)
  have wasm: "score_input scorer_new input = Ok (Num (a * 0.35 + ?f * 0.25 + ?s * 0.15 + (1 - c) * 0.25))"
    using w by (simp add: score_input_new raw_sum_Num [OF a(1) c(1)] f64_clamp_id)
      (simp add: weighted_sum_def)
  have ml: "score_claim ml_scorer_new (factors input) = Num ((a + ?f + ?s + (1 - c)) / 4)"
    using score_claim_Num [of "[a, ?f, ?s, 1 - c]" ml_scorer_new]
    by (simp add: factors_Num [OF a(1) c(1)])
  show ?thesis
    unfolding wasm ml a(1) by (simp add: field_simps)
qed

theorem scorers_agree_iff_witness:
  "score_input scorer_new
     \<lparr>source_credibility = Num 1, fact_check_count = 0, corroborating_sources = 0,
      claim_complexity = Num 1\<rparr>
   \<noteq> (Ok (score_claim ml_scorer_new (factors
     \<lparr>source_credibility = Num 1, fact_check_count = 0, corroborating_sources = 0,
      claim_complexity = Num 1\<rparr>)) :: (unit, f64) result)"
  using scorers_agree_iff [of
      "\<lparr>source_credibility = Num 1, fact_check_count = 0, corroborating_sources = 0,
        claim_complexity = Num 1\<rparr>"]
  by (simp add: saturate_def)

end
